theory Spec2Isabelle
  imports Complex_Main "HOL-Library.Sublist"
begin

unbundle bit_operations_syntax

section \<open>Conventions of the embedding\<close>

text \<open>
  The C++ sources compute in IEEE \<^verbatim>\<open>double\<close>. Throughout this development a
  \<^verbatim>\<open>double\<close> is modelled by a \<^typ>\<open>real\<close>: rounding, overflow to infinity and
  NaN are outside the model, and every statement below is about the exact
  arithmetic the code writes down. Where the source tests for infinity or NaN
  the test is written out as an explicit branch of the model, and the one
  loop of the sources that can end by underflow is given the underflow
  (\<open>dmul\<close> below). C++ \<^verbatim>\<open>int\<close>
  values are modelled by \<^typ>\<open>int\<close> (no arithmetic below comes near the
  32-bit range), sizes and loop counters by \<^typ>\<open>nat\<close>.
\<close>

text \<open>
  \<^verbatim>\<open>kb_Eh\<close>, the Boltzmann constant in Hartree per Kelvin, is defined in
  src/core/global.h, which is not among the sources. The functions below take
  it as a parameter; \<open>kb_Eh_au\<close> is the value used where a concrete state is
  evaluated.
\<close>

definition kb_Eh_au :: real where
  "kb_Eh_au = 3166811563 / 10 ^ 15"

section \<open>Assignment cost kernel (\<^verbatim>\<open>RMSDDriver::Cost\<close>, rmsd.h)\<close>

text \<open>The parameter \<^verbatim>\<open>norm\<close> of the source is written \<open>nrm\<close>.\<close>

definition Cost :: "real \<Rightarrow> real \<Rightarrow> int \<Rightarrow> real" where
  "Cost distance nrm costmatrix =
     (if costmatrix = 1 then distance * distance
      else if costmatrix = 2 then distance
      else if costmatrix = 3 then distance + nrm
      else if costmatrix = 4 then distance * distance + nrm * nrm
      else if costmatrix = 5 then distance * nrm
      else if costmatrix = 6 then distance * distance * nrm * nrm
      else distance * distance)"

section \<open>Reorder-rule cache (\<^verbatim>\<open>ConfScan::AddRules\<close>, \<^verbatim>\<open>ConfScan::LoadRestartInformation\<close>)\<close>

text \<open>
  \<^verbatim>\<open>m_reorder_rules\<close> is a \<^verbatim>\<open>std::vector<std::vector<int>>\<close>. The only two
  places of confscan.cpp that write to it are modelled here; every other use
  reads it or copies it.
\<close>

type_synonym rule = "int list"

text \<open>\<^verbatim>\<open>std::find(...) == end()\<close> followed by \<^verbatim>\<open>push_back\<close>.\<close>

definition push_if_absent :: "rule \<Rightarrow> rule list \<Rightarrow> rule list" where
  "push_if_absent r rs = (if r \<in> set rs then rs else rs @ [r])"

text \<open>
  \<^verbatim>\<open>AddRules\<close> returns the boolean of the source together with the new
  cache; \<open>skip_orders\<close> is the field \<^verbatim>\<open>m_skip_orders\<close>.
\<close>

definition AddRules :: "bool \<Rightarrow> rule \<Rightarrow> rule list \<Rightarrow> bool \<times> rule list" where
  "AddRules skip_orders rules m_reorder_rules =
     (if rules = [] \<or> skip_orders then (False, m_reorder_rules)
      else (True, push_if_absent rules m_reorder_rules))"

text \<open>
  The loop of \<^verbatim>\<open>LoadRestartInformation\<close> over one restart file: the rules read
  from the file (\<open>reorder_cached\<close>, empty when the file has none) are
  inserted one by one, and only when \<^verbatim>\<open>m_restart\<close> is set.
\<close>

fun load_cached :: "rule list \<Rightarrow> rule list \<Rightarrow> rule list" where
  "load_cached [] rs = rs"
| "load_cached (v # vs) rs = load_cached vs (push_if_absent v rs)"

text \<open>
  The loop over the restart files. A file that fails to parse is
  \<open>None\<close> (the source counts an error and continues with the next file).
\<close>

fun LoadRestartInformation :: "bool \<Rightarrow> rule list option list \<Rightarrow> rule list \<Rightarrow> rule list" where
  "LoadRestartInformation m_restart [] rs = rs"
| "LoadRestartInformation m_restart (None # fs) rs = LoadRestartInformation m_restart fs rs"
| "LoadRestartInformation m_restart (Some reorder_cached # fs) rs =
     LoadRestartInformation m_restart fs (if m_restart then load_cached reorder_cached rs else rs)"

text \<open>A run of the scanner writes to the cache through a sequence of these two operations.\<close>

datatype cache_op = OpAddRules bool rule | OpLoadRestart bool "rule list option list"

fun cache_step :: "cache_op \<Rightarrow> rule list \<Rightarrow> rule list" where
  "cache_step (OpAddRules skip r) rs = snd (AddRules skip r rs)"
| "cache_step (OpLoadRestart m_restart fs) rs = LoadRestartInformation m_restart fs rs"

fun cache_run :: "cache_op list \<Rightarrow> rule list \<Rightarrow> rule list" where
  "cache_run [] rs = rs"
| "cache_run (c # cs) rs = cache_run cs (cache_step c rs)"



section \<open>RMSD metadynamics: bias workers (\<^verbatim>\<open>BiasThread\<close>, simplemd.cpp)\<close>

type_synonym Geometry = "real list list"

text \<open>
  \<^verbatim>\<open>BiasStructure\<close>; the fields carry the prefix \<open>bs_\<close>. The visit counter is
  an integer, the other numbers are doubles.
\<close>

record BiasStructure =
  bs_geometry :: Geometry
  bs_rmsd_reference :: real
  bs_energy :: real
  bs_factor :: real
  bs_counter :: int
  bs_time :: real
  bs_index :: nat

text \<open>
  The fields of \<^verbatim>\<open>BiasThread\<close>. \<^verbatim>\<open>m_dT\<close>, \<^verbatim>\<open>m_rmsd_econv\<close> and
  \<^verbatim>\<open>m_currentStep\<close> of the worker are written \<open>bias_dT\<close>, \<open>bias_econv\<close> and
  \<open>bias_currentStep\<close>, to keep them apart from the fields of the same name of
  \<^verbatim>\<open>SimpleMD\<close>. \<open>m_reference\<close> is the geometry of the current configuration,
  \<open>return_value\<close> the value returned by the last \<^verbatim>\<open>execute\<close>.
\<close>

record BiasThread =
  m_biased_structures :: "BiasStructure list"
  m_reference :: Geometry
  m_current_bias :: real
  m_counter :: int
  m_rmsd_reference :: real
  m_gradient :: Geometry
  m_alpha :: real
  m_k :: real
  bias_dT :: real
  m_DT :: real
  m_wtmtd :: bool
  bias_econv :: real
  bias_currentStep :: real
  return_value :: int

text \<open>
  The RMSD driver is outside the modelled sources: \<open>BestFitRMSD ref tgt\<close>
  stands for \<^verbatim>\<open>m_driver.BestFitRMSD()\<close> after \<^verbatim>\<open>setReference\<close> and
  \<^verbatim>\<open>setTarget\<close>, and \<open>Gradient ref tgt\<close> for \<^verbatim>\<open>m_driver.Gradient()\<close>.
\<close>

record rmsd_driver =
  BestFitRMSD :: "Geometry \<Rightarrow> Geometry \<Rightarrow> real"
  Gradient :: "Geometry \<Rightarrow> Geometry \<Rightarrow> Geometry"

definition mat_add_scaled :: "Geometry \<Rightarrow> Geometry \<Rightarrow> real \<Rightarrow> Geometry" where
  "mat_add_scaled a b c = map2 (\<lambda>ra rb. map2 (\<lambda>x y. x + y * c) ra rb) a b"

text \<open>
  The body of the loop of \<^verbatim>\<open>BiasThread::execute\<close> for the structure at index
  \<open>i\<close>, with \<open>n = m_biased_structures.size()\<close>. It returns the updated
  structure and the updated worker.
\<close>

definition execute_body ::
  "rmsd_driver \<Rightarrow> real \<Rightarrow> nat \<Rightarrow> nat \<Rightarrow> BiasStructure \<Rightarrow> BiasThread \<Rightarrow> BiasStructure \<times> BiasThread" where
  "execute_body drv kb_Eh n i s bt =
     (let rmsd = BestFitRMSD drv (m_reference bt) (bs_geometry s);
          expr = exp (- rmsd * rmsd * m_alpha bt);
          bias_energy = expr * bias_dT bt;
          factor = (if \<not> m_wtmtd bt then real_of_int (bs_counter s)
                    else bs_factor s + exp (- (bs_energy s) / kb_Eh / m_DT bt));
          s = s\<lparr>bs_factor := factor\<rparr>;
          bt = (if i = 0 then bt\<lparr>m_rmsd_reference := rmsd\<rparr> else bt);
          s = (if expr * bias_econv bt > 1 * real n
               then s\<lparr>bs_counter := bs_counter s + 1, bs_energy := bs_energy s + bias_energy\<rparr>
               else s);
          bias_energy = bias_energy * (factor * m_k bt);
          dEdR = - 2 * m_alpha bt * m_k bt / real (length (m_reference bt))
                   * exp (- rmsd * rmsd * m_alpha bt) * factor * bias_dT bt
      in (s, bt\<lparr>m_current_bias := m_current_bias bt + bias_energy,
                 m_gradient := mat_add_scaled (m_gradient bt) (Gradient drv (m_reference bt) (bs_geometry s)) dEdR,
                 m_counter := m_counter bt + bs_counter s\<rparr>))"

fun execute_loop ::
  "rmsd_driver \<Rightarrow> real \<Rightarrow> nat \<Rightarrow> nat \<Rightarrow> BiasStructure list \<Rightarrow> BiasThread \<Rightarrow> BiasStructure list \<times> BiasThread" where
  "execute_loop drv kb_Eh n i [] bt = ([], bt)"
| "execute_loop drv kb_Eh n i (s # ss) bt =
     (case execute_body drv kb_Eh n i s bt of
        (s', bt') \<Rightarrow> (case execute_loop drv kb_Eh n (Suc i) ss bt' of (ss', bt'') \<Rightarrow> (s' # ss', bt'')))"

definition execute :: "rmsd_driver \<Rightarrow> real \<Rightarrow> BiasThread \<Rightarrow> BiasThread" where
  "execute drv kb_Eh bt =
     (if m_biased_structures bt = [] then bt\<lparr>return_value := 0\<rparr>
      else
        let bt = bt\<lparr>m_current_bias := 0, m_counter := 0,
                    m_gradient := replicate (length (m_reference bt)) [0, 0, 0]\<rparr>
        in case execute_loop drv kb_Eh (length (m_biased_structures bt)) 0 (m_biased_structures bt) bt of
             (ss, bt') \<Rightarrow> bt'\<lparr>m_biased_structures := ss, return_value := 1\<rparr>)"

text \<open>
  Modelled from the spec: \<^verbatim>\<open>BiasThread::addGeometry\<close> and
  \<^verbatim>\<open>BiasThread::setCurrentGeometry\<close> are defined in simplemd.h, which is not
  among the sources. A deposited structure records the geometry snapshot, the
  reference RMSD at deposition, the deposition time step and the global
  structure index, the four arguments of the call, and it is appended to the
  worker's list. With which deposited energy, visit counter and well-tempering
  accumulator a new structure starts is not said anywhere: \<open>fresh\<close> is the
  structure as the header makes it before the four arguments are stored, and
  every function below that deposits takes it as a parameter.
\<close>

definition addGeometry :: "BiasStructure \<Rightarrow> Geometry \<Rightarrow> real \<Rightarrow> real \<Rightarrow> nat \<Rightarrow> BiasThread \<Rightarrow> BiasThread" where
  "addGeometry fresh geometry rmsd_reference t idx bt =
     bt\<lparr>m_biased_structures := m_biased_structures bt @
          [fresh\<lparr>bs_geometry := geometry, bs_rmsd_reference := rmsd_reference, bs_time := t,
                 bs_index := idx\<rparr>]\<rparr>"

definition setCurrentGeometry :: "Geometry \<Rightarrow> real \<Rightarrow> BiasThread \<Rightarrow> BiasThread" where
  "setCurrentGeometry geometry step bt = bt\<lparr>m_reference := geometry, bias_currentStep := step\<rparr>"

text \<open>What a worker holds: the global index and the geometry of each of its structures, in order.\<close>

definition deposited_in :: "BiasThread \<Rightarrow> (nat \<times> Geometry) list" where
  "deposited_in bt = map (\<lambda>s. (bs_index s, bs_geometry s)) (m_biased_structures bt)"



text \<open>
  Modelled from the spec: the value of the member \<^verbatim>\<open>m_dT\<close> of \<^verbatim>\<open>BiasThread\<close>.
  The member is declared in simplemd.h, which is not among the sources, and no
  line of simplemd.cpp writes it: the constructor sets \<^verbatim>\<open>m_current_bias\<close>,
  \<^verbatim>\<open>m_counter\<close>, \<^verbatim>\<open>m_atoms\<close> and \<^verbatim>\<open>m_gradient\<close>, and \<^verbatim>\<open>Initialise\<close> calls
  \<^verbatim>\<open>setDT\<close> with the well-tempering temperature \<^verbatim>\<open>m_rmsd_DT\<close>, \<^verbatim>\<open>setk\<close>,
  \<^verbatim>\<open>setalpha\<close>, \<^verbatim>\<open>setEnergyConv\<close> and \<^verbatim>\<open>setWTMTD\<close>. The bias energy of the
  specification, \<open>k\<close> times the weighted sum of Gaussians, has no factor in
  the place where \<^verbatim>\<open>execute\<close> multiplies by \<^verbatim>\<open>m_dT\<close>; so the value is 1.
\<close>

definition BiasThread_m_dT :: real where
  "BiasThread_m_dT = 1"

text \<open>
  A worker with \<open>k = 3\<close> holding one structure that has been visited twice,
  evaluated at the deposited geometry itself with a driver that reports RMSD 0.
\<close>

definition driver0 :: rmsd_driver where
  "driver0 = \<lparr>BestFitRMSD = (\<lambda>r t. 0), Gradient = (\<lambda>r t. map (\<lambda>row. [0, 0, 0]) r)\<rparr>"

definition worker0 :: BiasThread where
  "worker0 =
     \<lparr>m_biased_structures = [], m_reference = [[0, 0, 0]], m_current_bias = 0, m_counter = 0,
      m_rmsd_reference = 0, m_gradient = [[0, 0, 0]], m_alpha = 1, m_k = 1, bias_dT = BiasThread_m_dT,
      m_DT = 1,
      m_wtmtd = False, bias_econv = 1, bias_currentStep = 0, return_value = 0\<rparr>"


text \<open>A new structure whose energy, factor and counter are zero, for the concrete runs.\<close>

definition fresh0 :: BiasStructure where
  "fresh0 = \<lparr>bs_geometry = [], bs_rmsd_reference = 0, bs_energy = 0, bs_factor = 0, bs_counter = 0,
             bs_time = 0, bs_index = 0\<rparr>"


section \<open>Molecular dynamics: state (simplemd.cpp)\<close>

text \<open>
  The kinetic temperature is the one quantity of the integrator whose NaN
  status the source inspects (\<^verbatim>\<open>std::isnan(T)\<close>). It is a quotient, so it is
  kept in a type that has the values an IEEE division of two finite numbers
  can produce. A zero divisor counts as \<open>+0\<close>.
\<close>

datatype double = Fin real | PInf | NInf | NaN

definition ddiv :: "real \<Rightarrow> real \<Rightarrow> double" where
  "ddiv x y = (if y \<noteq> 0 then Fin (x / y) else if x = 0 then NaN else if 0 < x then PInf else NInf)"

text \<open>\<open>c * d\<close> for a finite factor \<open>c\<close>.\<close>

fun dscale :: "real \<Rightarrow> double \<Rightarrow> double" where
  "dscale c (Fin x) = Fin (c * x)"
| "dscale c PInf = (if c = 0 then NaN else if 0 < c then PInf else NInf)"
| "dscale c NInf = (if c = 0 then NaN else if 0 < c then NInf else PInf)"
| "dscale c NaN = NaN"

text \<open>\<open>a > b\<close>; every comparison with NaN is false.\<close>

fun dgt :: "double \<Rightarrow> double \<Rightarrow> bool" where
  "dgt (Fin x) (Fin y) = (y < x)"
| "dgt PInf (Fin y) = True"
| "dgt PInf NInf = True"
| "dgt (Fin x) NInf = True"
| "dgt a b = False"

definition isnan :: "double \<Rightarrow> bool" where
  "isnan d = (d = NaN)"

text \<open>
  The fields of \<^verbatim>\<open>SimpleMD\<close> that the modelled functions read or write. The
  Eigen arrays are flat lists: geometry, velocities and gradient hold
  \<open>3 * m_natoms\<close> numbers (atom \<open>i\<close> at \<open>3i, 3i+1, 3i+2\<close>), and so do
  \<^verbatim>\<open>m_eigen_masses\<close> and \<^verbatim>\<open>m_eigen_inv_masses\<close>, which \<^verbatim>\<open>Initialise\<close> allocates
  as \<^verbatim>\<open>VectorXd::Zero(3*m_natoms)\<close>.
\<close>

record SimpleMD =
  m_natoms :: nat
  m_eigen_geometry :: "real list"
  m_eigen_velocities :: "real list"
  m_eigen_gradient :: "real list"
  m_eigen_masses :: "real list"
  m_eigen_inv_masses :: "real list"
  m_dT :: real
  m_dt2 :: real
  m_dof :: int
  m_T :: double
  m_T0 :: real
  m_Ekin :: real
  m_Epot :: real
  m_unstable :: bool
  m_step :: int
  m_currentStep :: real
  m_rmsd_mtd :: bool
  m_mtd_steps :: int
  m_bias_threads :: "BiasThread list"
  m_bias_structure_count :: nat
  m_threads :: int
  m_rmsd_econv :: real
  m_rmsd_fix_structure :: bool
  m_bias_energy :: real
  m_rmsd_indicies :: "nat list"
  m_colvar_incr :: int
  m_bond_constrained :: "((nat \<times> nat) \<times> real) list"
  m_bond_13_constrained :: "((nat \<times> nat) \<times> real) list"
  m_rattle_maxiter :: int
  m_rattle_max :: real
  m_rattle_min :: real
  m_rattle_tol_12 :: real
  m_rattle_tol_13 :: real
  m_rt_geom_1 :: "real list"
  m_rt_velo :: "real list"
  m_virial_correction :: real
  m_wall_temp :: real
  m_wall_beta :: real
  m_wall_spheric_radius :: real
  m_wall_x_min :: real
  m_wall_x_max :: real
  m_wall_y_min :: real
  m_wall_y_max :: real
  m_wall_z_min :: real
  m_wall_z_max :: real
  m_wall_violation_count :: int
  m_wall_violation_last_reported :: real

text \<open>
  A state with no atoms, no constraints, no bias workers and all numbers zero;
  the concrete states below are written as updates of it.
\<close>

definition blank :: SimpleMD where
  "blank =
     \<lparr>m_natoms = 0, m_eigen_geometry = [], m_eigen_velocities = [], m_eigen_gradient = [],
      m_eigen_masses = [], m_eigen_inv_masses = [], m_dT = 0, m_dt2 = 0, m_dof = 0, m_T = Fin 0,
      m_T0 = 0, m_Ekin = 0, m_Epot = 0, m_unstable = False, m_step = 0, m_currentStep = 0,
      m_rmsd_mtd = False, m_mtd_steps = 1, m_bias_threads = [], m_bias_structure_count = 0,
      m_threads = 1, m_rmsd_econv = 0, m_rmsd_fix_structure = False, m_bias_energy = 0,
      m_rmsd_indicies = [], m_colvar_incr = 0, m_bond_constrained = [], m_bond_13_constrained = [],
      m_rattle_maxiter = 0, m_rattle_max = 0, m_rattle_min = 0, m_rattle_tol_12 = 0,
      m_rattle_tol_13 = 0, m_rt_geom_1 = [], m_rt_velo = [], m_virial_correction = 0,
      m_wall_temp = 0, m_wall_beta = 0, m_wall_spheric_radius = 0, m_wall_x_min = 0,
      m_wall_x_max = 0, m_wall_y_min = 0, m_wall_y_max = 0, m_wall_z_min = 0, m_wall_z_max = 0,
      m_wall_violation_count = 0, m_wall_violation_last_reported = 0\<rparr>"

definition well_formed :: "SimpleMD \<Rightarrow> bool" where
  "well_formed st =
     (length (m_eigen_geometry st) = 3 * m_natoms st
      \<and> length (m_eigen_velocities st) = 3 * m_natoms st
      \<and> length (m_eigen_gradient st) = 3 * m_natoms st
      \<and> length (m_eigen_masses st) = 3 * m_natoms st
      \<and> length (m_eigen_inv_masses st) = 3 * m_natoms st)"

subsection \<open>Masses (\<^verbatim>\<open>SimpleMD::Initialise\<close>)\<close>

text \<open>
  The mass loop of \<^verbatim>\<open>Initialise\<close>: atom \<open>i\<close> of element \<open>m_atomtype[i]\<close>
  writes its mass to the three entries \<open>3i, 3i+1, 3i+2\<close> of
  \<^verbatim>\<open>m_eigen_masses\<close> and its reciprocal to the same entries of
  \<^verbatim>\<open>m_eigen_inv_masses\<close>; hydrogen (element 1) is scaled by \<^verbatim>\<open>m_hmass\<close>.
  \<open>AtomicMass\<close> stands for the table \<^verbatim>\<open>Elements::AtomicMass\<close> of
  src/core/elements.h.
\<close>

definition atom_mass :: "(int \<Rightarrow> real) \<Rightarrow> real \<Rightarrow> int \<Rightarrow> real" where
  "atom_mass AtomicMass m_hmass z = (if z = 1 then AtomicMass z * m_hmass else AtomicMass z)"

fun Initialise_masses :: "(int \<Rightarrow> real) \<Rightarrow> real \<Rightarrow> int list \<Rightarrow> real list" where
  "Initialise_masses AtomicMass m_hmass [] = []"
| "Initialise_masses AtomicMass m_hmass (z # zs) =
     atom_mass AtomicMass m_hmass z # atom_mass AtomicMass m_hmass z # atom_mass AtomicMass m_hmass z
       # Initialise_masses AtomicMass m_hmass zs"

fun Initialise_inv_masses :: "(int \<Rightarrow> real) \<Rightarrow> real \<Rightarrow> int list \<Rightarrow> real list" where
  "Initialise_inv_masses AtomicMass m_hmass [] = []"
| "Initialise_inv_masses AtomicMass m_hmass (z # zs) =
     1 / atom_mass AtomicMass m_hmass z # 1 / atom_mass AtomicMass m_hmass z # 1 / atom_mass AtomicMass m_hmass z
       # Initialise_inv_masses AtomicMass m_hmass zs"

subsection \<open>Kinetic energy (\<^verbatim>\<open>SimpleMD::EKin\<close>)\<close>

text \<open>
  One pass of the kinetic-energy loop, as it stands in \<^verbatim>\<open>EKin\<close>, \<^verbatim>\<open>Verlet\<close>
  and \<^verbatim>\<open>Rattle\<close>: the mass is read at index \<open>i\<close>, the velocity components at
  \<open>3i, 3i+1, 3i+2\<close>.
\<close>

definition ekin_add :: "real list \<Rightarrow> real list \<Rightarrow> nat \<Rightarrow> real \<Rightarrow> real" where
  "ekin_add masses v i ekin =
     ekin + masses ! i * (v ! (3 * i) * v ! (3 * i) + v ! (3 * i + 1) * v ! (3 * i + 1)
                          + v ! (3 * i + 2) * v ! (3 * i + 2))"

text \<open>\<open>kb_Eh\<close> is the Boltzmann constant in Hartree per Kelvin of src/core/global.h.\<close>

definition EKin :: "real \<Rightarrow> SimpleMD \<Rightarrow> SimpleMD" where
  "EKin kb_Eh st =
     (let ekin = fold (ekin_add (m_eigen_masses st) (m_eigen_velocities st)) [0..<m_natoms st] 0;
          ekin = ekin * 0.5
      in st\<lparr>m_Ekin := ekin, m_T := ddiv (2.0 * ekin) (kb_Eh * real_of_int (m_dof st))\<rparr>)"

text \<open>
  What the specification asks of the kinetic energy: one half of the sum over
  the atoms of the atom's own mass times its squared velocity. \<open>ms\<close> has one
  mass per atom.
\<close>

definition ekin_spec :: "real list \<Rightarrow> real list \<Rightarrow> real" where
  "ekin_spec ms v =
     (1 / 2) * (\<Sum>i\<leftarrow>[0..<length ms]. ms ! i * ((v ! (3 * i))\<^sup>2 + (v ! (3 * i + 1))\<^sup>2 + (v ! (3 * i + 2))\<^sup>2))"

text \<open>
  Hydroxyl, O then H, with the oxygen at rest and the hydrogen moving along x;
  \<open>AtomicMass_OH\<close> holds the two table entries used.
\<close>

definition AtomicMass_OH :: "int \<Rightarrow> real" where
  "AtomicMass_OH z = (if z = 1 then 1.008 else if z = 8 then 15.999 else 0)"

definition hydroxyl :: SimpleMD where
  "hydroxyl =
     blank\<lparr>m_natoms := 2,
      m_eigen_geometry := [0, 0, 0, 1, 0, 0],
      m_eigen_velocities := [0, 0, 0, 1, 0, 0],
      m_eigen_gradient := [0, 0, 0, 0, 0, 0],
      m_eigen_masses := Initialise_masses AtomicMass_OH 1 [8, 1],
      m_eigen_inv_masses := Initialise_inv_masses AtomicMass_OH 1 [8, 1],
      m_dT := 1, m_dt2 := 1, m_dof := 6, m_T0 := 300\<rparr>"


subsection \<open>Bias deposition (\<^verbatim>\<open>SimpleMD::ApplyRMSDMTD\<close>)\<close>

text \<open>
  \<open>current_geometry\<close>: the rows of the configuration at the atoms named by
  \<^verbatim>\<open>m_rmsd_indicies\<close>.
\<close>

definition current_geometry :: "SimpleMD \<Rightarrow> Geometry" where
  "current_geometry st =
     map (\<lambda>k. [m_eigen_geometry st ! (3 * k), m_eigen_geometry st ! (3 * k + 1),
               m_eigen_geometry st ! (3 * k + 2)]) (m_rmsd_indicies st)"

text \<open>
  The first block of \<^verbatim>\<open>ApplyRMSDMTD\<close>: when no structure has been deposited
  yet, the current geometry goes to worker 0.
\<close>

definition deposit_first :: "BiasStructure \<Rightarrow> SimpleMD \<Rightarrow> SimpleMD" where
  "deposit_first fresh st =
     (if m_bias_structure_count st = 0
      then st\<lparr>m_bias_threads := (m_bias_threads st)
                 [0 := addGeometry fresh (current_geometry st) 0 (m_currentStep st) 0 (m_bias_threads st ! 0)],
              m_bias_structure_count := m_bias_structure_count st + 1\<rparr>
      else st)"

text \<open>
  Adding the gradient of one worker to the rows of \<^verbatim>\<open>m_eigen_gradient\<close> named
  by \<^verbatim>\<open>m_rmsd_indicies\<close>.
\<close>

fun add_bias_gradient :: "nat list \<Rightarrow> Geometry \<Rightarrow> real list \<Rightarrow> real list" where
  "add_bias_gradient (k # ks) (row # rows) grad =
     add_bias_gradient ks rows
       (grad[3 * k := grad ! (3 * k) + row ! 0, 3 * k + 1 := grad ! (3 * k + 1) + row ! 1,
             3 * k + 2 := grad ! (3 * k + 2) + row ! 2])"
| "add_bias_gradient ks rows grad = grad"

text \<open>The accumulator of the two collecting loops: (current_bias, gradient, m_colvar_incr).\<close>

definition collect :: "nat list \<Rightarrow> BiasThread \<Rightarrow> real \<times> real list \<times> int \<Rightarrow> real \<times> real list \<times> int" where
  "collect indicies bt acc =
     (case acc of (current_bias, grad, incr) \<Rightarrow>
        (current_bias + m_current_bias bt, add_bias_gradient indicies (m_gradient bt) grad,
         incr + m_counter bt))"

text \<open>
  The branch for one thread or one structure: every worker gets the current
  geometry, is run, and is collected.
\<close>

fun serial_loop ::
  "rmsd_driver \<Rightarrow> real \<Rightarrow> nat list \<Rightarrow> Geometry \<Rightarrow> real \<Rightarrow> BiasThread list
     \<Rightarrow> real \<times> real list \<times> int \<Rightarrow> BiasThread list \<times> real \<times> real list \<times> int" where
  "serial_loop drv kb indicies geom step [] acc = ([], acc)"
| "serial_loop drv kb indicies geom step (bt # bts) acc =
     (let bt' = execute drv kb (setCurrentGeometry geom step bt)
      in case serial_loop drv kb indicies geom step bts (collect indicies bt' acc) of
           (bts', acc') \<Rightarrow> (bt' # bts', acc'))"

text \<open>
  The pool branch: the current geometry is given to the first
  \<open>m_bias_structure_count\<close> workers when there are fewer structures than
  threads and to all workers otherwise, the pool runs every worker, and the
  workers that returned 1 are collected.
\<close>

definition pool_set_geometry :: "Geometry \<Rightarrow> real \<Rightarrow> nat \<Rightarrow> int \<Rightarrow> BiasThread list \<Rightarrow> BiasThread list" where
  "pool_set_geometry geom step count threads bts =
     (if int count < threads
      then map (setCurrentGeometry geom step) (take count bts) @ drop count bts
      else map (setCurrentGeometry geom step) bts)"

fun pool_collect :: "nat list \<Rightarrow> BiasThread list \<Rightarrow> real \<times> real list \<times> int \<Rightarrow> real \<times> real list \<times> int" where
  "pool_collect indicies [] acc = acc"
| "pool_collect indicies (bt # bts) acc =
     pool_collect indicies bts (if return_value bt = 1 then collect indicies bt acc else acc)"

text \<open>
  The middle of \<^verbatim>\<open>ApplyRMSDMTD\<close>: the workers are evaluated and
  \<open>current_bias\<close> is summed. The result is \<open>current_bias\<close> and the state.
\<close>

definition evaluate_bias :: "rmsd_driver \<Rightarrow> real \<Rightarrow> SimpleMD \<Rightarrow> real \<times> SimpleMD" where
  "evaluate_bias drv kb st =
     (let geom = current_geometry st;
          res = (if m_threads st = 1 \<or> m_bias_structure_count st = 1
                 then serial_loop drv kb (m_rmsd_indicies st) geom (m_currentStep st) (m_bias_threads st)
                        (0, m_eigen_gradient st, 0)
                 else let bts = map (execute drv kb)
                                  (pool_set_geometry geom (m_currentStep st) (m_bias_structure_count st)
                                     (m_threads st) (m_bias_threads st))
                      in (bts, pool_collect (m_rmsd_indicies st) bts (0, m_eigen_gradient st, 0)))
      in case res of (bts, current_bias, grad, incr) \<Rightarrow>
           (current_bias,
            st\<lparr>m_bias_threads := bts, m_eigen_gradient := grad, m_colvar_incr := incr,
               m_bias_energy := m_bias_energy st + current_bias\<rparr>))"

text \<open>
  The last block: the test on \<open>current_bias\<close> and the deposition into worker
  \<open>m_bias_structure_count % m_bias_threads.size()\<close>. \<open>geom\<close> is the current
  geometry.
\<close>

definition deposit_next :: "BiasStructure \<Rightarrow> Geometry \<Rightarrow> real \<Rightarrow> SimpleMD \<Rightarrow> SimpleMD" where
  "deposit_next fresh geom current_bias st =
     (if current_bias * m_rmsd_econv st < real (m_bias_structure_count st) \<and> m_rmsd_fix_structure st = False
      then let thread_index = m_bias_structure_count st mod length (m_bias_threads st);
               rmsd_reference = m_rmsd_reference (m_bias_threads st ! 0)
           in st\<lparr>m_bias_threads := (m_bias_threads st)
                    [thread_index := addGeometry fresh geom rmsd_reference (m_currentStep st)
                                       (m_bias_structure_count st) (m_bias_threads st ! thread_index)],
                 m_bias_structure_count := m_bias_structure_count st + 1\<rparr>
      else st)"

text \<open>
  \<^verbatim>\<open>ApplyRMSDMTD\<close>. With no worker at all the source indexes an empty vector
  and divides by zero; that is the result \<open>None\<close>.
\<close>

definition ApplyRMSDMTD :: "rmsd_driver \<Rightarrow> real \<Rightarrow> BiasStructure \<Rightarrow> SimpleMD \<Rightarrow> SimpleMD option" where
  "ApplyRMSDMTD drv kb fresh st =
     (if m_bias_threads st = [] then None
      else case evaluate_bias drv kb (deposit_first fresh st) of
             (current_bias, st') \<Rightarrow> Some (deposit_next fresh (current_geometry st) current_bias st'))"

text \<open>
  The call site in \<^verbatim>\<open>Verlet\<close> and \<^verbatim>\<open>Rattle\<close>:
  \<^verbatim>\<open>if (m_rmsd_mtd) { if (m_step % m_mtd_steps == 0) ApplyRMSDMTD(); }\<close>. A remainder
  by zero is undefined in C++ (\<open>None\<close>); for a nonzero divisor the C++
  remainder is zero exactly when the divisor divides \<open>m_step\<close>, as in HOL.
  \<open>m_step\<close> is the member of \<^verbatim>\<open>SimpleMD\<close> that the two integrators read
  here. \<^verbatim>\<open>start\<close> counts the steps of its loop in a local variable of the
  same name (\<^verbatim>\<open>int m_step = 0;\<close>), and no line of simplemd.cpp writes the
  member; the gate is modelled as the integrators evaluate it.
\<close>

definition mtd_gate :: "rmsd_driver \<Rightarrow> real \<Rightarrow> BiasStructure \<Rightarrow> SimpleMD \<Rightarrow> SimpleMD option" where
  "mtd_gate drv kb fresh st =
     (if m_rmsd_mtd st
      then (if m_mtd_steps st = 0 then None
            else if m_step st mod m_mtd_steps st = 0 then ApplyRMSDMTD drv kb fresh st
            else Some st)
      else Some st)"

text \<open>
  One worker, well-tempered, nothing deposited yet; step 0 of a run that
  deposits every 10 steps.
\<close>

definition mtd_fresh :: SimpleMD where
  "mtd_fresh =
     blank\<lparr>m_natoms := 1, m_eigen_geometry := [0, 0, 0], m_eigen_velocities := [0, 0, 0],
      m_eigen_gradient := [0, 0, 0], m_eigen_masses := [1, 1, 1], m_eigen_inv_masses := [1, 1, 1],
      m_rmsd_mtd := True, m_mtd_steps := 10, m_step := 0, m_threads := 1,
      m_bias_threads := [worker0\<lparr>m_wtmtd := True\<rparr>], m_bias_structure_count := 0,
      m_rmsd_econv := 2, m_rmsd_indicies := [0]\<rparr>"


subsection \<open>Velocity Verlet (\<^verbatim>\<open>SimpleMD::Verlet\<close>) and the instability exit of \<^verbatim>\<open>SimpleMD::start\<close>\<close>

text \<open>
  What the integrator calls and the model does not spell out. The energy
  backend behind \<^verbatim>\<open>Energy()\<close> gives the energy and the new gradient for a
  geometry, and its error flags after the last calculation are
  \<open>interface_Error\<close> and \<open>interface_HasNan\<close>. The thermostat selected at
  start-up is one of \<^verbatim>\<open>None\<close>, \<^verbatim>\<open>Berendson\<close>, \<^verbatim>\<open>CSVR\<close>, \<^verbatim>\<open>Anderson\<close> and
  \<^verbatim>\<open>NoseHover\<close>; each of them writes the velocities and variables of its own
  (\<^verbatim>\<open>m_xi\<close>, \<^verbatim>\<open>m_Ekin_exchange\<close>, \<^verbatim>\<open>m_atom_temp\<close>, \<^verbatim>\<open>m_seed\<close>) and nothing
  else, three of them from random numbers: \<open>thermostat_velocities\<close> gives the
  velocities it leaves. The wall potential selected at start-up is one of the
  four wall functions or the constant 0; a wall function writes the gradient,
  \<^verbatim>\<open>m_wall_violation_count\<close> and \<^verbatim>\<open>m_wall_violation_last_reported\<close>, which
  \<open>wall_result\<close> gives in this order. \<^verbatim>\<open>RemoveRotations\<close> writes the
  velocities: \<open>rotation_velocities\<close>. \<open>driver\<close> is the RMSD driver of the
  bias workers and \<open>fresh_structure\<close> the new structure of \<open>addGeometry\<close>.
  \<open>use_rattle\<close> says which integrator \<^verbatim>\<open>LoadControlJson\<close> has put behind
  \<^verbatim>\<open>Integrator\<close>. The blocks of the integrators that talk to PLUMED are
  compiled only with \<^verbatim>\<open>USE_Plumed\<close> and are left out.
\<close>

record environment =
  env_kb :: real
  Energy :: "real list \<Rightarrow> real \<times> real list"
  thermostat_velocities :: "SimpleMD \<Rightarrow> real list"
  wall_result :: "SimpleMD \<Rightarrow> real list \<times> int \<times> real"
  rotation_velocities :: "SimpleMD \<Rightarrow> real list"
  driver :: rmsd_driver
  fresh_structure :: BiasStructure
  use_rattle :: bool
  interface_Error :: "real list \<Rightarrow> bool"
  interface_HasNan :: "real list \<Rightarrow> bool"

definition ThermostatFunction :: "environment \<Rightarrow> SimpleMD \<Rightarrow> SimpleMD" where
  "ThermostatFunction env st = st\<lparr>m_eigen_velocities := thermostat_velocities env st\<rparr>"

definition WallPotential :: "environment \<Rightarrow> SimpleMD \<Rightarrow> SimpleMD" where
  "WallPotential env st =
     (case wall_result env st of
        (gradient, counter, reported) \<Rightarrow>
          st\<lparr>m_eigen_gradient := gradient, m_wall_violation_count := counter,
             m_wall_violation_last_reported := reported\<rparr>)"

definition RemoveRotations :: "environment \<Rightarrow> SimpleMD \<Rightarrow> SimpleMD" where
  "RemoveRotations env st = st\<lparr>m_eigen_velocities := rotation_velocities env st\<rparr>"

definition temperature :: "real \<Rightarrow> real \<Rightarrow> int \<Rightarrow> double" where
  "temperature kb ekin dof = ddiv (2.0 * ekin) (kb * real_of_int dof)"

text \<open>First loop: positions, half kick, kinetic energy. The accumulator is (geometry, velocities, ekin).\<close>

definition Verlet_first_body ::
  "SimpleMD \<Rightarrow> nat \<Rightarrow> real list \<times> real list \<times> real \<Rightarrow> real list \<times> real list \<times> real" where
  "Verlet_first_body st i acc =
     (case acc of (geom, velo, ekin) \<Rightarrow>
      let g = m_eigen_gradient st; inv = m_eigen_inv_masses st;
          geom' = geom[3 * i := geom ! (3 * i) + m_dT st * velo ! (3 * i)
                                  - 0.5 * g ! (3 * i) * inv ! (3 * i) * m_dt2 st,
                       3 * i + 1 := geom ! (3 * i + 1) + m_dT st * velo ! (3 * i + 1)
                                  - 0.5 * g ! (3 * i + 1) * inv ! (3 * i + 1) * m_dt2 st,
                       3 * i + 2 := geom ! (3 * i + 2) + m_dT st * velo ! (3 * i + 2)
                                  - 0.5 * g ! (3 * i + 2) * inv ! (3 * i + 2) * m_dt2 st];
          velo' = velo[3 * i := velo ! (3 * i) - 0.5 * m_dT st * g ! (3 * i) * inv ! (3 * i),
                       3 * i + 1 := velo ! (3 * i + 1) - 0.5 * m_dT st * g ! (3 * i + 1) * inv ! (3 * i + 1),
                       3 * i + 2 := velo ! (3 * i + 2) - 0.5 * m_dT st * g ! (3 * i + 2) * inv ! (3 * i + 2)]
      in (geom', velo', ekin_add (m_eigen_masses st) velo' i ekin))"

text \<open>Second loop: half kick with the new gradient, kinetic energy. The accumulator is (velocities, ekin).\<close>

definition Verlet_second_body :: "SimpleMD \<Rightarrow> nat \<Rightarrow> real list \<times> real \<Rightarrow> real list \<times> real" where
  "Verlet_second_body st i acc =
     (case acc of (velo, ekin) \<Rightarrow>
      let g = m_eigen_gradient st; inv = m_eigen_inv_masses st;
          velo' = velo[3 * i := velo ! (3 * i) - 0.5 * m_dT st * g ! (3 * i) * inv ! (3 * i),
                       3 * i + 1 := velo ! (3 * i + 1) - 0.5 * m_dT st * g ! (3 * i + 1) * inv ! (3 * i + 1),
                       3 * i + 2 := velo ! (3 * i + 2) - 0.5 * m_dT st * g ! (3 * i + 2) * inv ! (3 * i + 2)]
      in (velo', ekin_add (m_eigen_masses st) velo' i ekin))"

text \<open>The temperature computed by the first loop, after the first half kick.\<close>

definition first_T :: "environment \<Rightarrow> SimpleMD \<Rightarrow> double" where
  "first_T env st =
     (case fold (Verlet_first_body st) [0..<m_natoms st] (m_eigen_geometry st, m_eigen_velocities st, 0) of
        (geom, velo, ekin) \<Rightarrow> temperature (env_kb env) (ekin * 0.5) (m_dof st))"

text \<open>
  \<^verbatim>\<open>Verlet\<close> up to and including \<^verbatim>\<open>WallPotential()\<close>. The result is \<open>None\<close>
  when the metadynamics call divides by zero.
\<close>

definition Verlet_upto_walls :: "environment \<Rightarrow> SimpleMD \<Rightarrow> SimpleMD option" where
  "Verlet_upto_walls env st =
     (case fold (Verlet_first_body st) [0..<m_natoms st] (m_eigen_geometry st, m_eigen_velocities st, 0) of
        (geom, velo, ekin) \<Rightarrow>
          let ekin = ekin * 0.5;
              st = st\<lparr>m_eigen_geometry := geom, m_eigen_velocities := velo,
                      m_T := temperature (env_kb env) ekin (m_dof st), m_Ekin := ekin\<rparr>;
              st = ThermostatFunction env st;
              st = (case Energy env (m_eigen_geometry st) of
                      (e, g) \<Rightarrow> st\<lparr>m_Epot := e, m_eigen_gradient := g\<rparr>)
          in map_option (WallPotential env) (mtd_gate (driver env) (env_kb env) (fresh_structure env) st))"

text \<open>The temperature \<open>T\<close> computed by the second loop, from the state after the walls.\<close>

definition second_T :: "environment \<Rightarrow> SimpleMD \<Rightarrow> double" where
  "second_T env st =
     (case fold (Verlet_second_body st) [0..<m_natoms st] (m_eigen_velocities st, 0) of
        (velo, ekin) \<Rightarrow> temperature (env_kb env) (ekin * 0.5) (m_dof st))"

text \<open>The rest of \<^verbatim>\<open>Verlet\<close>: second loop, instability flag, thermostat, \<^verbatim>\<open>EKin()\<close>.\<close>

definition Verlet_second :: "environment \<Rightarrow> SimpleMD \<Rightarrow> SimpleMD" where
  "Verlet_second env st =
     (case fold (Verlet_second_body st) [0..<m_natoms st] (m_eigen_velocities st, 0) of
        (velo, ekin) \<Rightarrow>
          let ekin = ekin * 0.5;
              T = temperature (env_kb env) ekin (m_dof st);
              st = st\<lparr>m_eigen_velocities := velo,
                      m_unstable := (dgt T (dscale 10000 (m_T st)) \<or> isnan T),
                      m_T := T, m_Ekin := ekin\<rparr>;
              st = ThermostatFunction env st
          in EKin (env_kb env) st)"

definition Verlet :: "environment \<Rightarrow> SimpleMD \<Rightarrow> SimpleMD option" where
  "Verlet env st = map_option (Verlet_second env) (Verlet_upto_walls env st)"

text \<open>
  The test of the main loop of \<^verbatim>\<open>start\<close> after the integrator has run: on
  \<open>Aborted\<close> the state is written to unstable_curcuma.json and \<^verbatim>\<open>start\<close>
  returns.
\<close>

datatype run = Aborted SimpleMD | Running SimpleMD

definition unstable_exit :: "environment \<Rightarrow> SimpleMD \<Rightarrow> run" where
  "unstable_exit env st =
     (if m_unstable st \<or> interface_Error env (m_eigen_geometry st) \<or> interface_HasNan env (m_eigen_geometry st)
      then Aborted st else Running st)"

text \<open>
  One atom of mass 1 with time step 1 and no thermostat, wall or bias; the
  backend reports no error. In \<open>cold_start\<close> the atom is at rest, the target
  temperature is 300 and the backend returns the gradient (0.002, 0, 0). In
  \<open>hot_run\<close> the atom moves with velocity (1, 0, 0), the target temperature is
  10 and the gradient is zero.
\<close>

definition plain_env :: "real list \<Rightarrow> environment" where
  "plain_env grad =
     \<lparr>env_kb = kb_Eh_au, Energy = (\<lambda>geom. (0, grad)), thermostat_velocities = m_eigen_velocities,
      wall_result = (\<lambda>st. (m_eigen_gradient st, m_wall_violation_count st,
                            m_wall_violation_last_reported st)),
      rotation_velocities = m_eigen_velocities, driver = driver0, fresh_structure = fresh0,
      use_rattle = False, interface_Error = (\<lambda>geom. False), interface_HasNan = (\<lambda>geom. False)\<rparr>"

definition cold_start :: SimpleMD where
  "cold_start =
     blank\<lparr>m_natoms := 1, m_eigen_geometry := [0, 0, 0], m_eigen_velocities := [0, 0, 0],
      m_eigen_gradient := [0, 0, 0], m_eigen_masses := [1, 1, 1], m_eigen_inv_masses := [1, 1, 1],
      m_dT := 1, m_dt2 := 1, m_dof := 3, m_T0 := 300\<rparr>"

definition hot_run :: SimpleMD where
  "hot_run = cold_start\<lparr>m_eigen_velocities := [1, 0, 0], m_T0 := 10\<rparr>"


text \<open>
  Two plain workers, nothing deposited yet, and the energy-convergence factor
  0, with which the test on the bias energy holds whatever the bias energy is;
  otherwise as \<open>mtd_fresh\<close>.
\<close>

definition mtd_pair :: SimpleMD where
  "mtd_pair = mtd_fresh\<lparr>m_threads := 2, m_bias_threads := [worker0, worker0], m_rmsd_econv := 0\<rparr>"

text \<open>
  What the specification states for the instability flag, for a state whose
  coordinates are numbers: the temperature exceeds 10000 times the target
  temperature.
\<close>

definition unstable_spec :: "double \<Rightarrow> real \<Rightarrow> bool" where
  "unstable_spec T T0 = dgt T (Fin (10000 * T0))"


subsection \<open>RATTLE (\<^verbatim>\<open>SimpleMD::Rattle\<close>)\<close>

text \<open>
  A call of \<^verbatim>\<open>Rattle\<close> can end in four ways. It returns (\<open>Some (Done _)\<close>);
  it leaves the program through \<^verbatim>\<open>exit(0)\<close> when a multiplier is infinite or
  NaN (\<open>Some Exit\<close>); it goes on with a multiplier that is NaN, after which
  its numbers are no longer numbers (\<open>Some NotANumber\<close>); or it produces no
  result at all (\<open>None\<close>), when a scaling loop never ends or the
  metadynamics call divides by zero. An infinite or NaN multiplier can arise
  from finite numbers only through a division by zero, which is written out.
\<close>

datatype 'a outcome = Done 'a | Exit | NotANumber

text \<open>Squared distance of atoms \<open>i\<close> and \<open>j\<close> in a flat coordinate array.\<close>

definition sq_distance :: "real list \<Rightarrow> nat \<Rightarrow> nat \<Rightarrow> real" where
  "sq_distance xs i j =
     (xs ! (3 * i) - xs ! (3 * j)) * (xs ! (3 * i) - xs ! (3 * j))
     + (xs ! (3 * i + 1) - xs ! (3 * j + 1)) * (xs ! (3 * i + 1) - xs ! (3 * j + 1))
     + (xs ! (3 * i + 2) - xs ! (3 * j + 2)) * (xs ! (3 * i + 2) - xs ! (3 * j + 2))"

text \<open>The block \<^verbatim>\<open>if (std::abs(scalarproduct) < m_rattle_min) ...\<close>.\<close>

definition clamp_scalarproduct :: "real \<Rightarrow> real \<Rightarrow> real" where
  "clamp_scalarproduct rattle_min scalarproduct =
     (if \<bar>scalarproduct\<bar> < rattle_min
      then (if scalarproduct < 0 then - 1 * rattle_min else rattle_min)
      else scalarproduct)"

text \<open>
  The product of two doubles as the scaling loop needs it: a product whose
  exact magnitude is at most half the smallest positive double \<open>2\<^sup>-\<^sup>1\<^sup>0\<^sup>7\<^sup>4\<close>
  is zero (round to nearest, ties to even); every other product is exact here.
\<close>

definition denorm_half :: real where
  "denorm_half = 1 / 2 ^ 1075"

definition dmul :: "real \<Rightarrow> real \<Rightarrow> real" where
  "dmul x y = (if \<bar>x * y\<bar> \<le> denorm_half then 0 else x * y)"

text \<open>
  \<^verbatim>\<open>while (std::abs(lambda) > max) lambda *= scale;\<close> The loop does not end
  when \<open>max\<close> is negative; for \<open>max = 0\<close> it ends when the multiplier has
  become zero.
\<close>

partial_function (option) scale_lambda :: "real \<Rightarrow> real \<Rightarrow> real \<Rightarrow> real option" where
  "scale_lambda mx scale lambda =
     (if \<bar>lambda\<bar> > mx then scale_lambda mx scale (dmul lambda scale) else Some lambda)"

text \<open>
  The local variables of \<^verbatim>\<open>Rattle\<close> that live across its loops. The
  variables \<^verbatim>\<open>difference\<close>, \<^verbatim>\<open>sum_mu\<close> and \<^verbatim>\<open>sum_active\<close> are written but
  never read and are left out.
\<close>

record rattle_locals =
  coord :: "real list"
  moved_12 :: "int list"
  moved_13 :: "int list"
  move :: bool
  local_dof :: int
  difference_prev :: real
  difference_curr :: real
  active :: int

text \<open>Three consecutive entries of a flat array, written in the order of the source.\<close>

definition set3 :: "real list \<Rightarrow> nat \<Rightarrow> real \<Rightarrow> real \<Rightarrow> real \<Rightarrow> real list" where
  "set3 xs i x y z = xs[3 * i := x, 3 * i + 1 := y, 3 * i + 2 := z]"

text \<open>
  The parts of the body of the bond loops of the position iteration, for the
  bond of the atoms \<open>i\<close> and \<open>j\<close>. \<open>bond_scalarproduct\<close> is the variable
  \<^verbatim>\<open>scalarproduct\<close> as it is first computed, from the geometry of the last
  step and the positions in \<^verbatim>\<open>m_rt_geom_1\<close>. \<open>position_count\<close> is the
  bookkeeping (\<^verbatim>\<open>move\<close>, \<^verbatim>\<open>moved_12\<close> or \<^verbatim>\<open>moved_13\<close>, \<^verbatim>\<open>local_dof\<close>,
  \<^verbatim>\<open>active\<close>). \<open>position_correct\<close> is what follows the scaling loop: the
  positions and velocities of the two atoms in \<^verbatim>\<open>m_rt_geom_1\<close> and
  \<^verbatim>\<open>m_rt_velo\<close> are set from \<^verbatim>\<open>coord\<close> and the velocities with the multiplier
  \<open>lambda\<close>, and the change of the squared distance is added to
  \<^verbatim>\<open>difference_curr\<close>.
\<close>

definition bond_scalarproduct :: "SimpleMD \<Rightarrow> nat \<Rightarrow> nat \<Rightarrow> real" where
  "bond_scalarproduct st i j =
     (let rt = m_rt_geom_1 st; geom = m_eigen_geometry st;
          dx = geom ! (3 * i) - geom ! (3 * j);
          dy = geom ! (3 * i + 1) - geom ! (3 * j + 1);
          dz = geom ! (3 * i + 2) - geom ! (3 * j + 2)
      in dx * (rt ! (3 * i) - rt ! (3 * j)) + dy * (rt ! (3 * i + 1) - rt ! (3 * j + 1))
         + dz * (rt ! (3 * i + 2) - rt ! (3 * j + 2)))"

definition position_count :: "bool \<Rightarrow> rattle_locals \<Rightarrow> nat \<Rightarrow> nat \<Rightarrow> rattle_locals" where
  "position_count is13 lv i j =
     (let moved = (if is13 then moved_13 lv else moved_12 lv);
          moved = moved[i := moved ! i + 1];
          moved = moved[j := moved ! j + 1];
          lv = (if is13 then lv\<lparr>moved_13 := moved\<rparr> else lv\<lparr>moved_12 := moved\<rparr>)
      in lv\<lparr>move := True,
             local_dof := (if moved ! i = 1 then local_dof lv + 1 else local_dof lv),
             active := active lv + 1\<rparr>)"

definition position_correct ::
  "SimpleMD \<times> rattle_locals \<Rightarrow> nat \<Rightarrow> nat \<Rightarrow> real \<Rightarrow> real \<Rightarrow> SimpleMD \<times> rattle_locals" where
  "position_correct sl i j distance_current lambda =
     (case sl of (st, lv) \<Rightarrow>
      let rt = m_rt_geom_1 st; geom = m_eigen_geometry st; inv = m_eigen_inv_masses st;
          velo = m_eigen_velocities st; crd = coord lv;
          m_dT_inverse = 1 / m_dT st;
          dx = geom ! (3 * i) - geom ! (3 * j);
          dy = geom ! (3 * i + 1) - geom ! (3 * j + 1);
          dz = geom ! (3 * i + 2) - geom ! (3 * j + 2);
          rt = set3 rt i (crd ! (3 * i) + dx * lambda * 0.5 * inv ! i)
                         (crd ! (3 * i + 1) + dy * lambda * 0.5 * inv ! i)
                         (crd ! (3 * i + 2) + dz * lambda * 0.5 * inv ! i);
          rt = set3 rt j (crd ! (3 * j) - dx * lambda * 0.5 * inv ! j)
                         (crd ! (3 * j + 1) - dy * lambda * 0.5 * inv ! j)
                         (crd ! (3 * j + 2) - dz * lambda * 0.5 * inv ! j);
          distance_current_New = sq_distance rt i j;
          rv = m_rt_velo st;
          rv = set3 rv i (velo ! (3 * i) + dx * lambda * 0.5 * inv ! i * m_dT_inverse)
                         (velo ! (3 * i + 1) + dy * lambda * 0.5 * inv ! i * m_dT_inverse)
                         (velo ! (3 * i + 2) + dz * lambda * 0.5 * inv ! i * m_dT_inverse);
          rv = set3 rv j (velo ! (3 * j) - dx * lambda * 0.5 * inv ! j * m_dT_inverse)
                         (velo ! (3 * j + 1) - dy * lambda * 0.5 * inv ! j * m_dT_inverse)
                         (velo ! (3 * j + 2) - dz * lambda * 0.5 * inv ! j * m_dT_inverse)
      in (st\<lparr>m_rt_geom_1 := rt, m_rt_velo := rv\<rparr>,
          lv\<lparr>difference_curr := difference_curr lv + \<bar>distance_current_New - distance_current\<bar>\<rparr>))"

text \<open>
  One pass of the body of the loops over \<^verbatim>\<open>m_bond_constrained\<close>
  (\<open>is13 = False\<close>, tolerance \<^verbatim>\<open>m_rattle_tol_12\<close>, counters \<^verbatim>\<open>moved_12\<close>) and
  over \<^verbatim>\<open>m_bond_13_constrained\<close> (\<open>is13 = True\<close>, tolerance
  \<^verbatim>\<open>m_rattle_tol_13\<close>, counters \<^verbatim>\<open>moved_13\<close>) in the position iteration. The
  two bodies differ in one more point: the first leaves through \<^verbatim>\<open>exit(0)\<close>
  on an infinite and on a NaN multiplier, the second on an infinite one only.
  The masses are read at the indices \<open>i\<close> and \<open>j\<close>, as the source reads them.
\<close>

definition position_bond ::
  "bool \<Rightarrow> SimpleMD \<times> rattle_locals \<Rightarrow> (nat \<times> nat) \<times> real
     \<Rightarrow> (SimpleMD \<times> rattle_locals) outcome option" where
  "position_bond is13 sl bond =
     (case sl of (st, lv) \<Rightarrow> case bond of ((i, j), distance) \<Rightarrow>
      let inv = m_eigen_inv_masses st;
          distance_current = sq_distance (m_rt_geom_1 st) i j
      in if \<bar>distance - distance_current\<bar> > (if is13 then m_rattle_tol_13 st else m_rattle_tol_12 st)
         then
           let r = distance - distance_current;
               scalarproduct = bond_scalarproduct st i j;
               lv = position_count is13 lv i j;
               scalarproduct = clamp_scalarproduct (m_rattle_min st) scalarproduct;
               denominator = 1 * (inv ! i + inv ! j) * scalarproduct
           in if denominator = 0
              then (if r \<noteq> 0 then Some Exit else if is13 then Some NotANumber else Some Exit)
              else
                (case scale_lambda (m_rattle_max st) 0.1 (r / denominator) of
                   None \<Rightarrow> None
                 | Some lambda \<Rightarrow> Some (Done (position_correct (st, lv) i j distance_current lambda)))
         else Some (Done (st, lv)))"

text \<open>A loop over a list of bonds; it stops at the first pass that does not return normally.\<close>

fun bonds_loop :: "('s \<Rightarrow> 'b \<Rightarrow> 's outcome option) \<Rightarrow> 'b list \<Rightarrow> 's \<Rightarrow> 's outcome option" where
  "bonds_loop f [] s = Some (Done s)"
| "bonds_loop f (b # bs) s =
     (case f s b of
        None \<Rightarrow> None
      | Some (Done s') \<Rightarrow> bonds_loop f bs s'
      | Some Exit \<Rightarrow> Some Exit
      | Some NotANumber \<Rightarrow> Some NotANumber)"

text \<open>The first \<open>3 * n\<close> entries of \<open>dst\<close> are overwritten with those of \<open>src\<close>.\<close>

definition copy3 :: "nat \<Rightarrow> real list \<Rightarrow> real list \<Rightarrow> real list" where
  "copy3 n src dst = take (3 * n) src @ drop (3 * n) dst"

text \<open>The body of the first \<^verbatim>\<open>while (iter < m_rattle_maxiter)\<close>, after \<^verbatim>\<open>iter++\<close>.\<close>

definition position_iteration :: "SimpleMD \<times> rattle_locals \<Rightarrow> (SimpleMD \<times> rattle_locals) outcome option" where
  "position_iteration sl =
     (case sl of (st, lv) \<Rightarrow>
      let lv = lv\<lparr>difference_prev := difference_curr lv, difference_curr := 0, active := 0\<rparr>
      in case bonds_loop (position_bond False) (m_bond_constrained st) (st, lv) of
           None \<Rightarrow> None
         | Some Exit \<Rightarrow> Some Exit
         | Some NotANumber \<Rightarrow> Some NotANumber
         | Some (Done (st, lv)) \<Rightarrow>
             (case bonds_loop (position_bond True) (m_bond_13_constrained st) (st, lv) of
                None \<Rightarrow> None
              | Some Exit \<Rightarrow> Some Exit
              | Some NotANumber \<Rightarrow> Some NotANumber
              | Some (Done (st, lv)) \<Rightarrow>
                  Some (Done (st\<lparr>m_eigen_velocities := copy3 (m_natoms st) (m_rt_velo st) (m_eigen_velocities st)\<rparr>,
                              lv\<lparr>coord := copy3 (m_natoms st) (m_rt_geom_1 st) (coord lv)\<rparr>))))"

text \<open>
  The first \<^verbatim>\<open>while (iter < m_rattle_maxiter)\<close>: \<open>maxiter\<close> is
  \<^verbatim>\<open>m_rattle_maxiter\<close>, which the body does not write, and \<open>iter\<close> the counter.
  The loop returns the final counter with the state.
\<close>

function position_loop ::
  "int \<Rightarrow> nat \<Rightarrow> SimpleMD \<times> rattle_locals \<Rightarrow> (nat \<times> SimpleMD \<times> rattle_locals) outcome option" where
  "position_loop maxiter iter sl =
     (if int iter < maxiter
      then (case position_iteration sl of
              None \<Rightarrow> None
            | Some Exit \<Rightarrow> Some Exit
            | Some NotANumber \<Rightarrow> Some NotANumber
            | Some (Done sl') \<Rightarrow> position_loop maxiter (iter + 1) sl')
      else Some (Done (iter, sl)))"
  by pat_completeness auto
termination
  by (relation "measure (\<lambda>(maxiter, iter, sl). nat (maxiter - int iter))") auto

declare position_loop.simps [simp del]


text \<open>
  The parts of the body of the bond loops of the velocity iteration.
  \<open>velocity_count\<close> takes the bond off the counters \<^verbatim>\<open>moved_12\<close> or
  \<^verbatim>\<open>moved_13\<close>. \<open>velocity_numerator\<close> is \<^verbatim>\<open>mu\<close> as it is first computed,
  without its divisor \<open>(inv_i + inv_j) * distance_current\<close>, which is
  \<open>velocity_divisor\<close>. \<open>velocity_correct\<close> is what follows the scaling loop:
  \<^verbatim>\<open>active\<close>, the virial correction and the velocities of the two atoms.
\<close>

definition velocity_count :: "bool \<Rightarrow> rattle_locals \<Rightarrow> nat \<Rightarrow> nat \<Rightarrow> rattle_locals" where
  "velocity_count is13 lv i j =
     (let moved = (if is13 then moved_13 lv else moved_12 lv);
          moved = moved[i := moved ! i - 1];
          moved = moved[j := moved ! j - 1]
      in (if is13 then lv\<lparr>moved_13 := moved\<rparr> else lv\<lparr>moved_12 := moved\<rparr>))"

definition velocity_numerator :: "SimpleMD \<times> rattle_locals \<Rightarrow> nat \<Rightarrow> nat \<Rightarrow> real" where
  "velocity_numerator sl i j =
     (case sl of (st, lv) \<Rightarrow>
      let crd = coord lv; velo = m_eigen_velocities st;
          dx = crd ! (3 * i) - crd ! (3 * j);
          dy = crd ! (3 * i + 1) - crd ! (3 * j + 1);
          dz = crd ! (3 * i + 2) - crd ! (3 * j + 2);
          dvx = velo ! (3 * i) - velo ! (3 * j);
          dvy = velo ! (3 * i + 1) - velo ! (3 * j + 1);
          dvz = velo ! (3 * i + 2) - velo ! (3 * j + 2)
      in dx * dvx + dy * dvy + dz * dvz)"

definition velocity_divisor :: "SimpleMD \<times> rattle_locals \<Rightarrow> nat \<Rightarrow> nat \<Rightarrow> real" where
  "velocity_divisor sl i j =
     (case sl of (st, lv) \<Rightarrow>
        (m_eigen_inv_masses st ! i + m_eigen_inv_masses st ! j) * sq_distance (coord lv) i j)"

definition velocity_correct ::
  "SimpleMD \<times> rattle_locals \<Rightarrow> nat \<Rightarrow> nat \<Rightarrow> real \<Rightarrow> SimpleMD \<times> rattle_locals" where
  "velocity_correct sl i j mu =
     (case sl of (st, lv) \<Rightarrow>
      let crd = coord lv; velo = m_eigen_velocities st; inv = m_eigen_inv_masses st;
          distance_current = sq_distance crd i j;
          dx = crd ! (3 * i) - crd ! (3 * j);
          dy = crd ! (3 * i + 1) - crd ! (3 * j + 1);
          dz = crd ! (3 * i + 2) - crd ! (3 * j + 2);
          velo = set3 velo i (velo ! (3 * i) + dx * mu * inv ! i)
                             (velo ! (3 * i + 1) + dy * mu * inv ! i)
                             (velo ! (3 * i + 2) + dz * mu * inv ! i);
          velo = set3 velo j (velo ! (3 * j) - dx * mu * inv ! j)
                             (velo ! (3 * j + 1) - dy * mu * inv ! j)
                             (velo ! (3 * j + 2) - dz * mu * inv ! j)
      in (st\<lparr>m_virial_correction := m_virial_correction st + mu * distance_current,
             m_eigen_velocities := velo\<rparr>,
          lv\<lparr>active := 1\<rparr>))"

text \<open>
  One pass of the body of the two bond loops of the velocity iteration. The
  multiplier \<open>mu\<close> is divided by \<open>(inv_i + inv_j) * distance_current\<close>
  without any guard. When that product is zero and the numerator is not,
  \<open>mu\<close> is infinite and the scaling loop that follows never ends (\<open>None\<close>).
\<close>

definition velocity_bond ::
  "bool \<Rightarrow> SimpleMD \<times> rattle_locals \<Rightarrow> (nat \<times> nat) \<times> real
     \<Rightarrow> (SimpleMD \<times> rattle_locals) outcome option" where
  "velocity_bond is13 sl bond =
     (case sl of (st, lv) \<Rightarrow> case bond of ((i, j), distance) \<Rightarrow>
      let moved = (if is13 then moved_13 lv else moved_12 lv)
      in if moved ! i \<noteq> 0 \<and> moved ! j \<noteq> 0
         then
           let lv = velocity_count is13 lv i j;
               r = velocity_numerator (st, lv) i j;
               denominator = velocity_divisor (st, lv) i j
           in if denominator = 0
              then (if r \<noteq> 0 then None else Some NotANumber)
              else
                (case scale_lambda (m_rattle_max st) 0.1 (- 1 * r / denominator) of
                   None \<Rightarrow> None
                 | Some mu \<Rightarrow> Some (Done (velocity_correct (st, lv) i j mu)))
         else Some (Done (st, lv)))"

text \<open>The body of the second \<^verbatim>\<open>while (iter < m_rattle_maxiter)\<close>, after \<^verbatim>\<open>iter++\<close>, up to the test of \<^verbatim>\<open>active\<close>.\<close>

definition velocity_iteration :: "SimpleMD \<times> rattle_locals \<Rightarrow> (SimpleMD \<times> rattle_locals) outcome option" where
  "velocity_iteration sl =
     (case sl of (st, lv) \<Rightarrow>
      case bonds_loop (velocity_bond False) (m_bond_constrained st) (st, lv\<lparr>active := 0\<rparr>) of
        None \<Rightarrow> None
      | Some Exit \<Rightarrow> Some Exit
      | Some NotANumber \<Rightarrow> Some NotANumber
      | Some (Done (st, lv)) \<Rightarrow> bonds_loop (velocity_bond True) (m_bond_13_constrained st) (st, lv))"

text \<open>The second \<^verbatim>\<open>while (iter < m_rattle_maxiter)\<close>, with its \<^verbatim>\<open>break\<close> when no constraint was active.\<close>

function velocity_loop ::
  "int \<Rightarrow> nat \<Rightarrow> SimpleMD \<times> rattle_locals \<Rightarrow> (nat \<times> SimpleMD \<times> rattle_locals) outcome option" where
  "velocity_loop maxiter iter sl =
     (if int iter < maxiter
      then (case velocity_iteration sl of
              None \<Rightarrow> None
            | Some Exit \<Rightarrow> Some Exit
            | Some NotANumber \<Rightarrow> Some NotANumber
            | Some (Done sl') \<Rightarrow>
                if active (snd sl') = 0 then Some (Done (iter + 1, sl'))
                else velocity_loop maxiter (iter + 1) sl')
      else Some (Done (iter, sl)))"
  by pat_completeness auto
termination
  by (relation "measure (\<lambda>(maxiter, iter, sl). nat (maxiter - int iter))") auto

declare velocity_loop.simps [simp del]

text \<open>
  The first loop of \<^verbatim>\<open>Rattle\<close>: predicted positions into \<^verbatim>\<open>coord\<close> and
  \<^verbatim>\<open>m_rt_geom_1\<close>, half kick, velocities into \<^verbatim>\<open>m_rt_velo\<close>. The accumulator
  is (coord, m_rt_geom_1, velocities, m_rt_velo).
\<close>

definition Rattle_predict_body ::
  "SimpleMD \<Rightarrow> nat \<Rightarrow> real list \<times> real list \<times> real list \<times> real list
     \<Rightarrow> real list \<times> real list \<times> real list \<times> real list" where
  "Rattle_predict_body st i acc =
     (case acc of (crd, rt, velo, rv) \<Rightarrow>
      let geom = m_eigen_geometry st; g = m_eigen_gradient st; inv = m_eigen_inv_masses st;
          x = geom ! (3 * i) + m_dT st * velo ! (3 * i) - 0.5 * g ! (3 * i) * inv ! (3 * i) * m_dt2 st;
          y = geom ! (3 * i + 1) + m_dT st * velo ! (3 * i + 1)
                - 0.5 * g ! (3 * i + 1) * inv ! (3 * i + 1) * m_dt2 st;
          z = geom ! (3 * i + 2) + m_dT st * velo ! (3 * i + 2)
                - 0.5 * g ! (3 * i + 2) * inv ! (3 * i + 2) * m_dt2 st;
          vx = velo ! (3 * i) - 0.5 * m_dT st * g ! (3 * i) * inv ! (3 * i);
          vy = velo ! (3 * i + 1) - 0.5 * m_dT st * g ! (3 * i + 1) * inv ! (3 * i + 1);
          vz = velo ! (3 * i + 2) - 0.5 * m_dT st * g ! (3 * i + 2) * inv ! (3 * i + 2)
      in (set3 crd i x y z, set3 rt i x y z, set3 velo i vx vy vz, set3 rv i vx vy vz))"

text \<open>The kinetic energy of the state, before the factor one half.\<close>

definition ekin_sum :: "SimpleMD \<Rightarrow> real" where
  "ekin_sum st = fold (ekin_add (m_eigen_masses st) (m_eigen_velocities st)) [0..<m_natoms st] 0"

text \<open>
  \<^verbatim>\<open>Rattle\<close> from its start to the end of the position iteration and the
  update of \<^verbatim>\<open>m_dof\<close>.
\<close>

definition Rattle_positions :: "SimpleMD \<Rightarrow> (nat \<times> SimpleMD \<times> rattle_locals) outcome option" where
  "Rattle_positions st =
     (case fold (Rattle_predict_body st) [0..<m_natoms st]
             (replicate (3 * m_natoms st) 0, m_rt_geom_1 st, m_eigen_velocities st, m_rt_velo st) of
        (crd, rt, velo, rv) \<Rightarrow>
          (case position_loop (m_rattle_maxiter st) 0
                  (st\<lparr>m_rt_geom_1 := rt, m_eigen_velocities := velo, m_rt_velo := rv\<rparr>,
                   \<lparr>coord = crd, moved_12 = replicate (m_natoms st) 0, moved_13 = replicate (m_natoms st) 0,
                    move = False, local_dof = 0, difference_prev = 10 ^ 22, difference_curr = 10 ^ 22,
                    active = 0\<rparr>) of
             None \<Rightarrow> None
           | Some Exit \<Rightarrow> Some Exit
           | Some NotANumber \<Rightarrow> Some NotANumber
           | Some (Done (iter, st, lv)) \<Rightarrow> Some (Done (iter, st\<lparr>m_dof := m_dof st - local_dof lv\<rparr>, lv))))"

text \<open>
  The middle of \<^verbatim>\<open>Rattle\<close>: new geometry, temperature, thermostat, energy,
  metadynamics, walls and the second half kick.
\<close>

definition Rattle_forces :: "environment \<Rightarrow> SimpleMD \<times> rattle_locals \<Rightarrow> SimpleMD option" where
  "Rattle_forces env sl =
     (case sl of (st, lv) \<Rightarrow>
      let st = st\<lparr>m_eigen_geometry := copy3 (m_natoms st) (coord lv) (m_eigen_geometry st)\<rparr>;
          ekin = ekin_sum st * 0.5;
          st = st\<lparr>m_T := temperature (env_kb env) ekin (m_dof st), m_Ekin := ekin\<rparr>;
          st = ThermostatFunction env st;
          st = (case Energy env (m_eigen_geometry st) of
                  (e, g) \<Rightarrow> st\<lparr>m_Epot := e, m_eigen_gradient := g\<rparr>)
      in case mtd_gate (driver env) (env_kb env) (fresh_structure env) st of
           None \<Rightarrow> None
         | Some st \<Rightarrow>
             let st = WallPotential env st
             in Some (st\<lparr>m_eigen_velocities :=
                            fst (fold (Verlet_second_body st) [0..<m_natoms st] (m_eigen_velocities st, 0)),
                          m_virial_correction := 0\<rparr>))"

text \<open>
  The end of \<^verbatim>\<open>Rattle\<close> after the velocity iteration; \<open>dof\<close> is the value of
  \<^verbatim>\<open>m_dof\<close> saved at the start.
\<close>

definition Rattle_finish :: "environment \<Rightarrow> int \<Rightarrow> SimpleMD \<times> rattle_locals \<Rightarrow> SimpleMD" where
  "Rattle_finish env dof sl =
     (case sl of (st, lv) \<Rightarrow>
      let st = (if move lv then RemoveRotations env st else st);
          ekin = ekin_sum st * 0.5;
          T = temperature (env_kb env) ekin (m_dof st);
          st = st\<lparr>m_unstable := (dgt T (dscale 10000 (m_T st)) \<or> isnan T), m_T := T\<rparr>;
          st = ThermostatFunction env st;
          st = EKin (env_kb env) st
      in st\<lparr>m_dof := dof\<rparr>)"

text \<open>
  \<^verbatim>\<open>Rattle\<close>, with the values the counter \<^verbatim>\<open>iter\<close> has after the position
  iteration and after the velocity iteration, and \<^verbatim>\<open>Rattle\<close> as the integrator
  sees it.
\<close>

definition Rattle_iters :: "environment \<Rightarrow> SimpleMD \<Rightarrow> (nat \<times> nat \<times> SimpleMD) outcome option" where
  "Rattle_iters env st =
     (case Rattle_positions st of
        None \<Rightarrow> None
      | Some Exit \<Rightarrow> Some Exit
      | Some NotANumber \<Rightarrow> Some NotANumber
      | Some (Done (iter1, st1, lv1)) \<Rightarrow>
          (case Rattle_forces env (st1, lv1) of
             None \<Rightarrow> None
           | Some st2 \<Rightarrow>
               (case velocity_loop (m_rattle_maxiter st2) 0 (st2, lv1) of
                  None \<Rightarrow> None
                | Some Exit \<Rightarrow> Some Exit
                | Some NotANumber \<Rightarrow> Some NotANumber
                | Some (Done (iter2, sl3)) \<Rightarrow> Some (Done (iter1, iter2, Rattle_finish env (m_dof st) sl3)))))"

definition Rattle :: "environment \<Rightarrow> SimpleMD \<Rightarrow> SimpleMD outcome option" where
  "Rattle env st =
     (case Rattle_iters env st of
        None \<Rightarrow> None
      | Some Exit \<Rightarrow> Some Exit
      | Some NotANumber \<Rightarrow> Some NotANumber
      | Some (Done (iter1, iter2, st')) \<Rightarrow> Some (Done st'))"

text \<open>
  The two temperatures of a \<^verbatim>\<open>Rattle\<close> step: the one stored in \<^verbatim>\<open>m_T\<close> after
  the position iteration, from the state the iteration leaves, and \<open>T\<close> at
  the end, from the state the velocity iteration leaves.
\<close>

definition Rattle_first_T :: "environment \<Rightarrow> SimpleMD \<Rightarrow> double" where
  "Rattle_first_T env st = temperature (env_kb env) (ekin_sum st * 0.5) (m_dof st)"

definition Rattle_second_T :: "environment \<Rightarrow> SimpleMD \<times> rattle_locals \<Rightarrow> double" where
  "Rattle_second_T env sl =
     (case sl of (st, lv) \<Rightarrow>
      let st = (if move lv then RemoveRotations env st else st)
      in temperature (env_kb env) (ekin_sum st * 0.5) (m_dof st))"

text \<open>
  \<^verbatim>\<open>Integrator\<close>, and the part of the body of the main loop of \<^verbatim>\<open>start\<close> from
  \<^verbatim>\<open>Integrator()\<close> to the test of the instability. What lies between the two
  writes averages and files; \<^verbatim>\<open>WriteGeometry\<close> returns true always, so the
  branch that reloads an earlier state is not taken.
\<close>

definition Integrator :: "environment \<Rightarrow> SimpleMD \<Rightarrow> SimpleMD outcome option" where
  "Integrator env st =
     (if use_rattle env then Rattle env st
      else (case Verlet env st of None \<Rightarrow> None | Some st' \<Rightarrow> Some (Done st')))"

definition start_step :: "environment \<Rightarrow> SimpleMD \<Rightarrow> run outcome option" where
  "start_step env st =
     (case Integrator env st of
        None \<Rightarrow> None
      | Some Exit \<Rightarrow> Some Exit
      | Some NotANumber \<Rightarrow> Some NotANumber
      | Some (Done st') \<Rightarrow> Some (Done (unstable_exit env st')))"


text \<open>
  Two atoms of mass 1 at distance 1 with the squared bond length 1 as the only
  constraint; the second atom moves away along the bond. Two iterations are
  allowed and a multiplier may not exceed 0.01. \<open>dimer_locals\<close> are local
  variables as they may stand when the velocity iteration starts.
\<close>

definition dimer :: SimpleMD where
  "dimer =
     blank\<lparr>m_natoms := 2, m_eigen_geometry := [0, 0, 0, 1, 0, 0], m_eigen_velocities := [0, 0, 0, 1, 0, 0],
      m_eigen_gradient := [0, 0, 0, 0, 0, 0], m_eigen_masses := [1, 1, 1, 1, 1, 1],
      m_eigen_inv_masses := [1, 1, 1, 1, 1, 1], m_dT := 1 / 10, m_dt2 := 1 / 100, m_dof := 6,
      m_bond_constrained := [((0, 1), 1)], m_rattle_maxiter := 2, m_rattle_max := 1 / 100,
      m_rattle_min := 1 / 1000, m_rattle_tol_12 := 1 / 100,
      m_rt_geom_1 := [0, 0, 0, 0, 0, 0], m_rt_velo := [0, 0, 0, 0, 0, 0]\<rparr>"

definition dimer_locals :: rattle_locals where
  "dimer_locals =
     \<lparr>coord = [0, 0, 0, 1, 0, 0], moved_12 = [1, 1], moved_13 = [0, 0], move = True, local_dof = 1,
      difference_prev = 0, difference_curr = 0, active = 0\<rparr>"

text \<open>
  The environment of \<open>plain_env\<close> with a zero gradient for two atoms and
  \<^verbatim>\<open>Rattle\<close> as the integrator, and the states in which one step from
  \<open>cold_start\<close> (with the gradient (0.002, 0, 0)) and one step from \<open>dimer\<close>
  end.
\<close>

definition rattle_env :: environment where
  "rattle_env = (plain_env [0, 0, 0, 0, 0, 0])\<lparr>use_rattle := True\<rparr>"

definition cold_next :: SimpleMD where
  "cold_next =
     cold_start\<lparr>m_eigen_velocities := [- (1 / 1000), 0, 0], m_eigen_gradient := [1 / 500, 0, 0],
       m_T := Fin (1000000000 / 9500434689), m_Ekin := 1 / 2000000, m_unstable := True\<rparr>"

definition dimer_next :: SimpleMD where
  "dimer_next =
     dimer\<lparr>m_eigen_geometry := [1922781 / 211112000, 0, 0, 230300419 / 211112000, 0, 0],
       m_eigen_velocities := [1904158271 / 19192000000, 0, 0, 17287841729 / 19192000000, 0, 0],
       m_T := Fin (3781191129599642736025 / 72902548296756652),
       m_Ekin := 151247645183985709441 / 368332864000000000000,
       m_rt_geom_1 := [1922781 / 211112000, 0, 0, 230300419 / 211112000, 0, 0],
       m_rt_velo := [1922781 / 21111200, 0, 0, 19188419 / 21111200, 0, 0],
       m_virial_correction := - (196168509843901439 / 22284138272000000000)\<rparr>"

text \<open>
  What the velocity iteration of \<^verbatim>\<open>Rattle\<close> leaves of the state record as it
  found it: everything but the virial correction and the velocities.
\<close>

definition velocity_frame :: "SimpleMD \<times> rattle_locals \<Rightarrow> SimpleMD" where
  "velocity_frame sl = (fst sl)\<lparr>m_virial_correction := 0, m_eigen_velocities := []\<rparr>"

text \<open>
  What the position iteration of \<^verbatim>\<open>Rattle\<close> leaves of the state record as it
  found it: everything but \<^verbatim>\<open>m_rt_geom_1\<close>, \<^verbatim>\<open>m_rt_velo\<close> and the velocities.
\<close>

definition position_frame :: "SimpleMD \<times> rattle_locals \<Rightarrow> SimpleMD" where
  "position_frame sl = (fst sl)\<lparr>m_rt_geom_1 := [], m_rt_velo := [], m_eigen_velocities := []\<rparr>"

text \<open>
  \<open>dimer\<close> with its local variables when the position iteration starts: the
  second atom is predicted at distance 1.1. In \<open>dimer_turned\<close> the bond of the
  last step stood at a right angle to the predicted one, so that the scalar
  product of the two is zero.
\<close>

definition dimer_predicted :: "SimpleMD \<times> rattle_locals" where
  "dimer_predicted =
     (dimer\<lparr>m_rt_geom_1 := [0, 0, 0, 11 / 10, 0, 0], m_rt_velo := [0, 0, 0, 1, 0, 0]\<rparr>,
      \<lparr>coord = [0, 0, 0, 11 / 10, 0, 0], moved_12 = [0, 0], moved_13 = [0, 0], move = False, local_dof = 0,
       difference_prev = 10 ^ 22, difference_curr = 0, active = 0\<rparr>)"

definition dimer_turned :: "SimpleMD \<times> rattle_locals" where
  "dimer_turned =
     ((fst dimer_predicted)\<lparr>m_eigen_geometry := [0, 0, 0, 0, 1, 0]\<rparr>, snd dimer_predicted)"

subsection \<open>Log-Fermi walls (\<^verbatim>\<open>ApplySphericLogFermiWalls\<close>, \<^verbatim>\<open>ApplyRectLogFermiWalls\<close>)\<close>

text \<open>
  The wall functions are written over the exponential they call: \<open>ex\<close> is
  \<^verbatim>\<open>exp\<close> of the C library, so that one can say at which arguments it is
  consulted. \<open>DBL_MAX\<close> is \<^verbatim>\<open>std::numeric_limits<double>::max()\<close>.
\<close>

definition DBL_MAX :: real where
  "DBL_MAX = (2 - 1 / 2 ^ 52) * 2 ^ 1023"

text \<open>The guarded exponential of the spherical wall.\<close>

definition spheric_exp_expr :: "(real \<Rightarrow> real) \<Rightarrow> real \<Rightarrow> real" where
  "spheric_exp_expr ex beta_arg =
     (if beta_arg > 700.0 then DBL_MAX / 2.0
      else if beta_arg < - 700.0 then 0.0
      else ex beta_arg)"

text \<open>
  Loop body for atom \<open>i\<close>; the accumulator is (potential, counter, sum_grad,
  gradient).
\<close>

definition spheric_body ::
  "(real \<Rightarrow> real) \<Rightarrow> real \<Rightarrow> SimpleMD \<Rightarrow> nat \<Rightarrow> real \<times> int \<times> real \<times> real list
     \<Rightarrow> real \<times> int \<times> real \<times> real list" where
  "spheric_body ex kbT st i acc =
     (case acc of (potential, counter, sum_grad, grad) \<Rightarrow>
      let g = m_eigen_geometry st;
          distance = sqrt (g ! (3 * i) * g ! (3 * i) + g ! (3 * i + 1) * g ! (3 * i + 1)
                           + g ! (3 * i + 2) * g ! (3 * i + 2));
          beta_arg = m_wall_beta st * (distance - m_wall_spheric_radius st);
          exp_expr = spheric_exp_expr ex beta_arg;
          curr_pot = kbT * ln (1 + exp_expr);
          fx = kbT * m_wall_beta st * g ! (3 * i) * exp_expr / (distance * (1 + exp_expr));
          fy = kbT * m_wall_beta st * g ! (3 * i + 1) * exp_expr / (distance * (1 + exp_expr));
          fz = kbT * m_wall_beta st * g ! (3 * i + 2) * exp_expr / (distance * (1 + exp_expr));
          grad' = (if distance > 1 / 10 ^ 10
                   then grad[3 * i := grad ! (3 * i) - fx, 3 * i + 1 := grad ! (3 * i + 1) - fy,
                             3 * i + 2 := grad ! (3 * i + 2) - fz]
                   else grad);
          sum_grad' = (if distance > 1 / 10 ^ 10 then sum_grad + sqrt (fx * fx + fy * fy + fz * fz)
                       else sum_grad);
          counter' = (if distance > m_wall_spheric_radius st then counter + 1 else counter)
      in (potential + curr_pot, counter', sum_grad', grad'))"

text \<open>
  The end of both wall functions: the violation count is stored and the time
  of the last report is moved when the report is printed.
\<close>

definition wall_report :: "int \<Rightarrow> real \<Rightarrow> SimpleMD \<Rightarrow> SimpleMD" where
  "wall_report counter sum_grad st =
     (let st = st\<lparr>m_wall_violation_count := counter\<rparr>;
          should_report = (real_of_int counter > real (m_natoms st) * 0.05
                           \<or> (counter > 0 \<and> m_currentStep st - m_wall_violation_last_reported st > 1000)
                           \<or> sum_grad > 0.01)
      in if should_report then st\<lparr>m_wall_violation_last_reported := m_currentStep st\<rparr> else st)"

definition ApplySphericLogFermiWalls :: "(real \<Rightarrow> real) \<Rightarrow> real \<Rightarrow> SimpleMD \<Rightarrow> real \<times> SimpleMD" where
  "ApplySphericLogFermiWalls ex kb_Eh st =
     (let kbT = m_wall_temp st * kb_Eh
      in case fold (spheric_body ex kbT st) [0..<m_natoms st] (0, 0, 0, m_eigen_gradient st) of
           (potential, counter, sum_grad, grad) \<Rightarrow>
             (potential, wall_report counter sum_grad (st\<lparr>m_eigen_gradient := grad\<rparr>)))"

text \<open>
  The rectangular wall. \<open>rect_exp_args\<close> lists, in the order of the source, the
  six arguments with which the loop body for atom \<open>i\<close> calls \<^verbatim>\<open>exp\<close>.
\<close>

definition rect_exp_args :: "SimpleMD \<Rightarrow> nat \<Rightarrow> real list" where
  "rect_exp_args st i =
     (let b = m_wall_beta st; g = m_eigen_geometry st
      in [b * (m_wall_x_min st - g ! (3 * i)), b * (g ! (3 * i) - m_wall_x_max st),
          b * (m_wall_y_min st - g ! (3 * i + 1)), b * (g ! (3 * i + 1) - m_wall_y_max st),
          b * (m_wall_z_min st - g ! (3 * i + 2)), b * (g ! (3 * i + 2) - m_wall_z_max st)])"

definition rect_body ::
  "(real \<Rightarrow> real) \<Rightarrow> real \<Rightarrow> SimpleMD \<Rightarrow> nat \<Rightarrow> real \<times> int \<times> real \<times> real list
     \<Rightarrow> real \<times> int \<times> real \<times> real list" where
  "rect_body ex kbT st i acc =
     (case acc of (potential, counter, sum_grad, grad) \<Rightarrow>
      let b = m_wall_beta st; g = m_eigen_geometry st;
          exp_expr_xl = ex (b * (m_wall_x_min st - g ! (3 * i)));
          exp_expr_xu = ex (b * (g ! (3 * i) - m_wall_x_max st));
          exp_expr_yl = ex (b * (m_wall_y_min st - g ! (3 * i + 1)));
          exp_expr_yu = ex (b * (g ! (3 * i + 1) - m_wall_y_max st));
          exp_expr_zl = ex (b * (m_wall_z_min st - g ! (3 * i + 2)));
          exp_expr_zu = ex (b * (g ! (3 * i + 2) - m_wall_z_max st));
          curr_pot = kbT * (ln (1 + exp_expr_xl) + ln (1 + exp_expr_xu) + ln (1 + exp_expr_yl)
                            + ln (1 + exp_expr_yu) + ln (1 + exp_expr_zl) + ln (1 + exp_expr_zu));
          outside = (g ! (3 * i) - m_wall_x_min st < 0 \<or> m_wall_x_max st - g ! (3 * i) < 0
                     \<or> g ! (3 * i + 1) - m_wall_y_min st < 0 \<or> m_wall_y_max st - g ! (3 * i + 1) < 0
                     \<or> g ! (3 * i + 2) - m_wall_z_min st < 0 \<or> m_wall_z_max st - g ! (3 * i + 2) < 0);
          fx = kbT * b * (exp_expr_xu / (1 + exp_expr_xu) - exp_expr_xl / (1 + exp_expr_xl));
          fy = kbT * b * (exp_expr_yu / (1 + exp_expr_yu) - exp_expr_yl / (1 + exp_expr_yl));
          fz = kbT * b * (exp_expr_zu / (1 + exp_expr_zu) - exp_expr_zl / (1 + exp_expr_zl))
      in (potential + curr_pot, (if outside then counter + 1 else counter),
          sum_grad + \<bar>fx\<bar> + \<bar>fy\<bar> + \<bar>fz\<bar>,
          grad[3 * i := grad ! (3 * i) + fx, 3 * i + 1 := grad ! (3 * i + 1) + fy,
               3 * i + 2 := grad ! (3 * i + 2) + fz]))"

definition ApplyRectLogFermiWalls :: "(real \<Rightarrow> real) \<Rightarrow> real \<Rightarrow> SimpleMD \<Rightarrow> real \<times> SimpleMD" where
  "ApplyRectLogFermiWalls ex kb_Eh st =
     (let kbT = m_wall_temp st * kb_Eh
      in case fold (rect_body ex kbT st) [0..<m_natoms st] (0, 0, 0, m_eigen_gradient st) of
           (potential, counter, sum_grad, grad) \<Rightarrow>
             (potential, wall_report counter sum_grad (st\<lparr>m_eigen_gradient := grad\<rparr>)))"

text \<open>
  An exponential that does see a clamped argument: outside \<open>[-700, 700]\<close> it
  returns its value at the nearer end of the interval.
\<close>

definition exp_clamped :: "real \<Rightarrow> real" where
  "exp_clamped a = exp (max (- 700) (min 700 a))"

text \<open>
  One atom at \<open>x = - 1000\<close> in a box from \<open>- 10\<close> to \<open>10\<close> in each direction,
  \<open>beta = 1\<close>, wall temperature 300.
\<close>

definition far_outside :: SimpleMD where
  "far_outside =
     blank\<lparr>m_natoms := 1, m_eigen_geometry := [- 1000, 0, 0], m_eigen_velocities := [0, 0, 0],
      m_eigen_gradient := [0, 0, 0], m_eigen_masses := [1, 1, 1], m_eigen_inv_masses := [1, 1, 1],
      m_wall_temp := 300, m_wall_beta := 1, m_wall_spheric_radius := 10,
      m_wall_x_min := - 10, m_wall_x_max := 10, m_wall_y_min := - 10, m_wall_y_max := 10,
      m_wall_z_min := - 10, m_wall_z_max := 10\<rparr>"


section \<open>Conformer scanner (confscan.cpp)\<close>

text \<open>
  The scanner keeps its molecules in \<^verbatim>\<open>m_molecules\<close> and hands pointers to
  them from list to list. Here \<^verbatim>\<open>m_molecules\<close> is a list of molecules and a
  pointer is an index into it; a worker thread holds a copy of its reference
  molecule, as \<^verbatim>\<open>setReference(*reference)\<close> makes one. Of a molecule the
  model keeps what the scanner reads: name, energy, rotational constants,
  persistence image (its entries in a fixed order), atom count and the result
  of \<^verbatim>\<open>Check()\<close>. Writing of files, console output and the graph output
  for \<^verbatim>\<open>m_analyse\<close> are not modelled.
\<close>

type_synonym ptr = nat

record Molecule =
  mol_Name :: string
  mol_Energy :: real
  mol_Ia :: real
  mol_Ib :: real
  mol_Ic :: real
  mol_PersisentImage :: "real list"
  mol_AtomCount :: nat
  mol_Check :: int

text \<open>
  \<^verbatim>\<open>ConfScanThread\<close> (and \<^verbatim>\<open>ConfScanThreadNoReorder\<close>, which uses fewer of
  the fields). The fields carry the prefix \<open>thr_\<close> in place of \<open>m_\<close>;
  \<open>thr_enabled\<close> is the flag behind \<^verbatim>\<open>setEnabled\<close> and \<^verbatim>\<open>isEnabled\<close>.
\<close>

record ConfScanThread =
  thr_reference :: Molecule
  thr_enabled :: bool
  thr_keep_molecule :: bool
  thr_break_pool :: bool
  thr_reorder_worked :: bool
  thr_reused_worked :: bool
  thr_reorder_rule :: rule
  thr_reorder_rules :: "rule list"
  thr_rmsd :: real
  thr_old_rmsd :: real
  thr_rmsd_threshold :: real
  thr_MaxHTopoDiff :: int
  thr_reuse_only :: bool
  thr_earlybreak :: int
  thr_DI :: real
  thr_DH :: real

text \<open>
  What the scanner calls outside the modelled sources. The RMSD driver of a
  worker: \<open>BestFitRMSD\<close>, \<open>Rules2RMSD\<close> for a given rule, and \<open>RMSD\<close> and
  \<open>ReorderRules\<close> after the reorder search \<^verbatim>\<open>start()\<close>, each for a reference
  and a target; \<open>HBondTopoDifference\<close> after \<open>Rules2RMSD\<close> with a rule
  (\<open>Some rule\<close>) or after the search (\<open>None\<close>); \<open>NoReorderRMSD\<close> is
  \<open>RMSD\<close> of the driver configured without reordering, as the initial pass
  uses it. \<open>molalign\<close> is the extra driver run with method molalign, giving
  its RMSD and the reordered target. \<open>ApplyReorderRule\<close> is the method of
  \<^verbatim>\<open>Molecule\<close>. \<open>CheckStop\<close> says whether the stop file is found at the
  check made before a candidate is compared with a reference.
  \<open>StartAndWait\<close> is the thread pool (\<^verbatim>\<open>CxxThreadPool\<close>): given what
  \<^verbatim>\<open>execute\<close> does to a worker, it returns the workers as they are after
  the pool has run.
\<close>

record scan_driver =
  sd_BestFitRMSD :: "Molecule \<Rightarrow> Molecule \<Rightarrow> real"
  sd_Rules2RMSD :: "Molecule \<Rightarrow> Molecule \<Rightarrow> rule \<Rightarrow> real"
  sd_RMSD :: "Molecule \<Rightarrow> Molecule \<Rightarrow> real"
  sd_ReorderRules :: "Molecule \<Rightarrow> Molecule \<Rightarrow> rule"
  sd_HBondTopoDifference :: "Molecule \<Rightarrow> Molecule \<Rightarrow> rule option \<Rightarrow> int"
  sd_NoReorderRMSD :: "Molecule \<Rightarrow> Molecule \<Rightarrow> real"
  sd_molalign :: "Molecule \<Rightarrow> Molecule \<Rightarrow> real \<times> Molecule"
  sd_ApplyReorderRule :: "rule \<Rightarrow> Molecule \<Rightarrow> Molecule"
  sd_CheckStop :: "Molecule \<Rightarrow> Molecule \<Rightarrow> bool"
  sd_StartAndWait :: "(ConfScanThread \<Rightarrow> ConfScanThread) \<Rightarrow> ConfScanThread list \<Rightarrow> ConfScanThread list"

text \<open>
  The fields of \<^verbatim>\<open>ConfScan\<close> that the modelled functions read or write.
  \<^verbatim>\<open>m_threads\<close> of the scanner is written \<open>m_scan_threads\<close>. The lists of
  accepted, stored, rejected, previously accepted and all structures hold
  pointers; \<^verbatim>\<open>m_threshold\<close> receives the reference copies of the workers.
  The multimap \<^verbatim>\<open>m_listThresh\<close> is the list of its entries in iteration
  order.
\<close>

record ConfScan =
  m_molecules :: "Molecule list"
  m_ordered_list :: "(real \<times> ptr) list"
  m_result :: "ptr list"
  m_stored_structures :: "ptr list"
  m_rejected_structures :: "ptr list"
  m_previously_accepted :: "ptr list"
  m_all_structures :: "ptr list"
  m_threshold :: "Molecule list"
  m_accepted :: int
  m_rejected :: int
  m_start :: int
  m_skip :: int
  m_maxrank :: int
  m_reorder_rules :: "rule list"
  m_skip_orders :: bool
  m_exclude_list :: "(string \<times> string) list"
  m_looseThresh :: int
  m_tightThresh :: int
  m_earlybreak :: int
  m_dLI :: real
  m_dLH :: real
  m_dLE :: real
  m_dTI :: real
  m_dTH :: real
  m_dTE :: real
  m_ignoreRotation :: bool
  m_ignoreBarCode :: bool
  m_sTI :: real
  m_sTH :: real
  m_sTE :: real
  m_rmsd_threshold :: real
  m_rmsd_set :: bool
  m_MaxHTopoDiff :: int
  m_lowest_energy :: real
  m_current_energy :: real
  m_dE :: real
  m_energy_cutoff :: real
  m_rejected_directly :: int
  m_duplicated :: int
  m_skiped :: int
  m_reordered :: int
  m_reordered_worked :: int
  m_reordered_reused :: int
  m_list_performed :: "real list list"
  m_list_skipped :: "real list list"
  m_lastDI :: real
  m_lastDH :: real
  m_RMSDmethod :: string
  m_scan_threads :: int
  m_domolalign :: real
  m_molalign_count :: int
  m_molalign_success :: int
  m_energies :: "real list"
  m_listThresh :: "(real \<times> real list) list"
  m_getrmsd_thresh :: real

text \<open>
  Modelled from the spec: the constant \<^verbatim>\<open>third\<close> of src/core/global.h, which
  is not among the sources. The scanner multiplies the sum of the three
  rotational-constant differences by it, and \<^verbatim>\<open>PrintSetUp\<close> calls the result
  "averaged over Ia, Ib and Ic".
\<close>

definition third :: real where
  "third = 1 / 3"

subsection \<open>Workers (\<^verbatim>\<open>ConfScanThread::execute\<close>, \<^verbatim>\<open>ConfScanThreadNoReorder::execute\<close>)\<close>

definition topo_ok :: "scan_driver \<Rightarrow> ConfScanThread \<Rightarrow> Molecule \<Rightarrow> rule option \<Rightarrow> bool" where
  "topo_ok drv thr target r =
     (thr_MaxHTopoDiff thr = - 1
      \<or> sd_HBondTopoDifference drv (thr_reference thr) target r \<le> thr_MaxHTopoDiff thr)"

text \<open>
  The loop of \<^verbatim>\<open>execute\<close> over the cached rules: the first rule of the right
  length whose RMSD is below the threshold, with that RMSD.
\<close>

fun reuse_rules :: "scan_driver \<Rightarrow> ConfScanThread \<Rightarrow> Molecule \<Rightarrow> rule list \<Rightarrow> (rule \<times> real) option" where
  "reuse_rules drv thr target [] = None"
| "reuse_rules drv thr target (r # rs) =
     (if length r \<noteq> mol_AtomCount (thr_reference thr) \<or> length r = 0
      then reuse_rules drv thr target rs
      else let tmp_rmsd = sd_Rules2RMSD drv (thr_reference thr) target r
           in if tmp_rmsd < thr_rmsd_threshold thr \<and> topo_ok drv thr target (Some r)
              then Some (r, tmp_rmsd)
              else reuse_rules drv thr target rs)"

definition ConfScanThread_execute :: "scan_driver \<Rightarrow> Molecule \<Rightarrow> ConfScanThread \<Rightarrow> ConfScanThread" where
  "ConfScanThread_execute drv target thr =
     (let thr = thr\<lparr>thr_keep_molecule := True, thr_break_pool := False, thr_reorder_worked := False,
                    thr_reused_worked := False, thr_reorder_rule := []\<rparr>;
          thr = thr\<lparr>thr_old_rmsd := sd_BestFitRMSD drv (thr_reference thr) target\<rparr>
      in if thr_old_rmsd thr < thr_rmsd_threshold thr
         then thr\<lparr>thr_rmsd := thr_old_rmsd thr, thr_keep_molecule := False, thr_break_pool := True\<rparr>
         else
           (case reuse_rules drv thr target (thr_reorder_rules thr) of
              Some (r, tmp_rmsd) \<Rightarrow>
                thr\<lparr>thr_keep_molecule := False, thr_break_pool := (thr_earlybreak thr AND 1 = 0),
                    thr_reused_worked := True, thr_rmsd := tmp_rmsd, thr_reorder_rule := r\<rparr>
            | None \<Rightarrow>
                if thr_reuse_only thr then thr
                else
                  let thr = thr\<lparr>thr_rmsd := sd_RMSD drv (thr_reference thr) target\<rparr>
                  in if thr_rmsd thr \<le> thr_rmsd_threshold thr \<and> topo_ok drv thr target None
                     then thr\<lparr>thr_keep_molecule := False, thr_break_pool := (thr_earlybreak thr AND 2 = 0),
                              thr_reorder_worked := True,
                              thr_reorder_rule := sd_ReorderRules drv (thr_reference thr) target\<rparr>
                     else thr))"

text \<open>Sum of the absolute entries of the difference of two persistence images.\<close>

definition image_difference :: "Molecule \<Rightarrow> Molecule \<Rightarrow> real" where
  "image_difference a b = (\<Sum>(x, y)\<leftarrow>zip (mol_PersisentImage a) (mol_PersisentImage b). \<bar>x - y\<bar>)"

definition rotational_difference :: "Molecule \<Rightarrow> Molecule \<Rightarrow> real" where
  "rotational_difference a b =
     (\<bar>mol_Ia a - mol_Ia b\<bar> + \<bar>mol_Ib a - mol_Ib b\<bar> + \<bar>mol_Ic a - mol_Ic b\<bar>) * third"

definition energy_difference :: "Molecule \<Rightarrow> Molecule \<Rightarrow> real" where
  "energy_difference a b = \<bar>mol_Energy a - mol_Energy b\<bar> * 2625.5"

definition ConfScanThreadNoReorder_execute :: "scan_driver \<Rightarrow> Molecule \<Rightarrow> ConfScanThread \<Rightarrow> ConfScanThread" where
  "ConfScanThreadNoReorder_execute drv target thr =
     (let thr = thr\<lparr>thr_keep_molecule := True,
                    thr_rmsd := sd_NoReorderRMSD drv (thr_reference thr) target,
                    thr_DI := rotational_difference (thr_reference thr) target,
                    thr_DH := image_difference (thr_reference thr) target\<rparr>
      in if thr_rmsd thr \<le> thr_rmsd_threshold thr \<and> topo_ok drv thr target None
         then thr\<lparr>thr_keep_molecule := False, thr_break_pool := True\<rparr>
         else thr)"

text \<open>
  A pool for the concrete runs below: it runs the enabled workers in list
  order and stops after a worker that signals \<^verbatim>\<open>break_pool\<close>.
\<close>

fun pool_in_order :: "(ConfScanThread \<Rightarrow> ConfScanThread) \<Rightarrow> ConfScanThread list \<Rightarrow> ConfScanThread list" where
  "pool_in_order run [] = []"
| "pool_in_order run (thr # thrs) =
     (if thr_enabled thr
      then let thr' = run thr
           in if thr_break_pool thr' then thr' # thrs else thr' # pool_in_order run thrs
      else thr # pool_in_order run thrs)"

text \<open>
  The other branch of \<^verbatim>\<open>Reorder\<close>, for method molalign on one thread: every
  worker is executed in turn, enabled or not, until one does not keep the
  molecule.
\<close>

fun execute_in_turn :: "(ConfScanThread \<Rightarrow> ConfScanThread) \<Rightarrow> ConfScanThread list \<Rightarrow> ConfScanThread list" where
  "execute_in_turn run [] = []"
| "execute_in_turn run (thr # thrs) =
     (let thr' = run thr
      in if thr_keep_molecule thr' = False then thr' # thrs else thr' # execute_in_turn run thrs)"


subsection \<open>Reorder pass (\<^verbatim>\<open>ConfScan::Reorder\<close>)\<close>

definition AcceptMolecule :: "ptr \<Rightarrow> ConfScan \<Rightarrow> ConfScan" where
  "AcceptMolecule molecule st =
     st\<lparr>m_result := m_result st @ [molecule],
        m_stored_structures := m_stored_structures st @ [molecule],
        m_accepted := m_accepted st + 1\<rparr>"

definition RejectMolecule :: "ptr \<Rightarrow> ConfScan \<Rightarrow> ConfScan" where
  "RejectMolecule molecule st =
     st\<lparr>m_rejected_structures := m_rejected_structures st @ [molecule],
        m_rejected := m_rejected st + 1\<rparr>"

text \<open>
  Modelled from the spec: the constructors of \<^verbatim>\<open>ConfScanThread\<close> and
  \<^verbatim>\<open>ConfScanThreadNoReorder\<close> are in confscan.h, which is not among the
  sources. A new worker is taken to be enabled and to hold no result yet.
  \<^verbatim>\<open>addThread\<close> and \<^verbatim>\<open>addThreadNoreorder\<close> themselves are in confscan.cpp.
\<close>

definition new_thread :: "Molecule \<Rightarrow> rule list \<Rightarrow> real \<Rightarrow> int \<Rightarrow> bool \<Rightarrow> int \<Rightarrow> ConfScanThread" where
  "new_thread reference rules rmsd_threshold MaxHTopoDiff reuse_only earlybreak =
     \<lparr>thr_reference = reference, thr_enabled = True, thr_keep_molecule = True, thr_break_pool = False,
      thr_reorder_worked = False, thr_reused_worked = False, thr_reorder_rule = [],
      thr_reorder_rules = rules, thr_rmsd = 0, thr_old_rmsd = 0, thr_rmsd_threshold = rmsd_threshold,
      thr_MaxHTopoDiff = MaxHTopoDiff, thr_reuse_only = reuse_only, thr_earlybreak = earlybreak,
      thr_DI = 0, thr_DH = 0\<rparr>"

definition addThread :: "Molecule \<Rightarrow> bool \<Rightarrow> ConfScan \<Rightarrow> ConfScanThread \<times> ConfScan" where
  "addThread reference reuse_only st =
     (new_thread reference (m_reorder_rules st) (m_rmsd_threshold st) (m_MaxHTopoDiff st) reuse_only
        (m_earlybreak st),
      st\<lparr>m_energies := m_energies st @ [mol_Energy reference]\<rparr>)"

definition addThreadNoreorder :: "Molecule \<Rightarrow> ConfScan \<Rightarrow> ConfScanThread \<times> ConfScan" where
  "addThreadNoreorder reference st =
     (new_thread reference [] (m_rmsd_threshold st) (m_MaxHTopoDiff st) False 0,
      st\<lparr>m_energies := m_energies st @ [mol_Energy reference]\<rparr>)"

text \<open>
  The two masks of the pair loop, for the candidate \<open>mol1\<close> and the reference
  \<open>mol2\<close>: bit 1 for the rotational constants, bit 2 for the persistence
  image, bit 4 for the energy.
\<close>

definition loose_mask :: "real \<Rightarrow> real \<Rightarrow> real \<Rightarrow> Molecule \<Rightarrow> Molecule \<Rightarrow> int" where
  "loose_mask dLE dLI dLH mol1 mol2 =
     1 * of_bool (rotational_difference mol1 mol2 < dLI)
     + 2 * of_bool (image_difference mol1 mol2 < dLH)
     + 4 * of_bool (energy_difference mol1 mol2 < dLE)"

definition tight_mask :: "ConfScan \<Rightarrow> Molecule \<Rightarrow> Molecule \<Rightarrow> int" where
  "tight_mask st mol1 mol2 =
     1 * of_bool (rotational_difference mol1 mol2 < m_dTI st)
     + 2 * of_bool (image_difference mol1 mol2 < m_dTH st)
     + 4 * of_bool (energy_difference mol1 mol2 < m_dTE st)"

text \<open>The condition under which the pair loop takes a pair further.\<close>

definition loose_pass :: "ConfScan \<Rightarrow> real \<Rightarrow> real \<Rightarrow> real \<Rightarrow> Molecule \<Rightarrow> Molecule \<Rightarrow> bool" where
  "loose_pass st dLE dLI dLH mol1 mol2 =
     (loose_mask dLE dLI dLH mol1 mol2 AND m_looseThresh st = m_looseThresh st
      \<or> (dLI \<le> 1 / 10 ^ 8 \<and> dLH \<le> 1 / 10 ^ 8 \<and> dLE \<le> 1 / 10 ^ 8))"

definition tight_pass :: "ConfScan \<Rightarrow> Molecule \<Rightarrow> Molecule \<Rightarrow> bool" where
  "tight_pass st mol1 mol2 = (tight_mask st mol1 mol2 AND m_tightThresh st = m_tightThresh st)"

text \<open>How a pass of a loop body ends: it goes on, it leaves the loop, or it returns from \<^verbatim>\<open>Reorder\<close>.\<close>

datatype ctl = Continue | Break | Return

text \<open>
  The body of the loop over the workers for the candidate \<open>mol1\<close>. The
  accumulator is the scanner with the locals \<^verbatim>\<open>keep_molecule\<close> and
  \<^verbatim>\<open>reorder\<close>.
\<close>

definition Reorder_pair ::
  "scan_driver \<Rightarrow> real \<Rightarrow> real \<Rightarrow> real \<Rightarrow> Molecule \<Rightarrow> ConfScanThread \<Rightarrow> ConfScan \<times> bool \<times> bool
     \<Rightarrow> ctl \<times> ConfScanThread \<times> ConfScan \<times> bool \<times> bool" where
  "Reorder_pair drv dLE dLI dLH mol1 thr acc =
     (case acc of (st, keep_molecule, reorder) \<Rightarrow>
      let mol2 = thr_reference thr
      in if sd_CheckStop drv mol1 mol2 then (Return, thr, st, keep_molecule, reorder)
         else
           let names = (mol_Name mol1, mol_Name mol2);
               dI = rotational_difference mol1 mol2;
               dH = image_difference mol1 mol2;
               dE = energy_difference mol1 mol2
           in if loose_pass st dLE dLI dLH mol1 mol2
              then
                if names \<in> set (m_exclude_list st)
                then (Continue, thr,
                      st\<lparr>m_duplicated := m_duplicated st + 1,
                         m_list_performed := m_list_performed st @ [[dE, dH, dI]]\<rparr>,
                      keep_molecule, reorder)
                else
                  if tight_pass st mol1 mol2
                  then (Break, thr\<lparr>thr_enabled := True\<rparr>,
                        st\<lparr>m_lastDI := dI, m_lastDH := dH, m_threshold := m_threshold st @ [mol2],
                           m_rejected_directly := m_rejected_directly st + 1\<rparr>,
                        False, False)
                  else (Continue, thr\<lparr>thr_enabled := True\<rparr>,
                        st\<lparr>m_list_performed := m_list_performed st @ [[dE, dH, dI]],
                           m_exclude_list := m_exclude_list st @ [names]\<rparr>,
                        keep_molecule, True)
              else (Continue, thr\<lparr>thr_enabled := False\<rparr>,
                    st\<lparr>m_list_skipped := m_list_skipped st @ [[dE, dH, dI]]\<rparr>,
                    keep_molecule, reorder))"

fun Reorder_pairs ::
  "scan_driver \<Rightarrow> real \<Rightarrow> real \<Rightarrow> real \<Rightarrow> Molecule \<Rightarrow> ConfScanThread list \<Rightarrow> ConfScan \<times> bool \<times> bool
     \<Rightarrow> ctl \<times> ConfScanThread list \<times> ConfScan \<times> bool \<times> bool" where
  "Reorder_pairs drv dLE dLI dLH mol1 [] acc = (Continue, [], acc)"
| "Reorder_pairs drv dLE dLI dLH mol1 (thr # thrs) acc =
     (case Reorder_pair drv dLE dLI dLH mol1 thr acc of
        (Continue, thr', acc') \<Rightarrow>
          (case Reorder_pairs drv dLE dLI dLH mol1 thrs acc' of
             (c, thrs', acc'') \<Rightarrow> (c, thr' # thrs', acc''))
      | (c, thr', acc') \<Rightarrow> (c, thr' # thrs, acc'))"

text \<open>
  The body of the loop that reads the workers after they have run. The
  accumulator is the scanner, the rules found in this pass and
  \<^verbatim>\<open>keep_molecule\<close>; \<open>mol1\<close> is the pointer of the candidate.
\<close>

definition Reorder_collect ::
  "scan_driver \<Rightarrow> ptr \<Rightarrow> ConfScanThread \<Rightarrow> ConfScan \<times> rule list \<times> bool
     \<Rightarrow> ConfScanThread \<times> ConfScan \<times> rule list \<times> bool" where
  "Reorder_collect drv mol1 t acc =
     (case acc of (st, rules, keep_molecule) \<Rightarrow>
      if \<not> thr_enabled t
      then (t\<lparr>thr_enabled := True\<rparr>, st\<lparr>m_skiped := m_skiped st + 1\<rparr>, rules, keep_molecule)
      else
        let st = st\<lparr>m_reordered := m_reordered st + 1\<rparr>
        in if thr_keep_molecule t = False
           then
             let st = st\<lparr>m_reordered_worked := m_reordered_worked st + of_bool (thr_reorder_worked t),
                         m_reordered_reused := m_reordered_reused st + of_bool (thr_reused_worked t)\<rparr>;
                 added = AddRules (m_skip_orders st) (thr_reorder_rule t) (m_reorder_rules st);
                 st = st\<lparr>m_reorder_rules := snd added\<rparr>;
                 rules = (if fst added then rules @ [thr_reorder_rule t] else rules);
                 st = (if keep_molecule
                       then st\<lparr>m_molecules := (m_molecules st)
                                  [mol1 := sd_ApplyReorderRule drv (thr_reorder_rule t) (m_molecules st ! mol1)]\<rparr>
                       else st)
             in (t, st, rules, False)
           else
             if m_domolalign st > 1 \<and> thr_rmsd t < m_domolalign st * m_rmsd_threshold st
             then
               (case sd_molalign drv (thr_reference t) (m_molecules st ! mol1) of
                  (rmsd, reordered) \<Rightarrow>
                    let st = st\<lparr>m_molalign_count := m_molalign_count st + 1,
                                m_molecules := (m_molecules st)[mol1 := reordered]\<rparr>
                    in if rmsd < m_rmsd_threshold st
                       then (t, st\<lparr>m_molalign_success := m_molalign_success st + 1,
                                   m_reordered_worked := m_reordered_worked st + 1,
                                   m_reordered_reused := m_reordered_reused st + 1\<rparr>, rules, False)
                       else (t, st, rules, keep_molecule))
             else (t, st, rules, keep_molecule))"

fun Reorder_collect_all ::
  "scan_driver \<Rightarrow> ptr \<Rightarrow> ConfScanThread list \<Rightarrow> ConfScan \<times> rule list \<times> bool
     \<Rightarrow> ConfScanThread list \<times> ConfScan \<times> rule list \<times> bool" where
  "Reorder_collect_all drv mol1 [] acc = ([], acc)"
| "Reorder_collect_all drv mol1 (t # ts) acc =
     (case Reorder_collect drv mol1 t acc of
        (t', acc') \<Rightarrow> (case Reorder_collect_all drv mol1 ts acc' of (ts', acc'') \<Rightarrow> (t' # ts', acc'')))"

text \<open>
  The block \<^verbatim>\<open>if (reorder && keep_molecule)\<close>: the workers get the cached
  rules and the rules of this pass, they are run by the pool or one after
  the other, and their results are read.
\<close>

definition Reorder_align ::
  "scan_driver \<Rightarrow> ptr \<Rightarrow> ConfScanThread list \<Rightarrow> ConfScan \<times> rule list \<times> bool
     \<Rightarrow> ConfScanThread list \<times> ConfScan \<times> rule list \<times> bool" where
  "Reorder_align drv mol1 threads acc =
     (case acc of (st, rules, keep_molecule) \<Rightarrow>
      let threads = map (\<lambda>t. t\<lparr>thr_reorder_rules := m_reorder_rules st @ rules\<rparr>) threads;
          run = ConfScanThread_execute drv (m_molecules st ! mol1);
          threads = (if m_RMSDmethod st \<noteq> ''molalign'' \<or> m_scan_threads st \<noteq> 1
                     then sd_StartAndWait drv run threads
                     else execute_in_turn run threads)
      in Reorder_collect_all drv mol1 threads (st, rules, keep_molecule))"

text \<open>\<^verbatim>\<open>m_result.size() >= m_maxrank\<close>: the comparison is unsigned, so a negative \<^verbatim>\<open>m_maxrank\<close> is never reached.\<close>

definition maxrank_reached :: "ConfScan \<Rightarrow> bool" where
  "maxrank_reached st = (0 \<le> m_maxrank st \<and> m_maxrank st \<le> int (length (m_result st)))"

text \<open>
  The body of the loop of \<^verbatim>\<open>Reorder\<close> over the cached structures, for the
  candidate \<open>mol1\<close>. The accumulator is the scanner, the workers and the rules
  found in this pass.
\<close>

definition Reorder_candidate ::
  "scan_driver \<Rightarrow> real \<Rightarrow> real \<Rightarrow> real \<Rightarrow> bool \<Rightarrow> ptr \<Rightarrow> ConfScan \<times> ConfScanThread list \<times> rule list
     \<Rightarrow> ctl \<times> ConfScan \<times> ConfScanThread list \<times> rule list" where
  "Reorder_candidate drv dLE dLI dLH reuse_only mol1 acc =
     (case acc of (st, threads, rules) \<Rightarrow>
      if length (m_result st) = 0
      then
        (case addThread (m_molecules st ! mol1) reuse_only (AcceptMolecule mol1 st) of
           (thread, st) \<Rightarrow>
             (Continue, st\<lparr>m_lowest_energy := mol_Energy (m_molecules st ! mol1)\<rparr>, threads @ [thread], rules))
      else
        let st = st\<lparr>m_current_energy := mol_Energy (m_molecules st ! mol1)\<rparr>;
            st = st\<lparr>m_dE := (m_current_energy st - m_lowest_energy st) * 2625.5\<rparr>
        in if m_dE st > m_energy_cutoff st \<and> m_energy_cutoff st \<noteq> - 1
           then (Break, st, threads, rules)
           else
             (case Reorder_pairs drv dLE dLI dLH (m_molecules st ! mol1) threads (st, True, False) of
                (Return, threads, st, keep_molecule, reorder) \<Rightarrow> (Return, st, threads, rules)
              | (c, threads, st, keep_molecule, reorder) \<Rightarrow>
                  (case (if reorder \<and> keep_molecule
                         then Reorder_align drv mol1 threads (st, rules, keep_molecule)
                         else (threads, st\<lparr>m_skiped := m_skiped st + int (length threads)\<rparr>, rules,
                               keep_molecule)) of
                     (threads, st, rules, keep_molecule) \<Rightarrow>
                       (case (if keep_molecule
                              then (case addThread (m_molecules st ! mol1) reuse_only (AcceptMolecule mol1 st) of
                                      (thread, st) \<Rightarrow> (st, threads @ [thread]))
                              else (RejectMolecule mol1 st, threads)) of
                          (st, threads) \<Rightarrow>
                            (if maxrank_reached st then Break else Continue, st, threads, rules)))))"

fun Reorder_loop ::
  "scan_driver \<Rightarrow> real \<Rightarrow> real \<Rightarrow> real \<Rightarrow> bool \<Rightarrow> ptr list \<Rightarrow> ConfScan \<times> ConfScanThread list \<times> rule list
     \<Rightarrow> ctl \<times> ConfScan \<times> ConfScanThread list \<times> rule list" where
  "Reorder_loop drv dLE dLI dLH reuse_only [] acc = (Continue, acc)"
| "Reorder_loop drv dLE dLI dLH reuse_only (mol1 # cached) acc =
     (case Reorder_candidate drv dLE dLI dLH reuse_only mol1 acc of
        (Continue, acc') \<Rightarrow> Reorder_loop drv dLE dLI dLH reuse_only cached acc'
      | (c, acc') \<Rightarrow> (c, acc'))"

text \<open>The start of \<^verbatim>\<open>Reorder\<close>, before the loop; the result is the list \<open>cached\<close> and the scanner.\<close>

definition Reorder_begin :: "bool \<Rightarrow> ConfScan \<Rightarrow> ptr list \<times> ConfScan" where
  "Reorder_begin reset st =
     (let st = st\<lparr>m_rejected_directly := 0, m_duplicated := 0\<rparr>;
          st = (if m_ignoreRotation st = True then st\<lparr>m_dLI := 10 ^ 10, m_dTI := - 1\<rparr> else st);
          st = (if m_ignoreBarCode st = True then st\<lparr>m_dLH := 10 ^ 10, m_dTH := - 1\<rparr> else st);
          st = st\<lparr>m_rejected := 0, m_accepted := 0, m_reordered := 0, m_reordered_worked := 0,
                  m_reordered_reused := 0, m_skiped := 0\<rparr>;
          cached = (if reset then m_all_structures st else m_stored_structures st)
      in (cached, st\<lparr>m_result := m_previously_accepted st, m_stored_structures := [], m_energies := []\<rparr>))"

definition Reorder :: "scan_driver \<Rightarrow> real \<Rightarrow> real \<Rightarrow> real \<Rightarrow> bool \<Rightarrow> bool \<Rightarrow> ConfScan \<Rightarrow> ConfScan" where
  "Reorder drv dLE dLI dLH reuse_only reset st =
     (case Reorder_begin reset st of
        (cached, st) \<Rightarrow> fst (snd (Reorder_loop drv dLE dLI dLH reuse_only cached (st, [], []))))"


subsection \<open>Energy ordering (\<^verbatim>\<open>ConfScan::openFile\<close>)\<close>

text \<open>
  \<^verbatim>\<open>m_ordered_list\<close> maps an energy to the index of a molecule. It is declared
  in confscan.h, which is not among the sources: \<^verbatim>\<open>insert\<close> is that of a
  \<^verbatim>\<open>std::map\<close> (\<open>unique = True\<close>, an energy that is already a key is not
  inserted again) or that of a \<^verbatim>\<open>std::multimap\<close> (\<open>unique = False\<close>, the
  new entry goes behind the entries with the same energy). The container is the
  list of its entries in iteration order.
\<close>

definition ordered_insert :: "bool \<Rightarrow> real \<times> 'a \<Rightarrow> (real \<times> 'a) list \<Rightarrow> (real \<times> 'a) list" where
  "ordered_insert unique e xs =
     (if unique \<and> fst e \<in> fst ` set xs then xs
      else takeWhile (\<lambda>x. fst x \<le> fst e) xs @ e # dropWhile (\<lambda>x. fst x \<le> fst e) xs)"

text \<open>
  The part of the reading loop of \<^verbatim>\<open>openFile\<close> that fills
  \<^verbatim>\<open>m_ordered_list\<close>: the energy of the file is used unless it is below
  \<open>1e-5\<close> in magnitude or a method is set; then the energy backend is asked
  (\<open>backend m_method mol\<close>), and an empty method becomes gfn2. \<open>molecule\<close> is
  the running index.
\<close>

fun openFile_order ::
  "bool \<Rightarrow> (string \<Rightarrow> Molecule \<Rightarrow> real) \<Rightarrow> string \<Rightarrow> nat \<Rightarrow> Molecule list \<Rightarrow> (real \<times> ptr) list
     \<Rightarrow> (real \<times> ptr) list" where
  "openFile_order unique backend m_method molecule [] ordered = ordered"
| "openFile_order unique backend m_method molecule (mol # mols) ordered =
     (if \<bar>mol_Energy mol\<bar> < 1 / 10 ^ 5 \<or> m_method \<noteq> []
      then let m_method = (if m_method = [] then ''gfn2'' else m_method)
           in openFile_order unique backend m_method (molecule + 1) mols
                (ordered_insert unique (backend m_method mol, molecule) ordered)
      else openFile_order unique backend m_method (molecule + 1) mols
             (ordered_insert unique (mol_Energy mol, molecule) ordered))"

text \<open>
  The method \<^verbatim>\<open>m_method\<close> as the reading loop leaves it, and the second
  reading loop of \<^verbatim>\<open>openFile\<close>, over the file of previously accepted
  structures: it computes the energies in the same way and keeps the smallest
  of them and 0 in \<^verbatim>\<open>min_energy\<close>.
\<close>

fun openFile_method :: "string \<Rightarrow> Molecule list \<Rightarrow> string" where
  "openFile_method m_method [] = m_method"
| "openFile_method m_method (mol # mols) =
     (if \<bar>mol_Energy mol\<bar> < 1 / 10 ^ 5 \<or> m_method \<noteq> []
      then openFile_method (if m_method = [] then ''gfn2'' else m_method) mols
      else openFile_method m_method mols)"

fun openFile_min_energy :: "(string \<Rightarrow> Molecule \<Rightarrow> real) \<Rightarrow> string \<Rightarrow> Molecule list \<Rightarrow> real \<Rightarrow> real" where
  "openFile_min_energy backend m_method [] min_energy = min_energy"
| "openFile_min_energy backend m_method (mol # mols) min_energy =
     (if \<bar>mol_Energy mol\<bar> < 1 / 10 ^ 5 \<or> m_method \<noteq> []
      then let m_method = (if m_method = [] then ''gfn2'' else m_method)
           in openFile_min_energy backend m_method mols (min min_energy (backend m_method mol))
      else openFile_min_energy backend m_method mols (min min_energy (mol_Energy mol)))"

text \<open>
  \<^verbatim>\<open>openFile\<close> for a scanner that holds no molecules yet: \<open>mols\<close> are the
  molecules of the input file with their descriptors, \<open>previous\<close> those of
  the file of previously accepted structures when one is given. The
  previously accepted molecules are not entered into \<^verbatim>\<open>m_molecules\<close> by the
  source; here they stand behind the molecules of the input file, so that the
  pointers to them are indices too. Both file names are taken to name an xyz
  or trj file; for any other name \<^verbatim>\<open>openFile\<close> throws.
\<close>

definition openFile ::
  "bool \<Rightarrow> (string \<Rightarrow> Molecule \<Rightarrow> real) \<Rightarrow> string \<Rightarrow> Molecule list \<Rightarrow> Molecule list option
     \<Rightarrow> ConfScan \<Rightarrow> ConfScan" where
  "openFile unique backend m_method mols previous st =
     (let st = st\<lparr>m_ordered_list := openFile_order unique backend m_method 0 mols (m_ordered_list st),
                  m_molecules := m_molecules st @ mols\<rparr>
      in case previous of
           None \<Rightarrow> st
         | Some prev \<Rightarrow>
             let accepted = m_previously_accepted st
                              @ [length (m_molecules st)..<length (m_molecules st) + length prev]
             in st\<lparr>m_molecules := m_molecules st @ prev,
                   m_previously_accepted := accepted,
                   m_lowest_energy := openFile_min_energy backend (openFile_method m_method mols) prev 0,
                   m_result := accepted\<rparr>)"

text \<open>The energy under which the molecule with pointer \<open>p\<close> was put into the ordered list.\<close>

definition ordering_energy :: "(real \<times> ptr) list \<Rightarrow> ptr \<Rightarrow> real" where
  "ordering_energy ordered p = (case map_of (map (\<lambda>(e, i). (i, e)) ordered) p of Some e \<Rightarrow> e | None \<Rightarrow> 0)"

subsection \<open>Initial pass (\<^verbatim>\<open>ConfScan::CheckOnly\<close>)\<close>

text \<open>
  The body of the loop that reads the workers of the initial pass for the
  candidate \<open>mol1\<close>. The accumulator is the scanner, \<^verbatim>\<open>keep_molecule\<close> and
  \<^verbatim>\<open>min_rmsd\<close>. Every worker read adds an entry to the multimap
  \<^verbatim>\<open>m_listThresh\<close>: its RMSD with the energy difference in kJ/mol and the
  differences \<^verbatim>\<open>DH\<close> and \<^verbatim>\<open>DI\<close>.
\<close>

definition CheckOnly_collect ::
  "Molecule \<Rightarrow> ConfScanThread \<Rightarrow> ConfScan \<times> bool \<times> real \<Rightarrow> ctl \<times> ConfScan \<times> bool \<times> real" where
  "CheckOnly_collect mol1 t acc =
     (case acc of (st, keep_molecule, min_rmsd) \<Rightarrow>
      let st = st\<lparr>m_listThresh :=
                    ordered_insert False
                      (thr_rmsd t, [\<bar>mol_Energy (thr_reference t) - mol_Energy mol1\<bar> * 2625.5,
                                    thr_DH t, thr_DI t])
                      (m_listThresh st)\<rparr>
      in
      if \<not> m_rmsd_set st
      then (Continue, st, True, min min_rmsd (thr_rmsd t))
      else
        let st = st\<lparr>m_dTI := max (m_dTI st)
                               (thr_DI t * of_bool (thr_rmsd t \<le> m_sTI st * m_rmsd_threshold st))\<rparr>;
            st = st\<lparr>m_dTH := max (m_dTH st)
                               (thr_DH t * of_bool (thr_rmsd t \<le> m_sTH st * m_rmsd_threshold st))\<rparr>;
            st = st\<lparr>m_dTE := max (m_dTE st)
                               (\<bar>mol_Energy (thr_reference t) - mol_Energy mol1\<bar> * 2625.5
                                  * of_bool (thr_rmsd t \<le> m_sTE st * m_rmsd_threshold st))\<rparr>
        in if thr_keep_molecule t = False
           then (Break, st, False, min_rmsd)
           else (Continue, st, keep_molecule, min_rmsd))"

fun CheckOnly_collect_all ::
  "Molecule \<Rightarrow> ConfScanThread list \<Rightarrow> ConfScan \<times> bool \<times> real \<Rightarrow> ConfScan \<times> bool \<times> real" where
  "CheckOnly_collect_all mol1 [] acc = acc"
| "CheckOnly_collect_all mol1 (t # ts) acc =
     (case CheckOnly_collect mol1 t acc of
        (Continue, acc') \<Rightarrow> CheckOnly_collect_all mol1 ts acc'
      | (c, acc') \<Rightarrow> acc')"

text \<open>
  The body of the loop of \<^verbatim>\<open>CheckOnly\<close> over \<^verbatim>\<open>m_ordered_list\<close>, for the
  entry \<open>i\<close>. The accumulator is the scanner and the workers. The index of an
  entry is the index of a molecule that \<^verbatim>\<open>openFile\<close> has read, so
  \<^verbatim>\<open>m_molecules.at(index)\<close> does not throw.
\<close>

definition CheckOnly_candidate ::
  "scan_driver \<Rightarrow> real \<times> ptr \<Rightarrow> ConfScan \<times> ConfScanThread list \<Rightarrow> ConfScan \<times> ConfScanThread list" where
  "CheckOnly_candidate drv i acc =
     (case acc of (st, threads) \<Rightarrow>
      if m_skip st \<noteq> 0 then (st\<lparr>m_skip := m_skip st - 1\<rparr>, threads)
      else if m_maxrank st \<le> m_accepted st \<and> m_maxrank st > - 1 then (st, threads)
      else
        let mol1 = snd i
        in if mol_Check (m_molecules st ! mol1) = 1
           then (st\<lparr>m_rejected := m_rejected st + 1, m_start := m_start st + 1\<rparr>, threads)
           else if length (m_result st) = 0
           then
             (case addThreadNoreorder (m_molecules st ! mol1) (AcceptMolecule mol1 st) of
                (thread, st) \<Rightarrow>
                  (st\<lparr>m_all_structures := m_all_structures st @ [mol1],
                      m_lowest_energy := mol_Energy (m_molecules st ! mol1)\<rparr>, threads @ [thread]))
           else
             let st = st\<lparr>m_current_energy := mol_Energy (m_molecules st ! mol1)\<rparr>;
                 st = st\<lparr>m_dE := (m_current_energy st - m_lowest_energy st) * 2625.5\<rparr>;
                 threads = sd_StartAndWait drv (ConfScanThreadNoReorder_execute drv (m_molecules st ! mol1))
                             threads
             in case CheckOnly_collect_all (m_molecules st ! mol1) threads (st, True, 10 ^ 4) of
                  (st, keep_molecule, min_rmsd) \<Rightarrow>
                    (case (if keep_molecule
                           then (case addThreadNoreorder (m_molecules st ! mol1) st of
                                   (thread, st) \<Rightarrow> (AcceptMolecule mol1 st, threads @ [thread]))
                           else (RejectMolecule mol1 st, threads)) of
                       (st, threads) \<Rightarrow>
                         let st = (if \<not> m_rmsd_set st
                                   then st\<lparr>m_rmsd_threshold := min min_rmsd (m_rmsd_threshold st)\<rparr>
                                   else st)
                         in (st\<lparr>m_all_structures := m_all_structures st @ [mol1]\<rparr>, threads)))"

text \<open>
  The loop over \<^verbatim>\<open>m_listThresh\<close> that follows the pass: the loose thresholds
  are raised to the largest differences among the entries whose RMSD is not
  above \<^verbatim>\<open>m_getrmsd_thresh\<close>; the loop stops at the first entry above it.
\<close>

definition calibrate_loose :: "ConfScan \<Rightarrow> ConfScan" where
  "calibrate_loose st =
     fold (\<lambda>i st. st\<lparr>m_dLI := max (m_dLI st) (snd i ! 2),
                        m_dLH := max (m_dLH st) (snd i ! 1),
                        m_dLE := max (m_dLE st) (snd i ! 0)\<rparr>)
          (takeWhile (\<lambda>i. \<not> fst i > m_getrmsd_thresh st) (m_listThresh st)) st"

text \<open>
  The loop of \<^verbatim>\<open>CheckOnly\<close> over a part of the ordered list, and the pass: the
  loop over the whole list, the calibration of the loose thresholds, which is
  run twice when \<^verbatim>\<open>m_rmsd_set\<close> is not set, and the setting of
  \<^verbatim>\<open>m_rmsd_set\<close>.
\<close>

definition CheckOnly_loop ::
  "scan_driver \<Rightarrow> (real \<times> ptr) list \<Rightarrow> ConfScan \<times> ConfScanThread list \<Rightarrow> ConfScan \<times> ConfScanThread list" where
  "CheckOnly_loop drv entries acc = fold (CheckOnly_candidate drv) entries acc"

definition CheckOnly :: "scan_driver \<Rightarrow> ConfScan \<Rightarrow> ConfScan" where
  "CheckOnly drv st =
     (let st = fst (CheckOnly_loop drv (m_ordered_list st) (st\<lparr>m_energies := []\<rparr>, []));
          st = (if \<not> m_rmsd_set st then calibrate_loose st else st);
          st = calibrate_loose st
      in st\<lparr>m_rmsd_set := True\<rparr>)"

text \<open>
  A scanner with nothing loaded, all three bits asked for in both masks, RMSD
  threshold 0.1 and no cut-offs; two molecules \<open>A\<close> and \<open>B\<close> that differ in
  name and energy only; and a driver that finds no match without reordering and
  reports the RMSD \<open>r\<close> after the reorder search, with a pool that runs the
  enabled workers in order.
\<close>

definition blank_scan :: ConfScan where
  "blank_scan =
     \<lparr>m_molecules = [], m_ordered_list = [], m_result = [], m_stored_structures = [],
      m_rejected_structures = [], m_previously_accepted = [], m_all_structures = [], m_threshold = [],
      m_accepted = 0, m_rejected = 0, m_start = 0, m_skip = 0, m_maxrank = - 1, m_reorder_rules = [],
      m_skip_orders = False, m_exclude_list = [], m_looseThresh = 7, m_tightThresh = 7,
      m_earlybreak = 0, m_dLI = 0, m_dLH = 0, m_dLE = 0, m_dTI = 0, m_dTH = 0, m_dTE = 0,
      m_ignoreRotation = False, m_ignoreBarCode = False, m_sTI = 0, m_sTH = 0, m_sTE = 0,
      m_rmsd_threshold = 1 / 10, m_rmsd_set = True, m_MaxHTopoDiff = - 1, m_lowest_energy = 0,
      m_current_energy = 0, m_dE = 0, m_energy_cutoff = - 1, m_rejected_directly = 0,
      m_duplicated = 0, m_skiped = 0, m_reordered = 0, m_reordered_worked = 0,
      m_reordered_reused = 0, m_list_performed = [], m_list_skipped = [], m_lastDI = 0,
      m_lastDH = 0, m_RMSDmethod = ''incr'', m_scan_threads = 1, m_domolalign = 0,
      m_molalign_count = 0, m_molalign_success = 0, m_energies = [], m_listThresh = [],
      m_getrmsd_thresh = 0\<rparr>"

definition mol_A :: Molecule where
  "mol_A = \<lparr>mol_Name = ''A'', mol_Energy = 0, mol_Ia = 1, mol_Ib = 1, mol_Ic = 1,
            mol_PersisentImage = [0], mol_AtomCount = 2, mol_Check = 0\<rparr>"

definition mol_B :: Molecule where
  "mol_B = mol_A\<lparr>mol_Name := ''B'', mol_Energy := 1 / 1000\<rparr>"

definition scan_AB :: ConfScan where
  "scan_AB = blank_scan\<lparr>m_molecules := [mol_A, mol_B], m_stored_structures := [0, 1]\<rparr>"

definition driver_with :: "real \<Rightarrow> scan_driver" where
  "driver_with r =
     \<lparr>sd_BestFitRMSD = (\<lambda>a b. 1), sd_Rules2RMSD = (\<lambda>a b rule. 1), sd_RMSD = (\<lambda>a b. r),
      sd_ReorderRules = (\<lambda>a b. [1, 0]), sd_HBondTopoDifference = (\<lambda>a b rule. 0),
      sd_NoReorderRMSD = (\<lambda>a b. 1), sd_molalign = (\<lambda>a b. (1, b)),
      sd_ApplyReorderRule = (\<lambda>rule m. m), sd_CheckStop = (\<lambda>a b. False),
      sd_StartAndWait = pool_in_order\<rparr>"

text \<open>
  A worker for \<open>A\<close> as \<^verbatim>\<open>addThread\<close> makes it for the threshold 0.1, and the
  scanner of \<open>A\<close> and \<open>B\<close> with \<open>A\<close> accepted and tight thresholds that the
  pair \<open>B\<close>, \<open>A\<close> stays below.
\<close>

definition worker_A :: ConfScanThread where
  "worker_A = new_thread mol_A [] (1 / 10) (- 1) False 0"

definition scan_tight :: ConfScan where
  "scan_tight = scan_AB\<lparr>m_result := [0], m_stored_structures := [0], m_dTI := 1, m_dTH := 1, m_dTE := 10\<rparr>"

text \<open>
  For the concrete runs of the initial pass: a third molecule \<open>C\<close> below \<open>A\<close>
  and \<open>B\<close> in energy, an energy backend that returns 0 for every molecule, and
  the scanner as \<^verbatim>\<open>openFile\<close> leaves it after reading \<open>B\<close> and \<open>C\<close> in
  this order with their energies from the file.
\<close>

definition mol_C :: Molecule where
  "mol_C = mol_A\<lparr>mol_Name := ''C'', mol_Energy := - 1 / 1000\<rparr>"

definition backend_zero :: "string \<Rightarrow> Molecule \<Rightarrow> real" where
  "backend_zero m_method mol = 0"

definition scan_BC :: ConfScan where
  "scan_BC = blank_scan\<lparr>m_molecules := [mol_B, mol_C], m_ordered_list := [(- 1 / 1000, 1), (1 / 1000, 0)]\<rparr>"

text \<open>
  For the runs with previously accepted structures and with computed
  energies: a molecule \<open>P\<close> of energy 1, a molecule \<open>X\<close> without an energy in
  its file, an energy backend that gives \<open>X\<close> the energy -2 and every other
  molecule -1, and two scanners as \<^verbatim>\<open>openFile\<close> leaves them: \<open>scan_prev\<close> has
  read \<open>B\<close> from the input file and \<open>P\<close> as previously accepted, with an
  energy cut-off of 1 kJ/mol, and \<open>scan_XC\<close> has read \<open>X\<close> and \<open>C\<close>.
\<close>

definition mol_P :: Molecule where
  "mol_P = mol_A\<lparr>mol_Name := ''P'', mol_Energy := 1\<rparr>"

definition mol_X :: Molecule where
  "mol_X = mol_A\<lparr>mol_Name := ''X'', mol_Energy := 0\<rparr>"

definition backend_X :: "string \<Rightarrow> Molecule \<Rightarrow> real" where
  "backend_X m_method mol = (if mol_Name mol = ''X'' then - 2 else - 1)"

definition scan_prev :: ConfScan where
  "scan_prev = openFile False backend_zero [] [mol_B] (Some [mol_P]) (blank_scan\<lparr>m_energy_cutoff := 1\<rparr>)"

definition scan_XC :: ConfScan where
  "scan_XC = openFile False backend_X [] [mol_X, mol_C] None blank_scan"

section \<open>Theorems\<close>

subsection \<open>Cost kernel\<close>

text \<open>
  C10. The cost kernel is defined for every selector: selectors 1 to 6 give
  distance squared, distance, distance + norm, distance squared + norm squared,
  distance * norm and distance squared * norm squared, and every other
  selector gives distance squared, the value of selector 1.
\<close>

theorem Cost_selectors:
  "Cost d n 1 = d\<^sup>2 \<and> Cost d n 2 = d \<and> Cost d n 3 = d + n
   \<and> Cost d n 4 = d\<^sup>2 + n\<^sup>2 \<and> Cost d n 5 = d * n \<and> Cost d n 6 = d\<^sup>2 * n\<^sup>2
   \<and> (\<forall>c. c < 1 \<or> 6 < c \<longrightarrow> Cost d n c = d\<^sup>2 \<and> Cost d n c = Cost d n 1)"
  by (auto simp: Cost_def power2_eq_square)

theorem Cost_selectors_witness:
  "Cost 3 2 1 = 9 \<and> Cost 3 2 2 = 3 \<and> Cost 3 2 3 = 5 \<and> Cost 3 2 4 = 13
   \<and> Cost 3 2 5 = 6 \<and> Cost 3 2 6 = 36 \<and> Cost 3 2 0 = 9 \<and> Cost 3 2 7 = 9 \<and> Cost 3 2 (-4) = Cost 3 2 1"
  using Cost_selectors [of 3 2] by simp

subsection \<open>Reorder-rule cache\<close>

lemma push_if_absent_distinct: "distinct rs \<Longrightarrow> distinct (push_if_absent r rs)"
  by (simp add: push_if_absent_def)

lemma push_if_absent_prefix: "prefix rs (push_if_absent r rs)"
  by (simp add: push_if_absent_def)

lemma load_cached_distinct: "distinct rs \<Longrightarrow> distinct (load_cached vs rs)"
  by (induction vs arbitrary: rs) (simp_all add: push_if_absent_distinct)

lemma load_cached_prefix: "prefix rs (load_cached vs rs)"
proof (induction vs arbitrary: rs)
  case Nil
  show ?case by simp
next
  case (Cons v vs)
  have "prefix rs (push_if_absent v rs)" by (rule push_if_absent_prefix)
  also have "prefix (push_if_absent v rs) (load_cached vs (push_if_absent v rs))" by (rule Cons.IH)
  finally show ?case by simp
qed

lemma LoadRestartInformation_distinct:
  "distinct rs \<Longrightarrow> distinct (LoadRestartInformation b fs rs)"
  by (induction b fs rs rule: LoadRestartInformation.induct) (simp_all add: load_cached_distinct)

lemma LoadRestartInformation_prefix: "prefix rs (LoadRestartInformation b fs rs)"
proof (induction b fs rs rule: LoadRestartInformation.induct)
  case (3 m_restart reorder_cached fs rs)
  let ?rs' = "if m_restart then load_cached reorder_cached rs else rs"
  have "prefix rs ?rs'" by (simp add: load_cached_prefix)
  also have "prefix ?rs' (LoadRestartInformation m_restart fs ?rs')" by (rule "3.IH")
  finally show ?case by simp
qed simp_all

lemma cache_step_distinct: "distinct rs \<Longrightarrow> distinct (cache_step c rs)"
  by (cases c) (simp_all add: AddRules_def push_if_absent_distinct LoadRestartInformation_distinct)

lemma cache_step_prefix: "prefix rs (cache_step c rs)"
  by (cases c) (simp_all add: AddRules_def push_if_absent_prefix LoadRestartInformation_prefix)

text \<open>
  C9. The reorder-rule cache never holds two equal permutations and keeps
  its insertion order: a single insertion appends the rule at the end when it
  is absent and leaves the cache as it is otherwise, and after any sequence of
  \<^verbatim>\<open>AddRules\<close> calls and restart loads a duplicate-free cache is still
  duplicate-free and still starts with its former entries in their former order.
\<close>

theorem reorder_rules_distinct_ordered:
  "(snd (AddRules skip r rs) = rs \<or> (r \<notin> set rs \<and> snd (AddRules skip r rs) = rs @ [r]))
   \<and> (distinct rs \<longrightarrow> distinct (cache_run ops rs))
   \<and> prefix rs (cache_run ops rs)"
proof -
  have a: "snd (AddRules skip r rs) = rs \<or> (r \<notin> set rs \<and> snd (AddRules skip r rs) = rs @ [r])"
    by (simp add: AddRules_def push_if_absent_def)
  have d: "distinct rs \<Longrightarrow> distinct (cache_run ops rs)"
    by (induction ops arbitrary: rs) (simp_all add: cache_step_distinct)
  have p: "prefix rs (cache_run ops rs)"
  proof (induction ops arbitrary: rs)
    case Nil
    show ?case by simp
  next
    case (Cons c cs)
    have "prefix rs (cache_step c rs)" by (rule cache_step_prefix)
    also have "prefix (cache_step c rs) (cache_run cs (cache_step c rs))" by (rule Cons.IH)
    finally show ?case by simp
  qed
  from a d p show ?thesis by blast
qed

theorem reorder_rules_distinct_ordered_witness:
  "cache_run [OpAddRules False [1, 0, 2], OpLoadRestart True [None, Some [[1, 0, 2], [2, 1, 0]]],
              OpAddRules False [2, 1, 0], OpAddRules False []] [[0, 1, 2]]
     = [[0, 1, 2], [1, 0, 2], [2, 1, 0]]
   \<and> distinct (cache_run [OpAddRules False [1, 0, 2], OpLoadRestart True [None, Some [[1, 0, 2], [2, 1, 0]]],
              OpAddRules False [2, 1, 0], OpAddRules False []] [[0, 1, 2]])"
  using reorder_rules_distinct_ordered [of False "[1, 0, 2]" "[[0, 1, 2]]"
      "[OpAddRules False [1, 0, 2], OpLoadRestart True [None, Some [[1, 0, 2], [2, 1, 0]]],
        OpAddRules False [2, 1, 0], OpAddRules False []]"]
  by (simp add: AddRules_def push_if_absent_def)

subsection \<open>Kinetic energy\<close>

text \<open>
  C1. The kinetic energy computed by \<^verbatim>\<open>EKin\<close> should be one half of the sum of
  each atom's own mass times its squared velocity. On the hydroxyl state the
  masses are stored as O, O, O, H, H, H and \<^verbatim>\<open>EKin\<close> reads entry 1 for the
  second atom: the moving hydrogen is weighted with the oxygen mass and the
  result is 7.9995 where the specified value is 0.504.
\<close>

theorem EKin_reads_wrong_mass:
  "well_formed hydroxyl
   \<and> m_eigen_masses hydroxyl = [15.999, 15.999, 15.999, 1.008, 1.008, 1.008]
   \<and> m_Ekin (EKin kb_Eh_au hydroxyl) = 7.9995
   \<and> ekin_spec [15.999, 1.008] (m_eigen_velocities hydroxyl) = 0.504
   \<and> m_Ekin (EKin kb_Eh_au hydroxyl) \<noteq> ekin_spec [15.999, 1.008] (m_eigen_velocities hydroxyl)"
  by (simp add: well_formed_def hydroxyl_def blank_def EKin_def ekin_add_def ekin_spec_def AtomicMass_OH_def
      atom_mass_def upt_rec Let_def)

subsection \<open>Bias energy of a worker\<close>









subsection \<open>Log-Fermi walls\<close>

text \<open>
  The spherical wall consults the exponential only inside \<open>[-700, 700]\<close>: two
  exponentials that agree there give the same potential and the same state.
\<close>

lemma spheric_exp_expr_cong:
  assumes "\<And>a. - 700 \<le> a \<Longrightarrow> a \<le> 700 \<Longrightarrow> ex a = ex' a"
  shows "spheric_exp_expr ex b = spheric_exp_expr ex' b"
  using assms by (simp add: spheric_exp_expr_def)

lemma spheric_body_cong:
  assumes "\<And>a. - 700 \<le> a \<Longrightarrow> a \<le> 700 \<Longrightarrow> ex a = ex' a"
  shows "spheric_body ex kbT st = spheric_body ex' kbT st"
  by (intro ext) (simp add: spheric_body_def spheric_exp_expr_cong [OF assms] split: prod.splits)

lemma ApplySphericLogFermiWalls_guarded:
  assumes "\<And>a. - 700 \<le> a \<Longrightarrow> a \<le> 700 \<Longrightarrow> ex a = ex' a"
  shows "ApplySphericLogFermiWalls ex kb st = ApplySphericLogFermiWalls ex' kb st"
  by (simp add: ApplySphericLogFermiWalls_def spheric_body_cong [OF assms])

lemma rect_far_outside_potential:
  "fst (ApplyRectLogFermiWalls ex kb far_outside)
     = 300 * kb * (ln (1 + ex 990) + ln (1 + ex (- 1010)) + ln (1 + ex (- 10)) + ln (1 + ex (- 10))
                   + ln (1 + ex (- 10)) + ln (1 + ex (- 10)))"
  by (simp add: ApplyRectLogFermiWalls_def rect_body_def far_outside_def blank_def Let_def)

lemma ln1p_gt: "x < ln (1 + exp x)" for x :: real
proof -
  have "ln (exp x) < ln (1 + exp x)" by (subst ln_less_cancel_iff) (simp_all add: add_pos_pos)
  then show ?thesis by simp
qed

lemma exp_one_ge_two: "2 \<le> exp (1::real)"
  using exp_ge_add_one_self [of 1] by simp

lemma ln1p_le: "0 \<le> x \<Longrightarrow> ln (1 + exp x) \<le> x + 1" for x :: real
proof -
  assume x: "0 \<le> x"
  have a: "1 \<le> exp x" using x by simp
  have "2 * exp x \<le> exp 1 * exp x" using exp_one_ge_two by (intro mult_right_mono) simp_all
  with a have "1 + exp x \<le> exp 1 * exp x" by linarith
  then have "1 + exp x \<le> exp (x + 1)" by (simp add: exp_add mult.commute)
  then have "ln (1 + exp x) \<le> ln (exp (x + 1))"
    by (subst ln_le_cancel_iff) (simp_all add: add_pos_pos)
  then show ?thesis by simp
qed

lemma ln1p_small: "x \<le> 0 \<Longrightarrow> ln (1 + exp x) \<le> 1" for x :: real
proof -
  assume "x \<le> 0"
  then have "exp x \<le> 1" by simp
  with exp_one_ge_two have "1 + exp x \<le> exp 1" by linarith
  then have "ln (1 + exp x) \<le> ln (exp (1::real))"
    by (subst ln_le_cancel_iff) (simp_all add: add_pos_pos)
  then show ?thesis by simp
qed

text \<open>
  C7. Every argument passed to the exponential by a log-Fermi wall should lie
  in \<open>[-700, 700]\<close>. The rectangular wall calls \<^verbatim>\<open>exp\<close> on the raw products:
  for the atom at \<open>x = - 1000\<close> in the box \<open>[-10, 10]\<close> with \<open>beta = 1\<close> the
  six arguments are 990, -1010, -10, -10, -10, -10, and the potential it
  returns is not the one an exponential with clamped argument gives.
\<close>

theorem ApplyRectLogFermiWalls_unclamped:
  "well_formed far_outside
   \<and> rect_exp_args far_outside 0 = [990, - 1010, - 10, - 10, - 10, - 10]
   \<and> fst (ApplyRectLogFermiWalls exp kb_Eh_au far_outside)
       = 300 * kb_Eh_au * (ln (1 + exp 990) + ln (1 + exp (- 1010)) + ln (1 + exp (- 10))
                           + ln (1 + exp (- 10)) + ln (1 + exp (- 10)) + ln (1 + exp (- 10)))
   \<and> fst (ApplyRectLogFermiWalls exp kb_Eh_au far_outside)
       \<noteq> fst (ApplyRectLogFermiWalls exp_clamped kb_Eh_au far_outside)"
proof -
  have wf: "well_formed far_outside
      \<and> rect_exp_args far_outside 0 = [990, - 1010, - 10, - 10, - 10, - 10]"
    by (simp add: well_formed_def far_outside_def blank_def rect_exp_args_def)
  have a: "990 < ln (1 + exp (990::real))" by (rule ln1p_gt)
  have b: "ln (1 + exp (700::real)) \<le> 701" using ln1p_le [of 700] by simp
  have c: "0 < ln (1 + exp (- 1010::real))" by (simp add: ln_gt_zero)
  have d: "ln (1 + exp (- 700::real)) \<le> 1" by (rule ln1p_small) simp
  have k: "0 < kb_Eh_au" by (simp add: kb_Eh_au_def)
  have "ln (1 + exp (990::real)) + ln (1 + exp (- 1010::real))
          \<noteq> ln (1 + exp (700::real)) + ln (1 + exp (- 700::real))"
    using a b c d by linarith
  then have ne: "fst (ApplyRectLogFermiWalls exp kb_Eh_au far_outside)
       \<noteq> fst (ApplyRectLogFermiWalls exp_clamped kb_Eh_au far_outside)"
    using k by (simp add: rect_far_outside_potential exp_clamped_def)
  from wf ne show ?thesis by (simp add: rect_far_outside_potential)
qed

subsection \<open>Bias deposition\<close>

text \<open>
  An evaluation of the workers changes the counters, factors and energies of
  their structures, but not which structures a worker holds.
\<close>

lemma execute_body_structure:
  "execute_body drv kb n i s bt = (s', bt') \<Longrightarrow> bs_index s' = bs_index s \<and> bs_geometry s' = bs_geometry s"
  by (auto simp: execute_body_def Let_def split: if_splits)

lemma execute_loop_structures:
  "execute_loop drv kb n i ss bt = (ss', bt')
   \<Longrightarrow> map (\<lambda>s. (bs_index s, bs_geometry s)) ss' = map (\<lambda>s. (bs_index s, bs_geometry s)) ss"
proof (induction ss arbitrary: i bt ss' bt')
  case Nil
  then show ?case by simp
next
  case (Cons s ss)
  obtain s1 bt1 where b: "execute_body drv kb n i s bt = (s1, bt1)"
    by (cases "execute_body drv kb n i s bt")
  obtain ss2 bt2 where l: "execute_loop drv kb n (Suc i) ss bt1 = (ss2, bt2)"
    by (cases "execute_loop drv kb n (Suc i) ss bt1")
  from Cons.prems b l have "ss' = s1 # ss2" by simp
  with Cons.IH [OF l] execute_body_structure [OF b] show ?case by simp
qed

lemma execute_deposited: "deposited_in (execute drv kb bt) = deposited_in bt"
proof (cases "m_biased_structures bt = []")
  case True
  then show ?thesis by (simp add: execute_def deposited_in_def)
next
  case False
  let ?bt0 = "bt\<lparr>m_current_bias := 0, m_counter := 0,
                  m_gradient := replicate (length (m_reference bt)) [0, 0, 0]\<rparr>"
  obtain ss' bt' where l: "execute_loop drv kb (length (m_biased_structures bt)) 0 (m_biased_structures bt) ?bt0 = (ss', bt')"
    by (cases "execute_loop drv kb (length (m_biased_structures bt)) 0 (m_biased_structures bt) ?bt0")
  from execute_loop_structures [OF l] l False show ?thesis
    by (simp add: execute_def Let_def deposited_in_def)
qed

lemma setCurrentGeometry_deposited: "deposited_in (setCurrentGeometry geom step bt) = deposited_in bt"
  by (simp add: setCurrentGeometry_def deposited_in_def)

lemma addGeometry_deposited:
  "deposited_in (addGeometry fresh geom r t idx bt) = deposited_in bt @ [(idx, geom)]"
  by (simp add: addGeometry_def deposited_in_def)

lemma serial_loop_threads:
  "fst (serial_loop drv kb ix geom step bts acc) = map (\<lambda>bt. execute drv kb (setCurrentGeometry geom step bt)) bts"
  by (induction bts arbitrary: acc) (simp_all add: Let_def case_prod_beta)

lemma evaluate_bias_threads:
  assumes "evaluate_bias drv kb st = (cb, st')"
  shows "map deposited_in (m_bias_threads st') = map deposited_in (m_bias_threads st)"
proof (cases "m_threads st = 1 \<or> m_bias_structure_count st = 1")
  case True
  with assms have "m_bias_threads st'
      = fst (serial_loop drv kb (m_rmsd_indicies st) (current_geometry st) (m_currentStep st) (m_bias_threads st)
               (0, m_eigen_gradient st, 0))"
    by (auto simp: evaluate_bias_def Let_def split: prod.splits)
  then show ?thesis
    by (simp add: serial_loop_threads execute_deposited setCurrentGeometry_deposited comp_def)
next
  case False
  with assms have "m_bias_threads st'
      = map (execute drv kb) (pool_set_geometry (current_geometry st) (m_currentStep st)
              (m_bias_structure_count st) (m_threads st) (m_bias_threads st))"
    by (auto simp: evaluate_bias_def Let_def split: prod.splits)
  moreover have "map deposited_in (pool_set_geometry g t c n bts) = map deposited_in bts" for g t c n bts
  proof -
    have "map deposited_in (take c bts) @ map deposited_in (drop c bts) = map deposited_in bts"
      by (simp only: map_append [symmetric] append_take_drop_id)
    then show ?thesis by (simp add: pool_set_geometry_def setCurrentGeometry_deposited comp_def)
  qed
  ultimately show ?thesis by (simp add: execute_deposited comp_def)
qed

lemma evaluate_bias_keeps:
  assumes "evaluate_bias drv kb st = (cb, st')"
  shows "m_bias_structure_count st' = m_bias_structure_count st"
    and "m_rmsd_econv st' = m_rmsd_econv st"
    and "m_rmsd_fix_structure st' = m_rmsd_fix_structure st"
  using assms by (auto simp: evaluate_bias_def Let_def split: if_splits prod.splits)

text \<open>
  C8, as the code has it. \<^verbatim>\<open>ApplyRMSDMTD\<close> is reached only through the gate
  of the integrator: when RMSD metadynamics is off or the step counter the
  integrator reads is not a multiple of \<^verbatim>\<open>mtd_steps\<close>, the state is left as it
  is. When the gate passes, one structure is deposited without any test if
  none has been deposited before, into worker 0; and one more is deposited
  exactly when the bias energy just evaluated, times the energy-convergence
  factor, is below the number of deposited structures and structure fixing is
  off, into worker (number of deposited structures mod number of workers).
  Each deposit appends the current geometry, under the number of structures
  deposited before it as its index, to the list of that worker, and no worker
  gains or loses a structure otherwise.
\<close>

theorem deposition_rule:
  assumes "mtd_gate drv kb fresh st = Some st'"
  shows "(\<not> (m_rmsd_mtd st \<and> m_step st mod m_mtd_steps st = 0) \<longrightarrow> st' = st)
   \<and> (m_rmsd_mtd st \<and> m_step st mod m_mtd_steps st = 0
        \<longrightarrow> m_bias_structure_count st' = m_bias_structure_count st
              + (if m_bias_structure_count st = 0 then 1 else 0)
              + (if fst (evaluate_bias drv kb (deposit_first fresh st)) * m_rmsd_econv st
                      < real (max 1 (m_bias_structure_count st)) \<and> \<not> m_rmsd_fix_structure st
                 then 1 else 0)
          \<and> length (m_bias_threads st') = length (m_bias_threads st)
          \<and> (\<forall>w<length (m_bias_threads st).
                deposited_in (m_bias_threads st' ! w)
                  = deposited_in (m_bias_threads st ! w)
                    @ (if m_bias_structure_count st = 0 \<and> w = 0 then [(0, current_geometry st)] else [])
                    @ (if fst (evaluate_bias drv kb (deposit_first fresh st)) * m_rmsd_econv st
                            < real (max 1 (m_bias_structure_count st)) \<and> \<not> m_rmsd_fix_structure st
                          \<and> w = max 1 (m_bias_structure_count st) mod length (m_bias_threads st)
                       then [(max 1 (m_bias_structure_count st), current_geometry st)] else [])))"
proof (cases "m_rmsd_mtd st \<and> m_step st mod m_mtd_steps st = 0")
  case False
  with assms show ?thesis by (auto simp: mtd_gate_def split: if_splits)
next
  case True
  with assms have a: "ApplyRMSDMTD drv kb fresh st = Some st'"
    by (simp add: mtd_gate_def split: if_splits)
  then have ne: "m_bias_threads st \<noteq> []" by (auto simp: ApplyRMSDMTD_def split: if_splits)
  define geom where "geom = current_geometry st"
  define c0 where "c0 = m_bias_structure_count st"
  define n where "n = length (m_bias_threads st)"
  define st0 where "st0 = deposit_first fresh st"
  obtain cb st1 where e: "evaluate_bias drv kb st0 = (cb, st1)" by (cases "evaluate_bias drv kb st0")
  from a e ne have st': "st' = deposit_next fresh geom cb st1"
    by (simp add: ApplyRMSDMTD_def st0_def geom_def)
  have n0: "0 < n" using ne by (simp add: n_def)
  have l0: "length (m_bias_threads st0) = n" by (simp add: st0_def deposit_first_def n_def)
  have k0: "m_bias_structure_count st0 = max 1 c0" "m_rmsd_econv st0 = m_rmsd_econv st"
    "m_rmsd_fix_structure st0 = m_rmsd_fix_structure st"
    by (simp_all add: st0_def deposit_first_def c0_def)
  have d0: "deposited_in (m_bias_threads st0 ! w)
              = deposited_in (m_bias_threads st ! w) @ (if c0 = 0 \<and> w = 0 then [(0, geom)] else [])"
    if "w < n" for w
    using that n0
    by (cases w) (simp_all add: st0_def deposit_first_def c0_def n_def geom_def addGeometry_deposited)
  note k1 = evaluate_bias_keeps [OF e]
  from evaluate_bias_threads [OF e] have m1: "map deposited_in (m_bias_threads st1) = map deposited_in (m_bias_threads st0)" .
  then have "length (map deposited_in (m_bias_threads st1)) = length (map deposited_in (m_bias_threads st0))"
    by simp
  then have l1: "length (m_bias_threads st1) = n" using l0 by simp
  have d1: "deposited_in (m_bias_threads st1 ! w) = deposited_in (m_bias_threads st0 ! w)" if "w < n" for w
  proof -
    from that l1 l0 have "deposited_in (m_bias_threads st1 ! w) = map deposited_in (m_bias_threads st1) ! w"
      by simp
    also have "\<dots> = map deposited_in (m_bias_threads st0) ! w" by (simp only: m1)
    also have "\<dots> = deposited_in (m_bias_threads st0 ! w)" using that l0 by simp
    finally show ?thesis .
  qed
  define test where "test = (cb * m_rmsd_econv st < real (max 1 c0) \<and> \<not> m_rmsd_fix_structure st)"
  have cnt: "m_bias_structure_count st' = c0 + (if c0 = 0 then 1 else 0) + (if test then 1 else 0)"
    by (simp add: st' deposit_next_def Let_def k1 k0 test_def max_def)
  have len: "length (m_bias_threads st') = n"
    by (simp add: st' deposit_next_def Let_def l1)
  have d2: "deposited_in (m_bias_threads st' ! w)
              = deposited_in (m_bias_threads st1 ! w)
                @ (if test \<and> w = max 1 c0 mod n then [(max 1 c0, geom)] else [])"
    if "w < n" for w
    using that l1
    by (simp add: st' deposit_next_def Let_def k1 k0 test_def addGeometry_deposited nth_list_update)
  have "\<forall>w<n. deposited_in (m_bias_threads st' ! w)
                  = deposited_in (m_bias_threads st ! w)
                    @ (if c0 = 0 \<and> w = 0 then [(0, geom)] else [])
                    @ (if test \<and> w = max 1 c0 mod n then [(max 1 c0, geom)] else [])"
    using d0 d1 d2 by simp
  with cnt len True e show ?thesis
    unfolding test_def c0_def n_def geom_def st0_def by simp
qed

theorem deposition_rule_witness:
  "m_rmsd_mtd mtd_pair \<and> m_step mtd_pair mod m_mtd_steps mtd_pair = 0
   \<and> length (m_bias_threads mtd_pair) = 2
   \<and> map_option m_bias_structure_count (mtd_gate driver0 kb_Eh_au fresh0 mtd_pair) = Some 2
   \<and> map_option (map deposited_in \<circ> m_bias_threads) (mtd_gate driver0 kb_Eh_au fresh0 mtd_pair)
       = Some [[(0, [[0, 0, 0]])], [(1, [[0, 0, 0]])]]
   \<and> map_option (map deposited_in \<circ> m_bias_threads)
        (mtd_gate driver0 kb_Eh_au fresh0 (the (mtd_gate driver0 kb_Eh_au fresh0 mtd_pair)))
       = Some [[(0, [[0, 0, 0]]), (2, [[0, 0, 0]])], [(1, [[0, 0, 0]])]]"
  using deposition_rule [of driver0 kb_Eh_au fresh0 mtd_pair "the (mtd_gate driver0 kb_Eh_au fresh0 mtd_pair)"]
  by (simp add: mtd_gate_def mtd_pair_def mtd_fresh_def blank_def ApplyRMSDMTD_def deposit_first_def
     evaluate_bias_def deposit_next_def current_geometry_def addGeometry_def worker0_def fresh0_def
     setCurrentGeometry_def execute_def execute_body_def driver0_def collect_def Let_def mat_add_scaled_def
     deposited_in_def pool_set_geometry_def BiasThread_m_dT_def)

text \<open>
  The claim as the specification words it, a deposit only when the bias energy
  times the convergence factor is below the number of deposited structures,
  fails on the first call: with nothing deposited the count goes from 0 to 1,
  although the test is false before the deposit (0 times 2 is not below 0)
  and false after it (the bias energy is then 1, and 1 times 2 is not below 1).
\<close>

theorem first_deposit_counterexample:
  "m_bias_structure_count mtd_fresh = 0
   \<and> m_step mtd_fresh mod m_mtd_steps mtd_fresh = 0
   \<and> map_option m_bias_structure_count (mtd_gate driver0 kb_Eh_au fresh0 mtd_fresh) = Some 1
   \<and> \<not> (0 * m_rmsd_econv mtd_fresh < real (m_bias_structure_count mtd_fresh))
   \<and> fst (evaluate_bias driver0 kb_Eh_au (deposit_first fresh0 mtd_fresh)) = 1
   \<and> \<not> (fst (evaluate_bias driver0 kb_Eh_au (deposit_first fresh0 mtd_fresh)) * m_rmsd_econv mtd_fresh < real 1)"
  by (simp add: mtd_gate_def mtd_fresh_def blank_def ApplyRMSDMTD_def deposit_first_def
     evaluate_bias_def deposit_next_def current_geometry_def addGeometry_def worker0_def fresh0_def
     setCurrentGeometry_def execute_def execute_body_def driver0_def collect_def Let_def mat_add_scaled_def
     BiasThread_m_dT_def)


subsection \<open>Instability flag\<close>

text \<open>
  What the calls inside a step leave alone: the metadynamics gate writes the
  bias workers, the gradient, the bias energy, the counter of the collective
  variable and the number of deposited structures; the velocity iteration
  writes the velocities and the virial correction. The temperature stored in
  \<^verbatim>\<open>m_T\<close> is therefore still the one of the first half of the step when the
  flag is computed.
\<close>

lemma evaluate_bias_frame:
  "evaluate_bias drv kb st = (cb, st')
   \<Longrightarrow> st'\<lparr>m_bias_threads := [], m_eigen_gradient := [], m_colvar_incr := 0,
                                m_bias_energy := 0, m_bias_structure_count := 0\<rparr>
     = st\<lparr>m_bias_threads := [], m_eigen_gradient := [], m_colvar_incr := 0,
                                m_bias_energy := 0, m_bias_structure_count := 0\<rparr>"
  by (auto simp: evaluate_bias_def Let_def split: prod.splits if_splits)

lemma deposit_first_frame:
  "(deposit_first fresh st)\<lparr>m_bias_threads := [], m_eigen_gradient := [], m_colvar_incr := 0,
                                m_bias_energy := 0, m_bias_structure_count := 0\<rparr>
     = st\<lparr>m_bias_threads := [], m_eigen_gradient := [], m_colvar_incr := 0,
                                m_bias_energy := 0, m_bias_structure_count := 0\<rparr>"
  by (simp add: deposit_first_def Let_def)

lemma deposit_next_frame:
  "(deposit_next fresh geom cb st)\<lparr>m_bias_threads := [], m_eigen_gradient := [], m_colvar_incr := 0,
                                m_bias_energy := 0, m_bias_structure_count := 0\<rparr>
     = st\<lparr>m_bias_threads := [], m_eigen_gradient := [], m_colvar_incr := 0,
                                m_bias_energy := 0, m_bias_structure_count := 0\<rparr>"
  by (simp add: deposit_next_def Let_def)

lemma mtd_gate_frame:
  assumes "mtd_gate drv kb fresh st = Some st'"
  shows "st'\<lparr>m_bias_threads := [], m_eigen_gradient := [], m_colvar_incr := 0,
                                m_bias_energy := 0, m_bias_structure_count := 0\<rparr>
     = st\<lparr>m_bias_threads := [], m_eigen_gradient := [], m_colvar_incr := 0,
                                m_bias_energy := 0, m_bias_structure_count := 0\<rparr>"
proof (cases "m_rmsd_mtd st \<and> m_step st mod m_mtd_steps st = 0")
  case True
  obtain cb st1 where e: "evaluate_bias drv kb (deposit_first fresh st) = (cb, st1)"
    by (cases "evaluate_bias drv kb (deposit_first fresh st)")
  from assms True e have st': "st' = deposit_next fresh (current_geometry st) cb st1"
    by (auto simp: mtd_gate_def ApplyRMSDMTD_def split: if_splits)
  show ?thesis
    unfolding st' by (simp only: deposit_next_frame evaluate_bias_frame [OF e] deposit_first_frame)
next
  case False
  with assms have "st' = st" by (auto simp: mtd_gate_def split: if_splits)
  then show ?thesis by simp
qed

lemma mtd_gate_T:
  assumes "mtd_gate drv kb fresh st = Some st'"
  shows "m_T st' = m_T st"
  using arg_cong [OF mtd_gate_frame [OF assms], of m_T] by simp

lemma Verlet_upto_walls_T:
  assumes "Verlet_upto_walls env st = Some st5"
  shows "m_T st5 = first_T env st"
proof -
  obtain geom velo ekin where f: "fold (Verlet_first_body st) [0..<m_natoms st]
      (m_eigen_geometry st, m_eigen_velocities st, 0) = (geom, velo, ekin)"
    by (cases "fold (Verlet_first_body st) [0..<m_natoms st] (m_eigen_geometry st, m_eigen_velocities st, 0)")
  define sa where "sa = ThermostatFunction env (st\<lparr>m_eigen_geometry := geom, m_eigen_velocities := velo,
                      m_T := temperature (env_kb env) (ekin * 0.5) (m_dof st), m_Ekin := ekin * 0.5\<rparr>)"
  define sb where "sb = (case Energy env (m_eigen_geometry sa) of
                      (e, g) \<Rightarrow> sa\<lparr>m_Epot := e, m_eigen_gradient := g\<rparr>)"
  from assms f obtain sc where g: "mtd_gate (driver env) (env_kb env) (fresh_structure env) sb = Some sc"
    and st5: "st5 = WallPotential env sc"
    by (auto simp: Verlet_upto_walls_def Let_def sa_def sb_def)
  have "m_T sb = temperature (env_kb env) (ekin * 0.5) (m_dof st)"
    by (simp add: sb_def sa_def ThermostatFunction_def split: prod.splits)
  moreover from mtd_gate_T [OF g] have "m_T sc = m_T sb" .
  moreover have "m_T st5 = m_T sc" by (simp add: st5 WallPotential_def split: prod.splits)
  ultimately show ?thesis using f by (simp add: first_T_def)
qed

lemma EKin_unstable: "m_unstable (EKin kb st) = m_unstable st"
  by (simp add: EKin_def Let_def)

lemma Verlet_second_unstable:
  "m_unstable (Verlet_second env st)
     = (dgt (second_T env st) (dscale 10000 (m_T st)) \<or> isnan (second_T env st))"
  by (simp add: Verlet_second_def second_T_def EKin_unstable ThermostatFunction_def Let_def split: prod.splits)


lemma bonds_loop_frame:
  assumes "\<And>s b s'. f s b = Some (Done s') \<Longrightarrow> g s' = g s"
    and "bonds_loop f bs s = Some (Done s')"
  shows "g s' = g s"
  using assms(2)
proof (induction bs arbitrary: s)
  case Nil
  then show ?case by simp
next
  case (Cons b bs)
  from Cons.prems obtain s1 where f: "f s b = Some (Done s1)" and r: "bonds_loop f bs s1 = Some (Done s')"
    by (auto split: option.splits outcome.splits)
  from Cons.IH [OF r] assms(1) [OF f] show ?case by simp
qed

lemma velocity_bond_frame:
  "velocity_bond is13 sl bond = Some (Done sl') \<Longrightarrow> velocity_frame sl' = velocity_frame sl"
  by (auto simp: velocity_bond_def velocity_correct_def velocity_frame_def Let_def
           split: prod.splits if_splits option.splits)

lemma velocity_iteration_frame:
  assumes "velocity_iteration sl = Some (Done sl')"
  shows "velocity_frame sl' = velocity_frame sl"
proof -
  obtain st lv where sl: "sl = (st, lv)" by (cases sl)
  from assms sl obtain sl1 where
    a: "bonds_loop (velocity_bond False) (m_bond_constrained st) (st, lv\<lparr>active := 0\<rparr>) = Some (Done sl1)"
    and b: "bonds_loop (velocity_bond True) (m_bond_13_constrained (fst sl1)) sl1 = Some (Done sl')"
    by (auto simp: velocity_iteration_def split: option.splits outcome.splits prod.splits)
  have "velocity_frame sl1 = velocity_frame (st, lv\<lparr>active := 0\<rparr>)"
    by (rule bonds_loop_frame [OF velocity_bond_frame a])
  moreover have "velocity_frame sl' = velocity_frame sl1"
    by (rule bonds_loop_frame [OF velocity_bond_frame b])
  ultimately show ?thesis by (simp add: sl velocity_frame_def)
qed

lemma velocity_loop_frame:
  "velocity_loop maxiter iter sl = Some (Done (n, sl')) \<Longrightarrow> velocity_frame sl' = velocity_frame sl"
proof (induction maxiter iter sl rule: velocity_loop.induct)
  case (1 maxiter iter sl)
  show ?case
  proof (cases "int iter < maxiter")
    case False
    with 1(2) show ?thesis by (simp add: velocity_loop.simps)
  next
    case True
    with 1(2) obtain sl1 where it: "velocity_iteration sl = Some (Done sl1)"
      by (auto simp: velocity_loop.simps [of maxiter iter sl] split: option.splits outcome.splits)
    note f = velocity_iteration_frame [OF it]
    show ?thesis
    proof (cases "active (snd sl1) = 0")
      case True
      with 1(2) \<open>int iter < maxiter\<close> it have "sl' = sl1"
        by (simp add: velocity_loop.simps [of maxiter iter sl])
      with f show ?thesis by simp
    next
      case False
      with 1(2) \<open>int iter < maxiter\<close> it have "velocity_loop maxiter (iter + 1) sl1 = Some (Done (n, sl'))"
        by (simp add: velocity_loop.simps [of maxiter iter sl])
      from 1(1) [OF \<open>int iter < maxiter\<close> it refl False this] f show ?thesis by simp
    qed
  qed
qed

lemma velocity_loop_T:
  assumes "velocity_loop maxiter iter (st, lv) = Some (Done (n, st', lv'))"
  shows "m_T st' = m_T st"
  using arg_cong [OF velocity_loop_frame [OF assms], of m_T] by (simp add: velocity_frame_def)

lemma ekin_sum_cong:
  "m_eigen_masses a = m_eigen_masses b \<Longrightarrow> m_eigen_velocities a = m_eigen_velocities b
   \<Longrightarrow> m_natoms a = m_natoms b \<Longrightarrow> ekin_sum a = ekin_sum b"
  by (simp add: ekin_sum_def)

lemma Rattle_forces_T:
  assumes "Rattle_forces env (st, lv) = Some st'"
  shows "m_T st' = Rattle_first_T env st"
proof -
  define s0 where "s0 = st\<lparr>m_eigen_geometry := copy3 (m_natoms st) (coord lv) (m_eigen_geometry st)\<rparr>"
  define sa where "sa = ThermostatFunction env (s0\<lparr>m_T := temperature (env_kb env) (ekin_sum s0 * 0.5) (m_dof s0),
                      m_Ekin := ekin_sum s0 * 0.5\<rparr>)"
  define sb where "sb = (case Energy env (m_eigen_geometry sa) of
                      (e, g) \<Rightarrow> sa\<lparr>m_Epot := e, m_eigen_gradient := g\<rparr>)"
  from assms obtain sc where g: "mtd_gate (driver env) (env_kb env) (fresh_structure env) sb = Some sc"
    and st': "st' = (WallPotential env sc)\<lparr>m_eigen_velocities :=
                 fst (fold (Verlet_second_body (WallPotential env sc)) [0..<m_natoms (WallPotential env sc)]
                        (m_eigen_velocities (WallPotential env sc), 0)),
               m_virial_correction := 0\<rparr>"
    by (auto simp: Rattle_forces_def Let_def sa_def sb_def s0_def split: option.splits)
  have "ekin_sum s0 = ekin_sum st" by (rule ekin_sum_cong) (simp_all add: s0_def)
  then have "m_T sb = Rattle_first_T env st"
    by (simp add: sb_def sa_def s0_def ThermostatFunction_def Rattle_first_T_def split: prod.splits)
  moreover from mtd_gate_T [OF g] have "m_T sc = m_T sb" .
  moreover have "m_T st' = m_T sc" by (simp add: st' WallPotential_def split: prod.splits)
  ultimately show ?thesis by simp
qed

lemma Rattle_finish_unstable:
  "m_unstable (Rattle_finish env dof (st, lv))
     = (dgt (Rattle_second_T env (st, lv)) (dscale 10000 (m_T st)) \<or> isnan (Rattle_second_T env (st, lv)))"
  by (simp add: Rattle_finish_def Rattle_second_T_def EKin_unstable ThermostatFunction_def
        RemoveRotations_def Let_def)

lemma Rattle_unstable:
  assumes "Rattle env st = Some (Done st')"
  shows "\<exists>n st1 lv1 st2 k st3 lv3.
           Rattle_positions st = Some (Done (n, st1, lv1))
         \<and> Rattle_forces env (st1, lv1) = Some st2
         \<and> velocity_loop (m_rattle_maxiter st2) 0 (st2, lv1) = Some (Done (k, st3, lv3))
         \<and> m_T st3 = Rattle_first_T env st1
         \<and> m_unstable st' = (dgt (Rattle_second_T env (st3, lv3)) (dscale 10000 (Rattle_first_T env st1))
                              \<or> isnan (Rattle_second_T env (st3, lv3)))"
proof -
  from assms obtain n st1 lv1 st2 k st3 lv3 where
    p: "Rattle_positions st = Some (Done (n, st1, lv1))"
    and f: "Rattle_forces env (st1, lv1) = Some st2"
    and v: "velocity_loop (m_rattle_maxiter st2) 0 (st2, lv1) = Some (Done (k, st3, lv3))"
    and st': "st' = Rattle_finish env (m_dof st) (st3, lv3)"
    by (auto simp: Rattle_def Rattle_iters_def split: option.splits outcome.splits prod.splits)
  have T: "m_T st3 = Rattle_first_T env st1"
    using velocity_loop_T [OF v] Rattle_forces_T [OF f] by simp
  show ?thesis
    using p f v T by (simp add: st' Rattle_finish_unstable)
qed

lemma Verlet_unstable:
  assumes "Verlet env st = Some st'"
  shows "\<exists>st5. Verlet_upto_walls env st = Some st5 \<and> m_T st5 = first_T env st
           \<and> m_unstable st' = (dgt (second_T env st5) (dscale 10000 (first_T env st)) \<or> isnan (second_T env st5))"
proof -
  from assms obtain st5 where u: "Verlet_upto_walls env st = Some st5" and st': "st' = Verlet_second env st5"
    by (auto simp: Verlet_def)
  show ?thesis using u Verlet_upto_walls_T [OF u] by (simp add: st' Verlet_second_unstable)
qed

lemma denorm_half_small: "denorm_half < 1 / 10 ^ 30"
proof -
  have "(10::real) ^ 30 < 2 ^ 1075" by simp
  then show ?thesis unfolding denorm_half_def by (simp add: field_simps del: power_numeral)
qed

lemma dmul_exact: "1 / 10 ^ 30 \<le> \<bar>x * y\<bar> \<Longrightarrow> dmul x y = x * y"
  using denorm_half_small by (simp add: dmul_def)

text \<open>One step of \<^verbatim>\<open>Rattle\<close> from \<open>dimer\<close>: both iterations run twice.\<close>

lemma Rattle_iters_dimer: "Rattle_iters rattle_env dimer = Some (Done (2, 2, dimer_next))"
  by (simp add: Rattle_iters_def Rattle_positions_def dimer_def dimer_next_def
      blank_def Rattle_predict_body_def set3_def position_loop.simps position_iteration_def
      position_bond_def bond_scalarproduct_def position_count_def position_correct_def
      clamp_scalarproduct_def sq_distance_def copy3_def scale_lambda.simps dmul_exact Let_def
      rattle_env_def plain_env_def Rattle_forces_def ekin_sum_def ekin_add_def temperature_def ddiv_def
      kb_Eh_au_def ThermostatFunction_def mtd_gate_def WallPotential_def Verlet_second_body_def
      velocity_loop.simps velocity_iteration_def velocity_bond_def velocity_count_def
      velocity_numerator_def velocity_divisor_def velocity_correct_def Rattle_finish_def
      RemoveRotations_def EKin_def isnan_def upt_rec numeral_2_eq_2)

text \<open>
  C4, as the code has it. A step of the integrator that returns has set the
  flag \<^verbatim>\<open>m_unstable\<close> exactly when the temperature \<open>T\<close> it computes at its
  end exceeds 10000 times the temperature the same step computed earlier and
  stored in \<^verbatim>\<open>m_T\<close>, or \<open>T\<close> is NaN. In \<^verbatim>\<open>Verlet\<close> the earlier temperature is
  the one after the first half kick (\<open>first_T\<close>) and \<open>T\<close> the one after the
  second half kick (\<open>second_T\<close>); in \<^verbatim>\<open>Rattle\<close> the earlier temperature is
  the one after the position iteration (\<open>Rattle_first_T\<close>) and \<open>T\<close> the one
  after the velocity iteration and the removal of rotations
  (\<open>Rattle_second_T\<close>). The target temperature \<^verbatim>\<open>m_T0\<close> and the coordinates
  are not read. After the step \<^verbatim>\<open>start\<close> aborts exactly when the flag is set
  or the energy backend reports an error or a NaN.
\<close>

theorem instability_test:
  assumes "Integrator env st = Some (Done st')"
  shows "(\<not> use_rattle env \<longrightarrow>
           (\<exists>st5. Verlet_upto_walls env st = Some st5 \<and> m_T st5 = first_T env st
              \<and> m_unstable st' = (dgt (second_T env st5) (dscale 10000 (first_T env st))
                                  \<or> isnan (second_T env st5))))
       \<and> (use_rattle env \<longrightarrow>
           (\<exists>n st1 lv1 st2 k st3 lv3.
              Rattle_positions st = Some (Done (n, st1, lv1))
            \<and> Rattle_forces env (st1, lv1) = Some st2
            \<and> velocity_loop (m_rattle_maxiter st2) 0 (st2, lv1) = Some (Done (k, st3, lv3))
            \<and> m_T st3 = Rattle_first_T env st1
            \<and> m_unstable st' = (dgt (Rattle_second_T env (st3, lv3)) (dscale 10000 (Rattle_first_T env st1))
                                 \<or> isnan (Rattle_second_T env (st3, lv3)))))
       \<and> start_step env st
           = Some (Done (if m_unstable st' \<or> interface_Error env (m_eigen_geometry st')
                            \<or> interface_HasNan env (m_eigen_geometry st')
                         then Aborted st' else Running st'))"
proof (intro conjI impI)
  assume "\<not> use_rattle env"
  with assms have "Verlet env st = Some st'" by (auto simp: Integrator_def split: option.splits)
  then show "\<exists>st5. Verlet_upto_walls env st = Some st5 \<and> m_T st5 = first_T env st
              \<and> m_unstable st' = (dgt (second_T env st5) (dscale 10000 (first_T env st))
                                  \<or> isnan (second_T env st5))"
    by (rule Verlet_unstable)
next
  assume "use_rattle env"
  with assms have "Rattle env st = Some (Done st')" by (simp add: Integrator_def)
  then show "\<exists>n st1 lv1 st2 k st3 lv3.
              Rattle_positions st = Some (Done (n, st1, lv1))
            \<and> Rattle_forces env (st1, lv1) = Some st2
            \<and> velocity_loop (m_rattle_maxiter st2) 0 (st2, lv1) = Some (Done (k, st3, lv3))
            \<and> m_T st3 = Rattle_first_T env st1
            \<and> m_unstable st' = (dgt (Rattle_second_T env (st3, lv3)) (dscale 10000 (Rattle_first_T env st1))
                                 \<or> isnan (Rattle_second_T env (st3, lv3)))"
    by (rule Rattle_unstable)
next
  show "start_step env st
           = Some (Done (if m_unstable st' \<or> interface_Error env (m_eigen_geometry st')
                            \<or> interface_HasNan env (m_eigen_geometry st')
                         then Aborted st' else Running st'))"
    using assms by (simp add: start_step_def unstable_exit_def)
qed

theorem instability_test_witness:
  "Integrator (plain_env [0.002, 0, 0]) cold_start = Some (Done cold_next)
   \<and> \<not> use_rattle (plain_env [0.002, 0, 0])
   \<and> first_T (plain_env [0.002, 0, 0]) cold_start = Fin 0
   \<and> m_unstable cold_next
   \<and> start_step (plain_env [0.002, 0, 0]) cold_start = Some (Done (Aborted cold_next))
   \<and> Integrator rattle_env dimer = Some (Done dimer_next)
   \<and> use_rattle rattle_env
   \<and> \<not> m_unstable dimer_next
   \<and> start_step rattle_env dimer = Some (Done (Running dimer_next))"
proof -
  have a: "Integrator (plain_env [0.002, 0, 0]) cold_start = Some (Done cold_next)"
    by (simp add: Integrator_def Verlet_def Verlet_upto_walls_def Verlet_second_def plain_env_def
        cold_start_def cold_next_def blank_def Verlet_first_body_def Verlet_second_body_def ekin_add_def
        temperature_def ddiv_def mtd_gate_def EKin_def isnan_def kb_Eh_au_def ThermostatFunction_def
        WallPotential_def Let_def)
  have e: "\<not> use_rattle (plain_env [0.002, 0, 0])" "use_rattle rattle_env"
    by (simp_all add: rattle_env_def plain_env_def)
  have b: "Integrator rattle_env dimer = Some (Done dimer_next)"
    by (simp add: Integrator_def Rattle_def Rattle_iters_dimer e)
  have c: "first_T (plain_env [0.002, 0, 0]) cold_start = Fin 0"
    by (simp add: first_T_def plain_env_def cold_start_def blank_def Verlet_first_body_def ekin_add_def
        temperature_def ddiv_def kb_Eh_au_def Let_def)
  have d: "m_unstable cold_next" "\<not> m_unstable dimer_next"
    by (simp_all add: cold_next_def dimer_next_def dimer_def blank_def)
  show ?thesis
    using instability_test [OF a, THEN conjunct2, THEN conjunct2]
      instability_test [OF b, THEN conjunct2, THEN conjunct2] a b c d e
    by (simp add: plain_env_def rattle_env_def)
qed

text \<open>
  The claim as the specification words it, flagged exactly when the
  temperature exceeds 10000 times the target temperature, fails in both
  directions. From rest with target temperature 300 the step ends at about
  0.105 K and is flagged; at about 105258 K with target temperature 10 and an
  unchanged temperature the step is not flagged.
\<close>

theorem instability_test_counterexample:
  "map_option m_unstable (Verlet (plain_env [0.002, 0, 0]) cold_start) = Some True
   \<and> map_option m_T (Verlet (plain_env [0.002, 0, 0]) cold_start) = Some (Fin (1000000000 / 9500434689))
   \<and> \<not> unstable_spec (Fin (1000000000 / 9500434689)) (m_T0 cold_start)
   \<and> map_option m_unstable (Verlet (plain_env [0, 0, 0]) hot_run) = Some False
   \<and> map_option m_T (Verlet (plain_env [0, 0, 0]) hot_run) = Some (Fin (1000000000000000 / 9500434689))
   \<and> unstable_spec (Fin (1000000000000000 / 9500434689)) (m_T0 hot_run)"
  by (simp add: Verlet_def Verlet_upto_walls_def Verlet_second_def plain_env_def cold_start_def hot_run_def
      blank_def Verlet_first_body_def Verlet_second_body_def ekin_add_def temperature_def ddiv_def
      mtd_gate_def EKin_def isnan_def kb_Eh_au_def unstable_spec_def ThermostatFunction_def
      WallPotential_def Let_def)

subsection \<open>RATTLE\<close>

text \<open>
  The scaling loop. When it returns, its result is the multiplier after some
  number \<open>k\<close> of multiplications by the factor, the magnitude of the result
  is at most the bound, and after every smaller number of multiplications the
  magnitude was above it. It returns for every multiplier when the bound is
  not negative and the factor is below 1 in magnitude: the products fall
  below half the smallest positive double and are zero from then on.
\<close>

lemma scale_lambda_result:
  assumes "scale_lambda mx c l = Some l'"
  shows "\<exists>k. l' = ((\<lambda>x. dmul x c) ^^ k) l \<and> \<bar>l'\<bar> \<le> mx
             \<and> (\<forall>k'<k. mx < \<bar>((\<lambda>x. dmul x c) ^^ k') l\<bar>)"
  using assms
proof (induct rule: scale_lambda.raw_induct [rotated 1, consumes 1, case_names step])
  case (step f mx c l l')
  note 1 = step
  show ?case
  proof (cases "\<bar>l\<bar> > mx")
    case True
    with 1(2) have "f mx c (dmul l c) = Some l'" by simp
    from 1(1) [OF this] obtain k where k: "l' = ((\<lambda>x. dmul x c) ^^ k) (dmul l c)"
      and le: "\<bar>l'\<bar> \<le> mx"
      and m: "\<forall>k'<k. mx < \<bar>((\<lambda>x. dmul x c) ^^ k') (dmul l c)\<bar>" by blast
    have "\<forall>k'<Suc k. mx < \<bar>((\<lambda>x. dmul x c) ^^ k') l\<bar>"
    proof (intro allI impI)
      fix k' assume "k' < Suc k"
      then show "mx < \<bar>((\<lambda>x. dmul x c) ^^ k') l\<bar>"
      proof (cases k')
        case 0
        then show ?thesis using True by simp
      next
        case (Suc j)
        with \<open>k' < Suc k\<close> have "j < k" by simp
        with m have "mx < \<bar>((\<lambda>x. dmul x c) ^^ j) (dmul l c)\<bar>" by blast
        then show ?thesis using Suc by (simp only: funpow_Suc_right comp_apply)
      qed
    qed
    moreover have "l' = ((\<lambda>x. dmul x c) ^^ Suc k) l" using k by (simp only: funpow_Suc_right comp_apply)
    ultimately show ?thesis using le by blast
  next
    case False
    with 1(2) have "l' = l" by simp
    with False show ?thesis by (intro exI [of _ 0]) simp
  qed
qed

lemma scale_lambda_steps:
  "\<bar>((\<lambda>x. dmul x c) ^^ k) l\<bar> \<le> mx \<Longrightarrow> \<exists>l'. scale_lambda mx c l = Some l'"
proof (induction k arbitrary: l)
  case 0
  then show ?case by (subst scale_lambda.simps) simp
next
  case (Suc k)
  show ?case
  proof (cases "\<bar>l\<bar> > mx")
    case True
    from Suc.prems have "\<bar>((\<lambda>x. dmul x c) ^^ k) (dmul l c)\<bar> \<le> mx"
      by (simp only: funpow_Suc_right comp_apply)
    from Suc.IH [OF this] obtain l' where "scale_lambda mx c (dmul l c) = Some l'" by blast
    with True show ?thesis by (subst scale_lambda.simps) simp
  next
    case False
    then show ?thesis by (subst scale_lambda.simps) simp
  qed
qed

lemma dmul_zero: "dmul 0 c = 0"
  by (simp add: dmul_def)

lemma denorm_half_pos: "0 < denorm_half"
  by (simp add: denorm_half_def)

lemma funpow_dmul: "((\<lambda>x. dmul x c) ^^ k) l = 0 \<or> ((\<lambda>x. dmul x c) ^^ k) l = l * c ^ k"
proof (induction k)
  case 0
  then show ?case by simp
next
  case (Suc k)
  then show ?case
  proof
    assume "((\<lambda>x. dmul x c) ^^ k) l = 0"
    then show ?thesis by (simp add: dmul_zero)
  next
    assume "((\<lambda>x. dmul x c) ^^ k) l = l * c ^ k"
    then show ?thesis by (simp add: dmul_def mult.assoc)
  qed
qed

lemma scale_lambda_terminates:
  assumes "0 \<le> mx" and "\<bar>c\<bar> < 1"
  shows "\<exists>l'. scale_lambda mx c l = Some l'"
proof -
  have "0 < denorm_half / (\<bar>l\<bar> + 1)" using denorm_half_pos by simp
  from real_arch_pow_inv [OF this assms(2)] obtain n where n: "\<bar>c\<bar> ^ n < denorm_half / (\<bar>l\<bar> + 1)" by blast
  then have "\<bar>c\<bar> ^ n * (\<bar>l\<bar> + 1) < denorm_half" by (simp add: pos_less_divide_eq)
  moreover have "\<bar>c\<bar> ^ n * \<bar>l\<bar> \<le> \<bar>c\<bar> ^ n * (\<bar>l\<bar> + 1)" by (intro mult_left_mono) simp_all
  ultimately have small: "\<bar>l * c ^ n\<bar> < denorm_half" by (simp add: abs_mult power_abs mult.commute)
  have "\<bar>l * c ^ n * c\<bar> \<le> \<bar>l * c ^ n\<bar> * 1"
    unfolding abs_mult [of "l * c ^ n" c] using assms(2) by (intro mult_left_mono) simp_all
  with small have small': "\<bar>l * c ^ n * c\<bar> \<le> denorm_half" by simp
  have "((\<lambda>x. dmul x c) ^^ Suc n) l = 0"
    using funpow_dmul [where c = c and k = n and l = l] small' by (auto simp: dmul_zero dmul_def)
  with assms(1) have "\<bar>((\<lambda>x. dmul x c) ^^ Suc n) l\<bar> \<le> mx" by simp
  then show ?thesis by (rule scale_lambda_steps)
qed

lemma scale_lambda_scaled:
  assumes "0 \<le> mx"
  shows "\<exists>k. scale_lambda mx 0.1 l = Some (((\<lambda>x. dmul x 0.1) ^^ k) l)
             \<and> \<bar>((\<lambda>x. dmul x 0.1) ^^ k) l\<bar> \<le> mx
             \<and> (\<forall>k'<k. mx < \<bar>((\<lambda>x. dmul x 0.1) ^^ k') l\<bar>)"
proof -
  have "\<bar>0.1 :: real\<bar> < 1" by simp
  from scale_lambda_terminates [OF assms this] obtain l' where l': "scale_lambda mx 0.1 l = Some l'"
    by blast
  from scale_lambda_result [OF l'] l' show ?thesis by blast
qed


lemma position_loop_iter:
  "position_loop maxiter iter sl = Some (Done (n, sl')) \<Longrightarrow> iter \<le> n \<and> int n \<le> max maxiter (int iter)"
proof (induction maxiter iter sl rule: position_loop.induct)
  case (1 maxiter iter sl)
  show ?case
  proof (cases "int iter < maxiter")
    case True
    with "1.prems" obtain sl1 where b: "position_iteration sl = Some (Done sl1)"
      and r: "position_loop maxiter (iter + 1) sl1 = Some (Done (n, sl'))"
      by (subst (asm) position_loop.simps) (auto split: option.splits outcome.splits)
    from "1.IH" [OF True b refl r] True show ?thesis by auto
  next
    case False
    with "1.prems" show ?thesis by (subst (asm) position_loop.simps) auto
  qed
qed

lemma velocity_loop_iter:
  "velocity_loop maxiter iter sl = Some (Done (n, sl')) \<Longrightarrow> iter \<le> n \<and> int n \<le> max maxiter (int iter)"
proof (induction maxiter iter sl rule: velocity_loop.induct)
  case (1 maxiter iter sl)
  show ?case
  proof (cases "int iter < maxiter")
    case True
    with "1.prems" obtain sl1 where b: "velocity_iteration sl = Some (Done sl1)"
      and r: "(if active (snd sl1) = 0 then Some (Done (iter + 1, sl1))
               else velocity_loop maxiter (iter + 1) sl1) = Some (Done (n, sl'))"
      by (subst (asm) velocity_loop.simps) (auto split: option.splits outcome.splits)
    show ?thesis
    proof (cases "active (snd sl1) = 0")
      case z: True
      with r True show ?thesis by auto
    next
      case nz: False
      with r have "velocity_loop maxiter (iter + 1) sl1 = Some (Done (n, sl'))" by simp
      from "1.IH" [OF True b refl nz this] True show ?thesis by auto
    qed
  next
    case False
    with "1.prems" show ?thesis by (subst (asm) velocity_loop.simps) auto
  qed
qed

lemma position_bond_frame:
  "position_bond is13 sl bond = Some (Done sl') \<Longrightarrow> position_frame sl' = position_frame sl"
  by (auto simp: position_bond_def position_correct_def position_frame_def Let_def
           split: prod.splits if_splits option.splits)

lemma position_iteration_frame:
  assumes "position_iteration sl = Some (Done sl')"
  shows "position_frame sl' = position_frame sl"
proof -
  obtain st lv where sl: "sl = (st, lv)" by (cases sl)
  from assms sl obtain sl1 st2 lv2 where
    a: "bonds_loop (position_bond False) (m_bond_constrained st)
          (st, lv\<lparr>difference_prev := difference_curr lv, difference_curr := 0, active := 0\<rparr>) = Some (Done sl1)"
    and b: "bonds_loop (position_bond True) (m_bond_13_constrained (fst sl1)) sl1 = Some (Done (st2, lv2))"
    and c: "sl' = (st2\<lparr>m_eigen_velocities := copy3 (m_natoms st2) (m_rt_velo st2) (m_eigen_velocities st2)\<rparr>,
                  lv2\<lparr>coord := copy3 (m_natoms st2) (m_rt_geom_1 st2) (coord lv2)\<rparr>)"
    by (auto simp: position_iteration_def Let_def split: option.splits outcome.splits prod.splits)
  have "position_frame sl1 = position_frame (st, lv\<lparr>difference_prev := difference_curr lv, difference_curr := 0, active := 0\<rparr>)"
    by (rule bonds_loop_frame [OF position_bond_frame a])
  moreover have "position_frame (st2, lv2) = position_frame sl1"
    by (rule bonds_loop_frame [OF position_bond_frame b])
  ultimately show ?thesis by (simp add: sl c position_frame_def)
qed

lemma position_loop_frame:
  "position_loop maxiter iter sl = Some (Done (n, sl')) \<Longrightarrow> position_frame sl' = position_frame sl"
proof (induction maxiter iter sl rule: position_loop.induct)
  case (1 maxiter iter sl)
  show ?case
  proof (cases "int iter < maxiter")
    case True
    with "1.prems" obtain sl1 where b: "position_iteration sl = Some (Done sl1)"
      and r: "position_loop maxiter (iter + 1) sl1 = Some (Done (n, sl'))"
      by (subst (asm) position_loop.simps) (auto split: option.splits outcome.splits)
    from "1.IH" [OF True b refl r] position_iteration_frame [OF b] show ?thesis by simp
  next
    case False
    with "1.prems" show ?thesis by (subst (asm) position_loop.simps) auto
  qed
qed

lemma Rattle_positions_maxiter:
  assumes "Rattle_positions st = Some (Done (n, st', lv))"
  shows "int n \<le> max 0 (m_rattle_maxiter st) \<and> m_rattle_maxiter st' = m_rattle_maxiter st"
proof -
  from assms obtain sl0 st1 where l: "position_loop (m_rattle_maxiter st) 0 sl0 = Some (Done (n, st1, lv))"
    and sl0: "m_rattle_maxiter (fst sl0) = m_rattle_maxiter st"
    and st': "st' = st1\<lparr>m_dof := m_dof st1 - local_dof lv\<rparr>"
    by (auto simp: Rattle_positions_def split: prod.splits option.splits outcome.splits)
  from arg_cong [OF position_loop_frame [OF l], of m_rattle_maxiter] sl0
  have "m_rattle_maxiter st1 = m_rattle_maxiter st" by (simp add: position_frame_def)
  with position_loop_iter [OF l] show ?thesis by (simp add: st' max.commute)
qed

lemma mtd_gate_maxiter:
  assumes "mtd_gate drv kb fresh st = Some st'"
  shows "m_rattle_maxiter st' = m_rattle_maxiter st"
  using arg_cong [OF mtd_gate_frame [OF assms], of m_rattle_maxiter] by simp

lemma Rattle_forces_maxiter:
  assumes "Rattle_forces env (st, lv) = Some st'"
  shows "m_rattle_maxiter st' = m_rattle_maxiter st"
proof -
  define s0 where "s0 = st\<lparr>m_eigen_geometry := copy3 (m_natoms st) (coord lv) (m_eigen_geometry st)\<rparr>"
  define sa where "sa = ThermostatFunction env (s0\<lparr>m_T := temperature (env_kb env) (ekin_sum s0 * 0.5) (m_dof s0),
                      m_Ekin := ekin_sum s0 * 0.5\<rparr>)"
  define sb where "sb = (case Energy env (m_eigen_geometry sa) of
                      (e, g) \<Rightarrow> sa\<lparr>m_Epot := e, m_eigen_gradient := g\<rparr>)"
  from assms obtain sc where g: "mtd_gate (driver env) (env_kb env) (fresh_structure env) sb = Some sc"
    and st': "st' = (WallPotential env sc)\<lparr>m_eigen_velocities :=
                 fst (fold (Verlet_second_body (WallPotential env sc)) [0..<m_natoms (WallPotential env sc)]
                        (m_eigen_velocities (WallPotential env sc), 0)),
               m_virial_correction := 0\<rparr>"
    by (auto simp: Rattle_forces_def Let_def sa_def sb_def s0_def split: option.splits)
  have "m_rattle_maxiter sb = m_rattle_maxiter st"
    by (simp add: sb_def sa_def s0_def ThermostatFunction_def split: prod.splits)
  moreover from mtd_gate_maxiter [OF g] have "m_rattle_maxiter sc = m_rattle_maxiter sb" .
  moreover have "m_rattle_maxiter st' = m_rattle_maxiter sc" by (simp add: st' WallPotential_def split: prod.splits)
  ultimately show ?thesis by simp
qed

lemma Rattle_iters_bound:
  assumes "Rattle_iters env st = Some (Done (n, k, st'))"
  shows "int n \<le> max 0 (m_rattle_maxiter st) \<and> int k \<le> max 0 (m_rattle_maxiter st)"
proof -
  from assms obtain st1 lv1 st2 sl3 where
    p: "Rattle_positions st = Some (Done (n, st1, lv1))"
    and f: "Rattle_forces env (st1, lv1) = Some st2"
    and v: "velocity_loop (m_rattle_maxiter st2) 0 (st2, lv1) = Some (Done (k, sl3))"
    by (auto simp: Rattle_iters_def split: option.splits outcome.splits prod.splits)
  from Rattle_positions_maxiter [OF p] Rattle_forces_maxiter [OF f]
  have "int n \<le> max 0 (m_rattle_maxiter st)" and "m_rattle_maxiter st2 = m_rattle_maxiter st" by simp_all
  with velocity_loop_iter [OF v] show ?thesis by (simp add: max.commute)
qed


lemma position_frame_max:
  assumes "position_frame sl' = position_frame sl"
  shows "m_rattle_max (fst sl') = m_rattle_max (fst sl)"
  using arg_cong [OF assms, of m_rattle_max] by (simp add: position_frame_def)

lemma position_bond_total:
  assumes "0 \<le> m_rattle_max (fst sl)"
  shows "position_bond is13 sl bond \<noteq> None"
proof -
  obtain st lv where sl: "sl = (st, lv)" by (cases sl)
  obtain i j distance where bond: "bond = ((i, j), distance)" by (cases bond) auto
  have c: "\<bar>1 / 10 :: real\<bar> < 1" by simp
  from assms sl have "0 \<le> m_rattle_max st" by simp
  from scale_lambda_terminates [OF this c]
  have nn: "\<And>l. (scale_lambda (m_rattle_max st) (1 / 10) l = None) = False" by auto
  show ?thesis
    by (simp add: position_bond_def sl bond Let_def nn split: option.splits)
qed

lemma bonds_loop_total:
  assumes "\<And>s b. P s \<Longrightarrow> f s b \<noteq> None"
    and "\<And>s b s'. P s \<Longrightarrow> f s b = Some (Done s') \<Longrightarrow> P s'"
    and "P s"
  shows "bonds_loop f bs s \<noteq> None"
  using assms(3)
proof (induction bs arbitrary: s)
  case Nil
  then show ?case by simp
next
  case (Cons b bs)
  from assms(1) [OF Cons.prems] obtain r where r: "f s b = Some r" by blast
  show ?case
  proof (cases r)
    case (Done s1)
    with r assms(2) [OF Cons.prems] have "P s1" by simp
    from Cons.IH [OF this] r Done show ?thesis by simp
  qed (use r in simp_all)
qed

lemma position_bonds_total:
  assumes "0 \<le> m_rattle_max (fst sl)"
  shows "bonds_loop (position_bond is13) bs sl \<noteq> None"
proof (rule bonds_loop_total [where P = "\<lambda>sl. 0 \<le> m_rattle_max (fst sl)"])
  show "\<And>s b. 0 \<le> m_rattle_max (fst s) \<Longrightarrow> position_bond is13 s b \<noteq> None"
    by (rule position_bond_total)
  show "\<And>s b s'. 0 \<le> m_rattle_max (fst s) \<Longrightarrow> position_bond is13 s b = Some (Done s')
          \<Longrightarrow> 0 \<le> m_rattle_max (fst s')"
    using position_frame_max [OF position_bond_frame] by simp
  show "0 \<le> m_rattle_max (fst sl)" by (rule assms)
qed

lemma position_iteration_total:
  assumes "0 \<le> m_rattle_max (fst sl)"
  shows "position_iteration sl \<noteq> None"
proof -
  obtain st lv where sl: "sl = (st, lv)" by (cases sl)
  define lv0 where "lv0 = lv\<lparr>difference_prev := difference_curr lv, difference_curr := 0, active := 0\<rparr>"
  from assms sl have m: "0 \<le> m_rattle_max (fst (st, lv0))" by simp
  from position_bonds_total [OF m] obtain r where
    r: "bonds_loop (position_bond False) (m_bond_constrained st) (st, lv0) = Some r" by blast
  show ?thesis
  proof (cases r)
    case (Done sl1)
    from r Done have a: "bonds_loop (position_bond False) (m_bond_constrained st) (st, lv0) = Some (Done sl1)"
      by simp
    have "position_frame sl1 = position_frame (st, lv0)"
      by (rule bonds_loop_frame [OF position_bond_frame a])
    from position_frame_max [OF this] m have "0 \<le> m_rattle_max (fst sl1)" by simp
    from position_bonds_total [OF this] obtain q where
      q: "bonds_loop (position_bond True) (m_bond_13_constrained (fst sl1)) sl1 = Some q" by blast
    with r Done show ?thesis
      by (cases sl1) (simp add: position_iteration_def sl lv0_def [symmetric] split: outcome.splits prod.splits)
  qed (use r in \<open>simp_all add: position_iteration_def sl lv0_def [symmetric]\<close>)
qed

lemma position_loop_total:
  "0 \<le> m_rattle_max (fst sl) \<Longrightarrow> position_loop maxiter iter sl \<noteq> None"
proof (induction maxiter iter sl rule: position_loop.induct)
  case (1 maxiter iter sl)
  show ?case
  proof (cases "int iter < maxiter")
    case True
    from position_iteration_total [OF "1.prems"] obtain r where r: "position_iteration sl = Some r" by blast
    show ?thesis
    proof (cases r)
      case (Done sl1)
      from r Done have it: "position_iteration sl = Some (Done sl1)" by simp
      from position_frame_max [OF position_iteration_frame [OF it]] "1.prems"
      have "0 \<le> m_rattle_max (fst sl1)" by simp
      from "1.IH" [OF True it refl this] r Done True show ?thesis
        by (subst position_loop.simps) simp
    qed (use r True in \<open>simp_all add: position_loop.simps [of maxiter iter sl]\<close>)
  next
    case False
    then show ?thesis by (subst position_loop.simps) simp
  qed
qed

lemma Rattle_positions_total:
  assumes "0 \<le> m_rattle_max st"
  shows "Rattle_positions st \<noteq> None"
proof -
  obtain crd rt velo rv where f: "fold (Rattle_predict_body st) [0..<m_natoms st]
      (replicate (3 * m_natoms st) 0, m_rt_geom_1 st, m_eigen_velocities st, m_rt_velo st) = (crd, rt, velo, rv)"
    by (metis prod_cases4)
  define sl0 where "sl0 = (st\<lparr>m_rt_geom_1 := rt, m_eigen_velocities := velo, m_rt_velo := rv\<rparr>,
                   \<lparr>coord = crd, moved_12 = replicate (m_natoms st) 0, moved_13 = replicate (m_natoms st) 0,
                    move = False, local_dof = 0, difference_prev = 10 ^ 22, difference_curr = 10 ^ 22,
                    active = 0\<rparr>)"
  have "0 \<le> m_rattle_max (fst sl0)" using assms by (simp add: sl0_def)
  from position_loop_total [OF this] obtain r where
    "position_loop (m_rattle_maxiter st) 0 sl0 = Some r" by blast
  then show ?thesis
    unfolding sl0_def by (simp add: Rattle_positions_def f split: outcome.splits prod.splits)
qed


lemma position_bond_scaled:
  assumes "0 \<le> m_rattle_max s"
    and "(if is13 then m_rattle_tol_13 s else m_rattle_tol_12 s) < \<bar>distance - sq_distance (m_rt_geom_1 s) i j\<bar>"
    and "(m_eigen_inv_masses s ! i + m_eigen_inv_masses s ! j) * sp \<noteq> 0"
    and "sp = (if \<bar>bond_scalarproduct s i j\<bar> < m_rattle_min s
               then (if bond_scalarproduct s i j < 0 then - m_rattle_min s else m_rattle_min s)
               else bond_scalarproduct s i j)"
    and "lam = (distance - sq_distance (m_rt_geom_1 s) i j)
                 / ((m_eigen_inv_masses s ! i + m_eigen_inv_masses s ! j) * sp)"
  shows "\<exists>p. position_bond is13 (s, lv) ((i, j), distance)
               = Some (Done (position_correct (s, position_count is13 lv i j) i j
                              (sq_distance (m_rt_geom_1 s) i j) (((\<lambda>x. dmul x 0.1) ^^ p) lam)))
             \<and> \<bar>((\<lambda>x. dmul x 0.1) ^^ p) lam\<bar> \<le> m_rattle_max s
             \<and> (\<forall>q<p. m_rattle_max s < \<bar>((\<lambda>x. dmul x 0.1) ^^ q) lam\<bar>)"
proof -
  from scale_lambda_scaled [OF assms(1), of lam] obtain p where
    sc: "scale_lambda (m_rattle_max s) 0.1 lam = Some (((\<lambda>x. dmul x 0.1) ^^ p) lam)"
    and le: "\<bar>((\<lambda>x. dmul x 0.1) ^^ p) lam\<bar> \<le> m_rattle_max s"
    and mn: "\<forall>q<p. m_rattle_max s < \<bar>((\<lambda>x. dmul x 0.1) ^^ q) lam\<bar>" by blast
  have cl: "clamp_scalarproduct (m_rattle_min s) (bond_scalarproduct s i j) = sp"
    by (simp add: clamp_scalarproduct_def assms(4))
  have "position_bond is13 (s, lv) ((i, j), distance)
          = Some (Done (position_correct (s, position_count is13 lv i j) i j
                              (sq_distance (m_rt_geom_1 s) i j) (((\<lambda>x. dmul x 0.1) ^^ p) lam)))"
    unfolding position_bond_def prod.case Let_def cl
    using assms(2,3) sc by (simp add: assms(5) del: funpow.simps)
  with le mn show ?thesis by blast
qed

lemma velocity_bond_scaled:
  assumes "0 \<le> m_rattle_max s"
    and "(if is13 then moved_13 lv else moved_12 lv) ! i \<noteq> 0"
    and "(if is13 then moved_13 lv else moved_12 lv) ! j \<noteq> 0"
    and "velocity_divisor (s, velocity_count is13 lv i j) i j \<noteq> 0"
    and "mu = - 1 * velocity_numerator (s, velocity_count is13 lv i j) i j
                / velocity_divisor (s, velocity_count is13 lv i j) i j"
  shows "\<exists>p. velocity_bond is13 (s, lv) ((i, j), distance)
               = Some (Done (velocity_correct (s, velocity_count is13 lv i j) i j
                              (((\<lambda>x. dmul x 0.1) ^^ p) mu)))
             \<and> \<bar>((\<lambda>x. dmul x 0.1) ^^ p) mu\<bar> \<le> m_rattle_max s
             \<and> (\<forall>q<p. m_rattle_max s < \<bar>((\<lambda>x. dmul x 0.1) ^^ q) mu\<bar>)"
proof -
  from scale_lambda_scaled [OF assms(1), of mu] obtain p where
    sc: "scale_lambda (m_rattle_max s) 0.1 mu = Some (((\<lambda>x. dmul x 0.1) ^^ p) mu)"
    and le: "\<bar>((\<lambda>x. dmul x 0.1) ^^ p) mu\<bar> \<le> m_rattle_max s"
    and mn: "\<forall>q<p. m_rattle_max s < \<bar>((\<lambda>x. dmul x 0.1) ^^ q) mu\<bar>" by blast
  have "velocity_bond is13 (s, lv) ((i, j), distance)
          = Some (Done (velocity_correct (s, velocity_count is13 lv i j) i j
                              (((\<lambda>x. dmul x 0.1) ^^ p) mu)))"
    unfolding velocity_bond_def prod.case Let_def
    using assms(2,3,4) sc by (simp add: assms(5) del: funpow.simps)
  with le mn show ?thesis by blast
qed

text \<open>
  C5. Both iterations of \<^verbatim>\<open>Rattle\<close> make at most \<^verbatim>\<open>rattle_maxiter\<close> passes:
  when a step returns, the counters of the position iteration and of the
  velocity iteration are at most \<^verbatim>\<open>m_rattle_maxiter\<close> of the state the step
  started from (and 0 when that is negative), and with a bound
  \<^verbatim>\<open>rattle_max\<close> that is not negative the position iteration always comes to
  an end. In the position iteration the body run for a bond whose squared
  length is off by more than the tolerance divides by the scalar product of
  the old and the new bond vector after a product of magnitude below
  \<^verbatim>\<open>rattle_min\<close> has been replaced by \<^verbatim>\<open>rattle_min\<close> with the sign of the
  product, and corrects positions and velocities with the multiplier that
  the repeated multiplication by 0.1 gives: \<open>p\<close> multiplications, a magnitude
  of at most \<^verbatim>\<open>rattle_max\<close> after them and above it after fewer. In the
  velocity iteration the body run for a bond whose two atoms were moved
  corrects the velocities with the multiplier scaled in the same way. The
  divisors are taken to be nonzero; a zero divisor ends the position
  iteration through \<^verbatim>\<open>exit\<close> or with NaN and leaves the scaling loop of the
  velocity iteration with an infinite multiplier.
\<close>

theorem rattle_bounds:
  "(Rattle_iters env st = Some (Done (n, k, st')) \<longrightarrow>
      int n \<le> max 0 (m_rattle_maxiter st) \<and> int k \<le> max 0 (m_rattle_maxiter st))
   \<and> (0 \<le> m_rattle_max st \<longrightarrow> Rattle_positions st \<noteq> None)
   \<and> (let sp = (if \<bar>bond_scalarproduct s i j\<bar> < m_rattle_min s
                 then (if bond_scalarproduct s i j < 0 then - m_rattle_min s else m_rattle_min s)
                 else bond_scalarproduct s i j);
           lam = (distance - sq_distance (m_rt_geom_1 s) i j)
                   / ((m_eigen_inv_masses s ! i + m_eigen_inv_masses s ! j) * sp)
       in 0 \<le> m_rattle_max s
          \<and> (if is13 then m_rattle_tol_13 s else m_rattle_tol_12 s)
               < \<bar>distance - sq_distance (m_rt_geom_1 s) i j\<bar>
          \<and> (m_eigen_inv_masses s ! i + m_eigen_inv_masses s ! j) * sp \<noteq> 0
          \<longrightarrow> (\<exists>p. position_bond is13 (s, lv) ((i, j), distance)
                       = Some (Done (position_correct (s, position_count is13 lv i j) i j
                                      (sq_distance (m_rt_geom_1 s) i j) (((\<lambda>x. dmul x 0.1) ^^ p) lam)))
                     \<and> \<bar>((\<lambda>x. dmul x 0.1) ^^ p) lam\<bar> \<le> m_rattle_max s
                     \<and> (\<forall>q<p. m_rattle_max s < \<bar>((\<lambda>x. dmul x 0.1) ^^ q) lam\<bar>)))
   \<and> (let lvc = velocity_count is13 lv i j;
           mu = - 1 * velocity_numerator (s, lvc) i j / velocity_divisor (s, lvc) i j
       in 0 \<le> m_rattle_max s
          \<and> (if is13 then moved_13 lv else moved_12 lv) ! i \<noteq> 0
          \<and> (if is13 then moved_13 lv else moved_12 lv) ! j \<noteq> 0
          \<and> velocity_divisor (s, lvc) i j \<noteq> 0
          \<longrightarrow> (\<exists>p. velocity_bond is13 (s, lv) ((i, j), distance)
                       = Some (Done (velocity_correct (s, lvc) i j (((\<lambda>x. dmul x 0.1) ^^ p) mu)))
                     \<and> \<bar>((\<lambda>x. dmul x 0.1) ^^ p) mu\<bar> \<le> m_rattle_max s
                     \<and> (\<forall>q<p. m_rattle_max s < \<bar>((\<lambda>x. dmul x 0.1) ^^ q) mu\<bar>)))"
  unfolding Let_def
proof (intro conjI impI)
  assume "Rattle_iters env st = Some (Done (n, k, st'))"
  from Rattle_iters_bound [OF this]
  show "int n \<le> max 0 (m_rattle_maxiter st)" and "int k \<le> max 0 (m_rattle_maxiter st)" by simp_all
next
  assume "0 \<le> m_rattle_max st"
  then show "Rattle_positions st \<noteq> None" by (rule Rattle_positions_total)
next
  assume h: "0 \<le> m_rattle_max s
     \<and> (if is13 then m_rattle_tol_13 s else m_rattle_tol_12 s) < \<bar>distance - sq_distance (m_rt_geom_1 s) i j\<bar>
     \<and> (m_eigen_inv_masses s ! i + m_eigen_inv_masses s ! j)
          * (if \<bar>bond_scalarproduct s i j\<bar> < m_rattle_min s
             then (if bond_scalarproduct s i j < 0 then - m_rattle_min s else m_rattle_min s)
             else bond_scalarproduct s i j) \<noteq> 0"
  show "\<exists>p. position_bond is13 (s, lv) ((i, j), distance)
               = Some (Done (position_correct (s, position_count is13 lv i j) i j
                     (sq_distance (m_rt_geom_1 s) i j)
                     (((\<lambda>x. dmul x 0.1) ^^ p)
                        ((distance - sq_distance (m_rt_geom_1 s) i j)
                          / ((m_eigen_inv_masses s ! i + m_eigen_inv_masses s ! j)
                             * (if \<bar>bond_scalarproduct s i j\<bar> < m_rattle_min s
                                then (if bond_scalarproduct s i j < 0 then - m_rattle_min s else m_rattle_min s)
                                else bond_scalarproduct s i j))))))
             \<and> \<bar>((\<lambda>x. dmul x 0.1) ^^ p)
                        ((distance - sq_distance (m_rt_geom_1 s) i j)
                          / ((m_eigen_inv_masses s ! i + m_eigen_inv_masses s ! j)
                             * (if \<bar>bond_scalarproduct s i j\<bar> < m_rattle_min s
                                then (if bond_scalarproduct s i j < 0 then - m_rattle_min s else m_rattle_min s)
                                else bond_scalarproduct s i j)))\<bar> \<le> m_rattle_max s
             \<and> (\<forall>q<p. m_rattle_max s < \<bar>((\<lambda>x. dmul x 0.1) ^^ q)
                        ((distance - sq_distance (m_rt_geom_1 s) i j)
                          / ((m_eigen_inv_masses s ! i + m_eigen_inv_masses s ! j)
                             * (if \<bar>bond_scalarproduct s i j\<bar> < m_rattle_min s
                                then (if bond_scalarproduct s i j < 0 then - m_rattle_min s else m_rattle_min s)
                                else bond_scalarproduct s i j)))\<bar>)"
    by (rule position_bond_scaled [OF conjunct1 [OF h] conjunct1 [OF conjunct2 [OF h]]
          conjunct2 [OF conjunct2 [OF h]] refl refl])
next
  assume h: "0 \<le> m_rattle_max s
     \<and> (if is13 then moved_13 lv else moved_12 lv) ! i \<noteq> 0
     \<and> (if is13 then moved_13 lv else moved_12 lv) ! j \<noteq> 0
     \<and> velocity_divisor (s, velocity_count is13 lv i j) i j \<noteq> 0"
  show "\<exists>p. velocity_bond is13 (s, lv) ((i, j), distance)
               = Some (Done (velocity_correct (s, velocity_count is13 lv i j) i j
                     (((\<lambda>x. dmul x 0.1) ^^ p)
                        (- 1 * velocity_numerator (s, velocity_count is13 lv i j) i j
                           / velocity_divisor (s, velocity_count is13 lv i j) i j))))
             \<and> \<bar>((\<lambda>x. dmul x 0.1) ^^ p)
                        (- 1 * velocity_numerator (s, velocity_count is13 lv i j) i j
                           / velocity_divisor (s, velocity_count is13 lv i j) i j)\<bar> \<le> m_rattle_max s
             \<and> (\<forall>q<p. m_rattle_max s < \<bar>((\<lambda>x. dmul x 0.1) ^^ q)
                        (- 1 * velocity_numerator (s, velocity_count is13 lv i j) i j
                           / velocity_divisor (s, velocity_count is13 lv i j) i j)\<bar>)"
    by (rule velocity_bond_scaled [OF conjunct1 [OF h] conjunct1 [OF conjunct2 [OF h]]
          conjunct1 [OF conjunct2 [OF conjunct2 [OF h]]] conjunct2 [OF conjunct2 [OF conjunct2 [OF h]]] refl])
qed


theorem rattle_bounds_witness:
  "Rattle_iters rattle_env dimer = Some (Done (2, 2, dimer_next))
   \<and> m_rattle_maxiter dimer = 2
   \<and> 0 \<le> m_rattle_max dimer
   \<and> Rattle_positions dimer \<noteq> None
   \<and> m_rattle_max (fst dimer_turned) = 1 / 100
   \<and> m_rattle_tol_12 (fst dimer_turned) < \<bar>1 - sq_distance (m_rt_geom_1 (fst dimer_turned)) 0 1\<bar>
   \<and> bond_scalarproduct (fst dimer_turned) 0 1 = 0
   \<and> m_rattle_min (fst dimer_turned) = 1 / 1000
   \<and> (m_eigen_inv_masses (fst dimer_turned) ! 0 + m_eigen_inv_masses (fst dimer_turned) ! 1) * (1 / 1000) \<noteq> 0
   \<and> position_bond False dimer_turned ((0, 1), 1)
       = Some (Done (position_correct (fst dimer_turned, position_count False (snd dimer_turned) 0 1) 0 1
                       (121 / 100) (- 21 / 20000)))
   \<and> ((\<lambda>x. dmul x 0.1) ^^ 5) (- 105) = - 21 / 20000
   \<and> m_rt_geom_1 (fst (position_correct (fst dimer_turned, position_count False (snd dimer_turned) 0 1) 0 1
                       (121 / 100) (- 21 / 20000)))
       = [0, 21 / 40000, 0, 11 / 10, - 21 / 40000, 0]
   \<and> position_bond False dimer_predicted ((0, 1), 1)
       = Some (Done (position_correct (fst dimer_predicted, position_count False (snd dimer_predicted) 0 1) 0 1
                       (121 / 100) (- 21 / 2200)))
   \<and> moved_12 dimer_locals ! 0 \<noteq> 0 \<and> moved_12 dimer_locals ! 1 \<noteq> 0
   \<and> velocity_divisor (dimer, velocity_count False dimer_locals 0 1) 0 1 = 2
   \<and> velocity_numerator (dimer, velocity_count False dimer_locals 0 1) 0 1 = 1
   \<and> velocity_bond False (dimer, dimer_locals) ((0, 1), 1)
       = Some (Done (velocity_correct (dimer, velocity_count False dimer_locals 0 1) 0 1 (- 1 / 200)))
   \<and> ((\<lambda>x. dmul x 0.1) ^^ 2) (- 1 / 2) = - 1 / 200
   \<and> m_eigen_velocities (fst (velocity_correct (dimer, velocity_count False dimer_locals 0 1) 0 1 (- 1 / 200)))
       = [1 / 200, 0, 0, 199 / 200, 0, 0]"
proof -
  note r = rattle_bounds [where env = rattle_env and st = dimer and n = 2 and k = 2 and st' = dimer_next
      and s = "fst dimer_turned" and lv = "snd dimer_turned" and i = 0 and j = 1 and distance = 1
      and ?is13.0 = False]
  have a: "m_rattle_maxiter dimer = 2" "0 \<le> m_rattle_max dimer"
    by (simp_all add: dimer_def blank_def)
  from r [THEN conjunct2, THEN conjunct1] a have b: "Rattle_positions dimer \<noteq> None" by simp
  have c: "m_rattle_max (fst dimer_turned) = 1 / 100"
    "m_rattle_tol_12 (fst dimer_turned) < \<bar>1 - sq_distance (m_rt_geom_1 (fst dimer_turned)) 0 1\<bar>"
    "bond_scalarproduct (fst dimer_turned) 0 1 = 0"
    "m_rattle_min (fst dimer_turned) = 1 / 1000"
    "(m_eigen_inv_masses (fst dimer_turned) ! 0 + m_eigen_inv_masses (fst dimer_turned) ! 1) * (1 / 1000) \<noteq> 0"
    by (simp_all add: dimer_turned_def dimer_predicted_def dimer_def blank_def sq_distance_def
        bond_scalarproduct_def Let_def)
  have d: "position_bond False dimer_turned ((0, 1), 1)
       = Some (Done (position_correct (fst dimer_turned, position_count False (snd dimer_turned) 0 1) 0 1
                       (121 / 100) (- 21 / 20000)))"
    by (simp add: position_bond_def dimer_turned_def dimer_predicted_def dimer_def blank_def sq_distance_def
        bond_scalarproduct_def clamp_scalarproduct_def scale_lambda.simps dmul_exact Let_def)
  have e: "((\<lambda>x. dmul x 0.1) ^^ 5) (- 105) = - 21 / 20000"
    by (simp add: numeral_eq_Suc dmul_exact)
  have f: "m_rt_geom_1 (fst (position_correct (fst dimer_turned, position_count False (snd dimer_turned) 0 1) 0 1
                       (121 / 100) (- 21 / 20000)))
       = [0, 21 / 40000, 0, 11 / 10, - 21 / 40000, 0]"
    by (simp add: position_correct_def position_count_def dimer_turned_def dimer_predicted_def dimer_def
        blank_def set3_def Let_def)
  have g: "position_bond False dimer_predicted ((0, 1), 1)
       = Some (Done (position_correct (fst dimer_predicted, position_count False (snd dimer_predicted) 0 1) 0 1
                       (121 / 100) (- 21 / 2200)))"
    by (simp add: position_bond_def dimer_predicted_def dimer_def blank_def sq_distance_def
        bond_scalarproduct_def clamp_scalarproduct_def scale_lambda.simps dmul_exact Let_def)
  have h: "moved_12 dimer_locals ! 0 \<noteq> 0" "moved_12 dimer_locals ! 1 \<noteq> 0"
    "velocity_divisor (dimer, velocity_count False dimer_locals 0 1) 0 1 = 2"
    "velocity_numerator (dimer, velocity_count False dimer_locals 0 1) 0 1 = 1"
    by (simp_all add: dimer_locals_def dimer_def blank_def velocity_divisor_def velocity_numerator_def
        velocity_count_def sq_distance_def Let_def)
  have i: "velocity_bond False (dimer, dimer_locals) ((0, 1), 1)
       = Some (Done (velocity_correct (dimer, velocity_count False dimer_locals 0 1) 0 1 (- 1 / 200)))"
    by (simp add: velocity_bond_def dimer_locals_def dimer_def blank_def velocity_divisor_def
        velocity_numerator_def velocity_count_def sq_distance_def scale_lambda.simps dmul_exact Let_def)
  have j: "((\<lambda>x. dmul x 0.1) ^^ 2) (- 1 / 2) = - 1 / 200"
    by (simp add: numeral_eq_Suc dmul_exact)
  have k: "m_eigen_velocities (fst (velocity_correct (dimer, velocity_count False dimer_locals 0 1) 0 1 (- 1 / 200)))
       = [1 / 200, 0, 0, 199 / 200, 0, 0]"
    by (simp add: velocity_correct_def velocity_count_def dimer_locals_def dimer_def blank_def set3_def
        sq_distance_def Let_def)
  from Rattle_iters_dimer a b c d e f g h i j k show ?thesis by (simp only: simp_thms)
qed

subsection \<open>Masks of the reorder pass\<close>

text \<open>
  The pair loop reads the driver only for the stop file, and when it leaves
  with \<^verbatim>\<open>break\<close> both \<^verbatim>\<open>keep_molecule\<close> and \<^verbatim>\<open>reorder\<close> are false.
\<close>

lemma Reorder_pair_cong:
  "sd_CheckStop drv' = sd_CheckStop drv
   \<Longrightarrow> Reorder_pair drv' dLE dLI dLH mol1 thr acc = Reorder_pair drv dLE dLI dLH mol1 thr acc"
  by (simp add: Reorder_pair_def)

lemma Reorder_pairs_cong:
  "sd_CheckStop drv' = sd_CheckStop drv
   \<Longrightarrow> Reorder_pairs drv' dLE dLI dLH mol1 thrs acc = Reorder_pairs drv dLE dLI dLH mol1 thrs acc"
  by (induction thrs arbitrary: acc) (simp_all add: Reorder_pair_cong [of drv' drv] split: prod.splits ctl.splits)

lemma Reorder_pair_Break:
  "Reorder_pair drv dLE dLI dLH mol1 thr acc = (Break, thr', st', keep', reorder') \<Longrightarrow> \<not> keep' \<and> \<not> reorder'"
  by (auto simp: Reorder_pair_def Let_def split: prod.splits if_splits)

lemma Reorder_pairs_Break:
  "Reorder_pairs drv dLE dLI dLH mol1 thrs acc = (Break, thrs', st', keep', reorder')
   \<Longrightarrow> \<not> keep' \<and> \<not> reorder'"
proof (induction thrs arbitrary: acc thrs')
  case Nil
  then show ?case by simp
next
  case (Cons thr thrs)
  obtain c thr1 st1 k1 r1 where p: "Reorder_pair drv dLE dLI dLH mol1 thr acc = (c, thr1, st1, k1, r1)"
    by (cases "Reorder_pair drv dLE dLI dLH mol1 thr acc") auto
  show ?case
  proof (cases c)
    case Continue
    obtain c2 thrs2 acc2 where r: "Reorder_pairs drv dLE dLI dLH mol1 thrs (st1, k1, r1) = (c2, thrs2, acc2)"
      by (cases "Reorder_pairs drv dLE dLI dLH mol1 thrs (st1, k1, r1)") auto
    with Cons.prems p Continue have "Reorder_pairs drv dLE dLI dLH mol1 thrs (st1, k1, r1) = (Break, thrs2, st', keep', reorder')"
      by simp
    then show ?thesis by (rule Cons.IH)
  next
    case Break
    with Cons.prems p have "k1 = keep'" "r1 = reorder'" by simp_all
    with Reorder_pair_Break p Break show ?thesis by blast
  next
    case Return
    with Cons.prems p show ?thesis by simp
  qed
qed

text \<open>
  C2, as the code has it. For a pair of the candidate \<open>mol\<close> and the reference
  of the worker \<open>thr\<close>, with no stop file found, the pair loop builds the
  3-bit mask from \<open>\<Delta>I < dLI\<close>, \<open>\<Delta>H < dLH\<close>, \<open>\<Delta>E < dLE\<close>, and the pair passes
  (\<open>loose_pass\<close>) when the mask satisfies \<^verbatim>\<open>m_looseThresh\<close> or when all three
  loose thresholds are at most \<open>1e-8\<close>.

  \<^item> For a pair that is not on the exclude list the loop enables the worker
    exactly when the pair passes, and disables it otherwise; a passing pair
    raises the request for the alignment (\<^verbatim>\<open>reorder\<close>) unless the tight mask
    is satisfied.
  \<^item> A passing pair on the exclude list is counted as a duplicate: the loop
    goes on and leaves the worker, \<^verbatim>\<open>keep_molecule\<close> and \<^verbatim>\<open>reorder\<close> as they
    were.
  \<^item> A pair that does not pass disables its worker and leaves the two flags
    as they were.
  \<^item> The loop is left at once exactly when the pair passes, is not excluded
    and the tight mask built from \<^verbatim>\<open>m_dTI\<close>, \<^verbatim>\<open>m_dTH\<close>, \<^verbatim>\<open>m_dTE\<close>
    satisfies \<^verbatim>\<open>m_tightThresh\<close>, with \<^verbatim>\<open>keep_molecule\<close> and \<^verbatim>\<open>reorder\<close>
    false.
  \<^item> When the pair loop of a candidate is left that way, the candidate is
    rejected: the outcome is the state the pair loop left, with the skipped
    workers counted and the candidate rejected.
  \<^item> Whenever the pair loop of a candidate ends without both flags set, no
    alignment is run: the outcome is the same for every driver \<open>drv'\<close> that
    differs from \<open>drv\<close> in anything but the stop file, the pool included.

  Which workers run once an alignment has been requested is decided by the
  pool, or by the loop over all workers that replaces it for the method
  molalign on one thread, and is not part of the statement.
\<close>

theorem reorder_masks:
  assumes stop: "\<not> sd_CheckStop drv mol (thr_reference thr)"
    and same: "sd_CheckStop drv' = sd_CheckStop drv"
    and nonempty: "m_result st \<noteq> []"
    and cutoff: "\<not> ((mol_Energy (m_molecules st ! p) - m_lowest_energy st) * 2625.5 > m_energy_cutoff st
                    \<and> m_energy_cutoff st \<noteq> - 1)"
    and pairs: "Reorder_pairs drv dLE dLI dLH (m_molecules st ! p) threads
                  (st\<lparr>m_current_energy := mol_Energy (m_molecules st ! p),
                      m_dE := (mol_Energy (m_molecules st ! p) - m_lowest_energy st) * 2625.5\<rparr>, True, False)
                = (c, threads', st', keep', reorder')"
  shows "(case Reorder_pair drv dLE dLI dLH mol thr (sc, keep, reorder) of
            (c, thr', sc', keep1, reorder1) \<Rightarrow>
              ((mol_Name mol, mol_Name (thr_reference thr)) \<notin> set (m_exclude_list sc)
                 \<longrightarrow> thr_enabled thr' = loose_pass sc dLE dLI dLH mol (thr_reference thr)
                     \<and> (loose_pass sc dLE dLI dLH mol (thr_reference thr)
                          \<longrightarrow> reorder1 = (\<not> tight_pass sc mol (thr_reference thr))))
              \<and> ((mol_Name mol, mol_Name (thr_reference thr)) \<in> set (m_exclude_list sc)
                   \<and> loose_pass sc dLE dLI dLH mol (thr_reference thr)
                   \<longrightarrow> thr' = thr \<and> c = Continue \<and> keep1 = keep \<and> reorder1 = reorder
                       \<and> m_duplicated sc' = m_duplicated sc + 1)
              \<and> (\<not> loose_pass sc dLE dLI dLH mol (thr_reference thr)
                   \<longrightarrow> \<not> thr_enabled thr' \<and> c = Continue \<and> keep1 = keep \<and> reorder1 = reorder)
              \<and> (c = Break \<longleftrightarrow> loose_pass sc dLE dLI dLH mol (thr_reference thr)
                                \<and> (mol_Name mol, mol_Name (thr_reference thr)) \<notin> set (m_exclude_list sc)
                                \<and> tight_pass sc mol (thr_reference thr))
              \<and> (c = Break \<longrightarrow> \<not> keep1 \<and> \<not> reorder1)
              \<and> c \<noteq> Return)
         \<and> (c = Break \<longrightarrow>
               \<not> keep' \<and> \<not> reorder'
               \<and> Reorder_candidate drv dLE dLI dLH reuse_only p (st, threads, rules)
                   = (if maxrank_reached st' then Break else Continue,
                      RejectMolecule p (st'\<lparr>m_skiped := m_skiped st' + int (length threads')\<rparr>),
                      threads', rules))
         \<and> (\<not> (reorder' \<and> keep') \<longrightarrow>
               Reorder_candidate drv' dLE dLI dLH reuse_only p (st, threads, rules)
                 = Reorder_candidate drv dLE dLI dLH reuse_only p (st, threads, rules))"
proof -
  have a: "case Reorder_pair drv dLE dLI dLH mol thr (sc, keep, reorder) of
            (c, thr', sc', keep1, reorder1) \<Rightarrow>
              ((mol_Name mol, mol_Name (thr_reference thr)) \<notin> set (m_exclude_list sc)
                 \<longrightarrow> thr_enabled thr' = loose_pass sc dLE dLI dLH mol (thr_reference thr)
                     \<and> (loose_pass sc dLE dLI dLH mol (thr_reference thr)
                          \<longrightarrow> reorder1 = (\<not> tight_pass sc mol (thr_reference thr))))
              \<and> ((mol_Name mol, mol_Name (thr_reference thr)) \<in> set (m_exclude_list sc)
                   \<and> loose_pass sc dLE dLI dLH mol (thr_reference thr)
                   \<longrightarrow> thr' = thr \<and> c = Continue \<and> keep1 = keep \<and> reorder1 = reorder
                       \<and> m_duplicated sc' = m_duplicated sc + 1)
              \<and> (\<not> loose_pass sc dLE dLI dLH mol (thr_reference thr)
                   \<longrightarrow> \<not> thr_enabled thr' \<and> c = Continue \<and> keep1 = keep \<and> reorder1 = reorder)
              \<and> (c = Break \<longleftrightarrow> loose_pass sc dLE dLI dLH mol (thr_reference thr)
                                \<and> (mol_Name mol, mol_Name (thr_reference thr)) \<notin> set (m_exclude_list sc)
                                \<and> tight_pass sc mol (thr_reference thr))
              \<and> (c = Break \<longrightarrow> \<not> keep1 \<and> \<not> reorder1)
              \<and> c \<noteq> Return"
    using stop by (simp add: Reorder_pair_def Let_def)
  have b: "\<not> keep' \<and> \<not> reorder'
           \<and> Reorder_candidate drv dLE dLI dLH reuse_only p (st, threads, rules)
             = (if maxrank_reached st' then Break else Continue,
                RejectMolecule p (st'\<lparr>m_skiped := m_skiped st' + int (length threads')\<rparr>), threads', rules)"
    if br: "c = Break"
  proof -
    from Reorder_pairs_Break [OF pairs [unfolded br]] have kr: "\<not> keep'" "\<not> reorder'" by simp_all
    have "Reorder_candidate drv dLE dLI dLH reuse_only p (st, threads, rules)
             = (if maxrank_reached st' then Break else Continue,
                RejectMolecule p (st'\<lparr>m_skiped := m_skiped st' + int (length threads')\<rparr>), threads', rules)"
      using nonempty cutoff pairs [unfolded br] kr
      by (auto simp add: Reorder_candidate_def Let_def RejectMolecule_def maxrank_reached_def)
    with kr show ?thesis by simp
  qed
  from pairs have pairs': "Reorder_pairs drv' dLE dLI dLH (m_molecules st ! p) threads
                  (st\<lparr>m_current_energy := mol_Energy (m_molecules st ! p),
                      m_dE := (mol_Energy (m_molecules st ! p) - m_lowest_energy st) * 2625.5\<rparr>, True, False)
                = (c, threads', st', keep', reorder')"
    by (simp add: Reorder_pairs_cong [OF same])
  have d: "Reorder_candidate drv' dLE dLI dLH reuse_only p (st, threads, rules)
             = Reorder_candidate drv dLE dLI dLH reuse_only p (st, threads, rules)"
    if nr: "\<not> (reorder' \<and> keep')"
  proof -
    have e: "Reorder_candidate d dLE dLI dLH reuse_only p (st, threads, rules)
          = (case c of
               Return \<Rightarrow> (Return, st', threads', rules)
             | _ \<Rightarrow>
               (case (if keep'
                      then (case addThread (m_molecules (st'\<lparr>m_skiped := m_skiped st' + int (length threads')\<rparr>) ! p)
                                   reuse_only
                                   (AcceptMolecule p (st'\<lparr>m_skiped := m_skiped st' + int (length threads')\<rparr>)) of
                              (thread, s) \<Rightarrow> (s, threads' @ [thread]))
                      else (RejectMolecule p (st'\<lparr>m_skiped := m_skiped st' + int (length threads')\<rparr>), threads')) of
                  (s, ts) \<Rightarrow> (if maxrank_reached s then Break else Continue, s, ts, rules)))"
      if "Reorder_pairs d dLE dLI dLH (m_molecules st ! p) threads
                  (st\<lparr>m_current_energy := mol_Energy (m_molecules st ! p),
                      m_dE := (mol_Energy (m_molecules st ! p) - m_lowest_energy st) * 2625.5\<rparr>, True, False)
                = (c, threads', st', keep', reorder')" for d
      using nonempty cutoff that nr
      by (cases c) (auto simp add: Reorder_candidate_def Let_def split: prod.splits)
    from e [OF pairs] e [OF pairs'] show ?thesis by simp
  qed
  from a b d show ?thesis by blast
qed

theorem reorder_masks_witness:
  "\<not> sd_CheckStop (driver_with 0) mol_B (thr_reference worker_A)
   \<and> sd_CheckStop (driver_with 1) = sd_CheckStop (driver_with 0)
   \<and> m_result scan_tight \<noteq> []
   \<and> m_energy_cutoff scan_tight = - 1
   \<and> Reorder_pairs (driver_with 0) 10 1 1 (m_molecules scan_tight ! 1) [worker_A]
         (scan_tight\<lparr>m_current_energy := 1 / 1000, m_dE := 2625.5 / 1000\<rparr>, True, False)
       = (Break, [worker_A],
          scan_tight\<lparr>m_current_energy := 1 / 1000, m_dE := 2625.5 / 1000, m_lastDI := 0, m_lastDH := 0,
                       m_threshold := [mol_A], m_rejected_directly := 1\<rparr>, False, False)
   \<and> loose_pass scan_tight 10 1 1 mol_B mol_A
   \<and> tight_pass scan_tight mol_B mol_A
   \<and> (mol_Name mol_B, mol_Name (thr_reference worker_A)) \<notin> set (m_exclude_list scan_tight)
   \<and> fst (Reorder_pair (driver_with 0) 10 1 1 mol_B (worker_A\<lparr>thr_enabled := False\<rparr>) (scan_tight, True, False)) = Break
   \<and> thr_enabled (fst (snd (Reorder_pair (driver_with 0) 10 1 1 mol_B (worker_A\<lparr>thr_enabled := False\<rparr>)
                              (scan_tight, True, False))))
   \<and> m_rejected_structures (fst (snd (Reorder_candidate (driver_with 0) 10 1 1 False 1 (scan_tight, [worker_A], []))))
       = [1]
   \<and> m_stored_structures (fst (snd (Reorder_candidate (driver_with 0) 10 1 1 False 1 (scan_tight, [worker_A], []))))
       = [0]
   \<and> Reorder_candidate (driver_with 1) 10 1 1 False 1 (scan_tight, [worker_A], [])
       = Reorder_candidate (driver_with 0) 10 1 1 False 1 (scan_tight, [worker_A], [])"
  using reorder_masks [where drv = "driver_with 0" and drv' = "driver_with 1" and mol = mol_B
      and thr = "worker_A\<lparr>thr_enabled := False\<rparr>" and st = scan_tight and p = 1 and dLE = 10 and dLI = 1 and dLH = 1
      and threads = "[worker_A]" and threads' = "[worker_A]" and c = Break
      and st' = "scan_tight\<lparr>m_current_energy := 1 / 1000, m_dE := 2625.5 / 1000, m_lastDI := 0, m_lastDH := 0,
                   m_threshold := [mol_A], m_rejected_directly := 1\<rparr>"
      and keep' = False and reorder' = False and sc = scan_tight and keep = True and reorder = False
      and reuse_only = False and rules = "[]"]
  by (simp add: scan_tight_def scan_AB_def blank_scan_def mol_A_def mol_B_def driver_with_def worker_A_def
      new_thread_def Reorder_pair_def loose_pass_def loose_mask_def tight_pass_def tight_mask_def
      rotational_difference_def image_difference_def energy_difference_def third_def RejectMolecule_def
      maxrank_reached_def Let_def)

text \<open>
  The claim as the specification words it, submitted exactly when the mask
  satisfies \<^verbatim>\<open>looseThresh\<close>, fails in both directions. With all three loose
  thresholds 0 the mask of the pair \<open>B\<close>, \<open>A\<close> is 0 and \<^verbatim>\<open>m_looseThresh\<close> is
  7, yet the worker is enabled, the alignment is asked for and run, and its
  RMSD decides whether \<open>B\<close> is kept. With the thresholds 10, 1 and 1 the mask
  of the pair is 7; a first reorder pass aligns the pair, keeps \<open>B\<close> and puts
  the pair on the exclude list, and in the second pass the pair is counted as
  a duplicate and \<open>B\<close> is accepted without any alignment, although the
  alignment of this pass would reject it, as it does in a pass that starts
  without the exclude list.
\<close>

theorem loose_mask_counterexample:
  "loose_mask 0 0 0 mol_B mol_A AND m_looseThresh scan_AB \<noteq> m_looseThresh scan_AB
   \<and> thr_enabled (fst (snd (Reorder_pair (driver_with 0) 0 0 0 mol_B (worker_A\<lparr>thr_enabled := False\<rparr>)
                              (scan_AB\<lparr>m_result := [0]\<rparr>, True, False))))
   \<and> snd (snd (snd (snd (Reorder_pair (driver_with 0) 0 0 0 mol_B (worker_A\<lparr>thr_enabled := False\<rparr>)
                              (scan_AB\<lparr>m_result := [0]\<rparr>, True, False)))))
   \<and> m_stored_structures (Reorder (driver_with 0) 0 0 0 False False scan_AB) = [0]
   \<and> m_rejected_structures (Reorder (driver_with 0) 0 0 0 False False scan_AB) = [1]
   \<and> m_reordered (Reorder (driver_with 0) 0 0 0 False False scan_AB) = 1
   \<and> m_stored_structures (Reorder (driver_with 1) 0 0 0 False False scan_AB) = [0, 1]
   \<and> loose_mask 10 1 1 mol_B mol_A AND m_looseThresh scan_AB = m_looseThresh scan_AB
   \<and> m_stored_structures (Reorder (driver_with 1) 10 1 1 False False scan_AB) = [0, 1]
   \<and> m_exclude_list (Reorder (driver_with 1) 10 1 1 False False scan_AB) = [(''B'', ''A'')]
   \<and> m_stored_structures (Reorder (driver_with 0) 10 1 1 False False
                             (Reorder (driver_with 1) 10 1 1 False False scan_AB)) = [0, 1]
   \<and> m_reordered (Reorder (driver_with 0) 10 1 1 False False
                     (Reorder (driver_with 1) 10 1 1 False False scan_AB)) = 0
   \<and> m_duplicated (Reorder (driver_with 0) 10 1 1 False False
                      (Reorder (driver_with 1) 10 1 1 False False scan_AB)) = 1
   \<and> m_stored_structures (Reorder (driver_with 0) 10 1 1 False False scan_AB) = [0]"
  by (simp add: Reorder_def Reorder_begin_def scan_AB_def blank_scan_def mol_A_def mol_B_def driver_with_def
      worker_A_def Reorder_candidate_def Reorder_pair_def Reorder_align_def Reorder_collect_def AcceptMolecule_def
      RejectMolecule_def addThread_def new_thread_def loose_pass_def loose_mask_def tight_pass_def
      tight_mask_def rotational_difference_def image_difference_def energy_difference_def third_def
      ConfScanThread_execute_def topo_ok_def maxrank_reached_def AddRules_def push_if_absent_def Let_def)


subsection \<open>Energy ordering\<close>

text \<open>
  \<^verbatim>\<open>openFile\<close> leaves \<^verbatim>\<open>m_ordered_list\<close> sorted by energy, with every
  molecule index at most once; so the energy under which a molecule was entered
  can be read back, and a subsequence of the indices is sorted by it.
\<close>

lemma insert_split_set:
  "set (takeWhile P xs @ e # dropWhile P xs) = insert e (set xs)"
proof -
  have "set (takeWhile P xs @ e # dropWhile P xs) = insert e (set (takeWhile P xs @ dropWhile P xs))"
    by (simp only: set_append list.set Un_insert_right)
  then show ?thesis by (simp only: takeWhile_dropWhile_id)
qed

lemma insert_split_sorted:
  "sorted (map fst xs) \<Longrightarrow>
   sorted (map fst (takeWhile (\<lambda>x. fst x \<le> fst e) xs @ e # dropWhile (\<lambda>x. fst x \<le> fst e) xs))"
  for e :: "real \<times> nat"
proof (induction xs)
  case Nil
  then show ?case by simp
next
  case (Cons x xs)
  define ys where "ys = takeWhile (\<lambda>x. fst x \<le> fst e) xs @ e # dropWhile (\<lambda>x. fst x \<le> fst e) xs"
  have sets: "set ys = insert e (set xs)" unfolding ys_def by (rule insert_split_set)
  from Cons.prems have s: "sorted (map fst xs)" and le: "\<forall>y\<in>set xs. fst x \<le> fst y" by auto
  from Cons.IH [OF s] have sy: "sorted (map fst ys)" unfolding ys_def .
  show ?case
  proof (cases "fst x \<le> fst e")
    case True
    then have eq: "takeWhile (\<lambda>x. fst x \<le> fst e) (x # xs) @ e # dropWhile (\<lambda>x. fst x \<le> fst e) (x # xs) = x # ys"
      unfolding ys_def by simp
    from le True sets have "\<forall>y\<in>set ys. fst x \<le> fst y" by simp
    with sy have "sorted (map fst (x # ys))" by simp
    then show ?thesis by (simp only: eq)
  next
    case False
    then have eq: "takeWhile (\<lambda>x. fst x \<le> fst e) (x # xs) @ e # dropWhile (\<lambda>x. fst x \<le> fst e) (x # xs) = e # x # xs"
      by simp
    from False le have "\<forall>y\<in>set (x # xs). fst e \<le> fst y" by fastforce
    with Cons.prems have "sorted (map fst (e # x # xs))" by simp
    then show ?thesis by (simp only: eq)
  qed
qed

lemma ordered_insert_sorted:
  "sorted (map fst xs) \<Longrightarrow> sorted (map fst (ordered_insert u e xs))"
  for e :: "real \<times> nat"
  using insert_split_sorted [of xs e] by (simp only: ordered_insert_def split: if_split) blast

lemma ordered_insert_set: "set (ordered_insert u e xs) \<subseteq> insert e (set xs)"
  using insert_split_set [of "\<lambda>x. fst x \<le> fst e" xs e]
  by (simp only: ordered_insert_def split: if_split) blast

lemma insert_split_distinct:
  assumes "distinct (map snd xs)" and "snd e \<notin> snd ` set xs"
  shows "distinct (map snd (takeWhile P xs @ e # dropWhile P xs))"
proof -
  have "distinct (map snd (takeWhile P xs @ dropWhile P xs))" using assms(1) by (simp only: takeWhile_dropWhile_id)
  then have d: "distinct (map snd (takeWhile P xs) @ map snd (dropWhile P xs))" by (simp only: map_append)
  have "set (takeWhile P xs) \<subseteq> set xs" "set (dropWhile P xs) \<subseteq> set xs"
    by (auto dest: set_takeWhileD set_dropWhileD)
  with assms(2) have n: "snd e \<notin> set (map snd (takeWhile P xs))" "snd e \<notin> set (map snd (dropWhile P xs))"
    by auto
  from d n have "distinct (map snd (takeWhile P xs) @ snd e # map snd (dropWhile P xs))"
    by (simp only: distinct_append distinct.simps list.set) blast
  then show ?thesis by (simp only: map_append list.map)
qed

lemma ordered_insert_distinct:
  "distinct (map snd xs) \<Longrightarrow> snd e \<notin> snd ` set xs \<Longrightarrow> distinct (map snd (ordered_insert u e xs))"
  using insert_split_distinct [of xs e "\<lambda>x. fst x \<le> fst e"]
  by (simp only: ordered_insert_def split: if_split) blast

lemma openFile_order_sorted:
  "sorted (map fst ord) \<Longrightarrow> sorted (map fst (openFile_order u b m n mols ord))"
  by (induction mols arbitrary: m n ord) (simp_all add: ordered_insert_sorted Let_def)

lemma openFile_order_distinct:
  "distinct (map snd ord) \<Longrightarrow> \<forall>p\<in>snd ` set ord. p < n
   \<Longrightarrow> distinct (map snd (openFile_order u b m n mols ord))"
proof (induction mols arbitrary: m n ord)
  case Nil
  then show ?case by simp
next
  case (Cons mol mols)
  have d: "distinct (map snd (ordered_insert u (e, n) ord))" for e
  proof -
    from Cons.prems(2) have "snd (e, n) \<notin> snd ` set ord" by auto
    with Cons.prems(1) show ?thesis by (rule ordered_insert_distinct)
  qed
  have b: "\<forall>p\<in>snd ` set (ordered_insert u (e, n) ord). p < n + 1" for e
  proof
    fix p assume "p \<in> snd ` set (ordered_insert u (e, n) ord)"
    with ordered_insert_set [of u "(e, n)" ord] have "p = n \<or> p \<in> snd ` set ord" by auto
    with Cons.prems(2) show "p < n + 1" by auto
  qed
  show ?case
    using Cons.IH [OF d b] by (simp add: Let_def)
qed

lemma ordering_energy_entry:
  assumes "distinct (map snd ord)" and "x \<in> set ord"
  shows "ordering_energy ord (snd x) = fst x"
proof -
  have eq: "map fst (map (\<lambda>(e, i). (i, e)) ord) = map snd ord" by (induction ord) auto
  from assms(1) have d: "distinct (map fst (map (\<lambda>(e, i). (i, e)) ord))" by (simp only: eq)
  have "(snd x, fst x) \<in> set (map (\<lambda>(e, i). (i, e)) ord)" using assms(2) by (force simp: case_prod_beta)
  with d have "map_of (map (\<lambda>(e, i). (i, e)) ord) (snd x) = Some (fst x)" by (rule map_of_is_SomeI)
  then show ?thesis by (simp add: ordering_energy_def)
qed

lemma ordering_energy_entries:
  assumes "distinct (map snd ord)"
  shows "map (ordering_energy ord) (map snd ord) = map fst ord"
  using ordering_energy_entry [OF assms] by (simp add: comp_def)

lemma subseq_sorted:
  "subseq xs ys \<Longrightarrow> sorted ys \<Longrightarrow> sorted xs" for ys :: "real list"
proof (induction rule: list_emb.induct)
  case (list_emb_Nil ys)
  then show ?case by simp
next
  case (list_emb_Cons xs ys y)
  then show ?case by simp
next
  case (list_emb_Cons2 x y xs ys)
  from list_emb_Cons2.hyps(2) have "set xs \<subseteq> set ys" by (auto dest: list_emb_set)
  with list_emb_Cons2 show ?case by auto
qed

lemma subseq_ordered:
  assumes "sorted (map fst ord)" and "distinct (map snd ord)" and "subseq ps (map snd ord)"
  shows "sorted (map (ordering_energy ord) ps)"
proof -
  from assms(3) have "subseq (map (ordering_energy ord) ps) (map (ordering_energy ord) (map snd ord))"
    by (rule subseq_map)
  then have "subseq (map (ordering_energy ord) ps) (map fst ord)"
    by (simp only: ordering_energy_entries [OF assms(2)])
  then show ?thesis using assms(1) by (rule subseq_sorted)
qed

text \<open>
  What the two passes do to the lists of structures: a candidate is appended to
  \<^verbatim>\<open>m_result\<close> and \<^verbatim>\<open>m_stored_structures\<close> together or to neither, and
  nothing else writes them; \<^verbatim>\<open>m_all_structures\<close> grows in the initial pass
  only, and \<^verbatim>\<open>m_previously_accepted\<close> is not written.
\<close>

lemma CheckOnly_collect_lists:
  "CheckOnly_collect mol1 t (st, k, r) = (c, st', k', r')
   \<Longrightarrow> m_result st' = m_result st \<and> m_stored_structures st' = m_stored_structures st
       \<and> m_all_structures st' = m_all_structures st \<and> m_previously_accepted st' = m_previously_accepted st"
  by (auto simp: CheckOnly_collect_def Let_def split: if_splits)

lemma CheckOnly_collect_all_lists:
  "CheckOnly_collect_all mol1 ts (st, k, r) = (st', k', r')
   \<Longrightarrow> m_result st' = m_result st \<and> m_stored_structures st' = m_stored_structures st
       \<and> m_all_structures st' = m_all_structures st \<and> m_previously_accepted st' = m_previously_accepted st"
proof (induction ts arbitrary: st k r)
  case Nil
  then show ?case by simp
next
  case (Cons t ts)
  obtain c st1 k1 r1 where p: "CheckOnly_collect mol1 t (st, k, r) = (c, st1, k1, r1)"
    by (cases "CheckOnly_collect mol1 t (st, k, r)") auto
  note l = CheckOnly_collect_lists [OF p]
  show ?case
  proof (cases c)
    case Continue
    with Cons.prems p have "CheckOnly_collect_all mol1 ts (st1, k1, r1) = (st', k', r')" by simp
    from Cons.IH [OF this] l show ?thesis by simp
  next
    case Break
    with Cons.prems p have "st' = st1" by simp
    with l show ?thesis by simp
  next
    case Return
    with Cons.prems p have "st' = st1" by simp
    with l show ?thesis by simp
  qed
qed

lemma CheckOnly_candidate_lists:
  "\<exists>ys zs. m_stored_structures (fst (CheckOnly_candidate drv i (st, thrs))) = m_stored_structures st @ ys
     \<and> m_result (fst (CheckOnly_candidate drv i (st, thrs))) = m_result st @ ys
     \<and> subseq ys [snd i]
     \<and> m_all_structures (fst (CheckOnly_candidate drv i (st, thrs))) = m_all_structures st @ zs
     \<and> subseq zs [snd i]
     \<and> m_previously_accepted (fst (CheckOnly_candidate drv i (st, thrs))) = m_previously_accepted st"
proof -
  let ?st0 = "st\<lparr>m_current_energy := mol_Energy (m_molecules st ! snd i),
                  m_dE := (mol_Energy (m_molecules st ! snd i) - m_lowest_energy st) * 2625.5\<rparr>"
  let ?thr = "sd_StartAndWait drv (ConfScanThreadNoReorder_execute drv (m_molecules st ! snd i)) thrs"
  obtain st1 k1 r1 where c: "CheckOnly_collect_all (m_molecules st ! snd i) ?thr (?st0, True, 10 ^ 4) = (st1, k1, r1)"
    by (cases "CheckOnly_collect_all (m_molecules st ! snd i) ?thr (?st0, True, 10 ^ 4)") auto
  from CheckOnly_collect_all_lists [OF c]
  have l: "m_result st1 = m_result st" "m_stored_structures st1 = m_stored_structures st"
    "m_all_structures st1 = m_all_structures st" "m_previously_accepted st1 = m_previously_accepted st"
    by simp_all
  show ?thesis
    using c l
    by (simp add: CheckOnly_candidate_def Let_def AcceptMolecule_def RejectMolecule_def addThreadNoreorder_def)
qed

lemma CheckOnly_loop_lists:
  "\<exists>ys zs. m_stored_structures (fst (CheckOnly_loop drv entries acc)) = m_stored_structures (fst acc) @ ys
     \<and> m_result (fst (CheckOnly_loop drv entries acc)) = m_result (fst acc) @ ys
     \<and> subseq ys (map snd entries)
     \<and> m_all_structures (fst (CheckOnly_loop drv entries acc)) = m_all_structures (fst acc) @ zs
     \<and> subseq zs (map snd entries)
     \<and> m_previously_accepted (fst (CheckOnly_loop drv entries acc)) = m_previously_accepted (fst acc)"
proof (induction entries arbitrary: acc)
  case Nil
  then show ?case by (simp add: CheckOnly_loop_def)
next
  case (Cons i entries)
  obtain st thrs where acc: "acc = (st, thrs)" by (cases acc) auto
  define acc1 where "acc1 = CheckOnly_candidate drv i (st, thrs)"
  have loop: "CheckOnly_loop drv (i # entries) (st, thrs) = CheckOnly_loop drv entries acc1"
    by (simp add: CheckOnly_loop_def acc1_def)
  from CheckOnly_candidate_lists [of drv i st thrs] obtain ys1 zs1 where
    1: "m_stored_structures (fst acc1) = m_stored_structures st @ ys1"
       "m_result (fst acc1) = m_result st @ ys1" "subseq ys1 [snd i]"
       "m_all_structures (fst acc1) = m_all_structures st @ zs1" "subseq zs1 [snd i]"
       "m_previously_accepted (fst acc1) = m_previously_accepted st"
    unfolding acc1_def by blast
  from Cons.IH [of acc1] obtain ys2 zs2 where
    2: "m_stored_structures (fst (CheckOnly_loop drv entries acc1)) = m_stored_structures (fst acc1) @ ys2"
       "m_result (fst (CheckOnly_loop drv entries acc1)) = m_result (fst acc1) @ ys2"
       "subseq ys2 (map snd entries)"
       "m_all_structures (fst (CheckOnly_loop drv entries acc1)) = m_all_structures (fst acc1) @ zs2"
       "subseq zs2 (map snd entries)"
       "m_previously_accepted (fst (CheckOnly_loop drv entries acc1)) = m_previously_accepted (fst acc1)"
    by blast
  from 1(3) 2(3) have sy: "subseq (ys1 @ ys2) ([snd i] @ map snd entries)" by (rule list_emb_append_mono)
  from 1(5) 2(5) have sz: "subseq (zs1 @ zs2) ([snd i] @ map snd entries)" by (rule list_emb_append_mono)
  show ?case
    apply (rule exI [of _ "ys1 @ ys2"])
    apply (rule exI [of _ "zs1 @ zs2"])
    using 1 2 sy sz by (simp add: loop acc del: Reorder_loop.simps)
qed

lemma Reorder_pair_lists:
  "Reorder_pair drv dLE dLI dLH mol1 thr (st, k, r) = (c, thr', st', k', r')
   \<Longrightarrow> m_result st' = m_result st \<and> m_stored_structures st' = m_stored_structures st
       \<and> m_all_structures st' = m_all_structures st \<and> m_previously_accepted st' = m_previously_accepted st"
  by (auto simp: Reorder_pair_def Let_def split: if_splits)

lemma Reorder_pairs_lists:
  "Reorder_pairs drv dLE dLI dLH mol1 thrs (st, k, r) = (c, thrs', st', k', r')
   \<Longrightarrow> m_result st' = m_result st \<and> m_stored_structures st' = m_stored_structures st
       \<and> m_all_structures st' = m_all_structures st \<and> m_previously_accepted st' = m_previously_accepted st"
proof (induction thrs arbitrary: st k r thrs' c st' k' r')
  case Nil
  then show ?case by simp
next
  case (Cons thr thrs)
  obtain c1 thr1 st1 k1 r1 where p: "Reorder_pair drv dLE dLI dLH mol1 thr (st, k, r) = (c1, thr1, st1, k1, r1)"
    by (cases "Reorder_pair drv dLE dLI dLH mol1 thr (st, k, r)") auto
  note l = Reorder_pair_lists [OF p]
  show ?case
  proof (cases c1)
    case Continue
    obtain c2 thrs2 st2 k2 r2 where q: "Reorder_pairs drv dLE dLI dLH mol1 thrs (st1, k1, r1) = (c2, thrs2, st2, k2, r2)"
      by (cases "Reorder_pairs drv dLE dLI dLH mol1 thrs (st1, k1, r1)") auto
    with Cons.prems p Continue have "st' = st2" by simp
    with Cons.IH [OF q] l show ?thesis by simp
  next
    case Break
    with Cons.prems p have "st' = st1" by simp
    with l show ?thesis by simp
  next
    case Return
    with Cons.prems p have "st' = st1" by simp
    with l show ?thesis by simp
  qed
qed

lemma Reorder_collect_lists:
  "Reorder_collect drv mol1 t (st, rules, k) = (t', st', rules', k')
   \<Longrightarrow> m_result st' = m_result st \<and> m_stored_structures st' = m_stored_structures st
       \<and> m_all_structures st' = m_all_structures st \<and> m_previously_accepted st' = m_previously_accepted st"
  by (auto simp: Reorder_collect_def Let_def split: if_splits prod.splits)

lemma Reorder_collect_all_lists:
  "Reorder_collect_all drv mol1 ts (st, rules, k) = (ts', st', rules', k')
   \<Longrightarrow> m_result st' = m_result st \<and> m_stored_structures st' = m_stored_structures st
       \<and> m_all_structures st' = m_all_structures st \<and> m_previously_accepted st' = m_previously_accepted st"
proof (induction ts arbitrary: st rules k ts' st' rules' k')
  case Nil
  then show ?case by simp
next
  case (Cons t ts)
  obtain t1 st1 rules1 k1 where p: "Reorder_collect drv mol1 t (st, rules, k) = (t1, st1, rules1, k1)"
    by (cases "Reorder_collect drv mol1 t (st, rules, k)") auto
  obtain ts2 st2 rules2 k2 where q: "Reorder_collect_all drv mol1 ts (st1, rules1, k1) = (ts2, st2, rules2, k2)"
    by (cases "Reorder_collect_all drv mol1 ts (st1, rules1, k1)") auto
  from Cons.prems p q have "st' = st2" by simp
  with Cons.IH [OF q] Reorder_collect_lists [OF p] show ?case by simp
qed

lemma Reorder_align_lists:
  "Reorder_align drv mol1 threads (st, rules, k) = (ts', st', rules', k')
   \<Longrightarrow> m_result st' = m_result st \<and> m_stored_structures st' = m_stored_structures st
       \<and> m_all_structures st' = m_all_structures st \<and> m_previously_accepted st' = m_previously_accepted st"
  unfolding Reorder_align_def Let_def prod.case by (rule Reorder_collect_all_lists)

lemma Reorder_candidate_lists:
  "\<exists>ys. m_stored_structures (fst (snd (Reorder_candidate drv dLE dLI dLH reuse_only mol1 (st, threads, rules))))
           = m_stored_structures st @ ys
     \<and> m_result (fst (snd (Reorder_candidate drv dLE dLI dLH reuse_only mol1 (st, threads, rules))))
           = m_result st @ ys
     \<and> subseq ys [mol1]
     \<and> m_all_structures (fst (snd (Reorder_candidate drv dLE dLI dLH reuse_only mol1 (st, threads, rules))))
           = m_all_structures st
     \<and> m_previously_accepted (fst (snd (Reorder_candidate drv dLE dLI dLH reuse_only mol1 (st, threads, rules))))
           = m_previously_accepted st"
proof (cases "m_result st = []")
  case True
  then show ?thesis
    by (simp add: Reorder_candidate_def AcceptMolecule_def addThread_def)
next
  case False
  let ?st0 = "st\<lparr>m_current_energy := mol_Energy (m_molecules st ! mol1),
                  m_dE := (mol_Energy (m_molecules st ! mol1) - m_lowest_energy st) * 2625.5\<rparr>"
  obtain c thr1 st1 k1 r1 where
    p: "Reorder_pairs drv dLE dLI dLH (m_molecules st ! mol1) threads (?st0, True, False) = (c, thr1, st1, k1, r1)"
    by (cases "Reorder_pairs drv dLE dLI dLH (m_molecules st ! mol1) threads (?st0, True, False)") auto
  from Reorder_pairs_lists [OF p]
  have l1: "m_result st1 = m_result st" "m_stored_structures st1 = m_stored_structures st"
    "m_all_structures st1 = m_all_structures st" "m_previously_accepted st1 = m_previously_accepted st"
    by simp_all
  obtain thr2 st2 rules2 k2 where
    a: "Reorder_align drv mol1 thr1 (st1, rules, True) = (thr2, st2, rules2, k2)"
    by (cases "Reorder_align drv mol1 thr1 (st1, rules, True)") auto
  from Reorder_align_lists [OF a] l1
  have l2: "m_result st2 = m_result st" "m_stored_structures st2 = m_stored_structures st"
    "m_all_structures st2 = m_all_structures st" "m_previously_accepted st2 = m_previously_accepted st"
    by simp_all
  show ?thesis
    using False p a l1 l2
    by (cases c) (simp_all add: Reorder_candidate_def Let_def AcceptMolecule_def RejectMolecule_def addThread_def)
qed

lemma Reorder_loop_lists:
  "\<exists>ys. m_stored_structures (fst (snd (Reorder_loop drv dLE dLI dLH reuse_only cached acc)))
           = m_stored_structures (fst acc) @ ys
     \<and> m_result (fst (snd (Reorder_loop drv dLE dLI dLH reuse_only cached acc))) = m_result (fst acc) @ ys
     \<and> subseq ys cached
     \<and> m_all_structures (fst (snd (Reorder_loop drv dLE dLI dLH reuse_only cached acc)))
           = m_all_structures (fst acc)
     \<and> m_previously_accepted (fst (snd (Reorder_loop drv dLE dLI dLH reuse_only cached acc)))
           = m_previously_accepted (fst acc)"
proof (induction cached arbitrary: acc)
  case Nil
  then show ?case by simp
next
  case (Cons mol1 cached)
  obtain st threads rules where acc: "acc = (st, threads, rules)" by (cases acc) auto
  obtain c acc1 where r: "Reorder_candidate drv dLE dLI dLH reuse_only mol1 (st, threads, rules) = (c, acc1)"
    by (cases "Reorder_candidate drv dLE dLI dLH reuse_only mol1 (st, threads, rules)") auto
  from Reorder_candidate_lists [of drv dLE dLI dLH reuse_only mol1 st threads rules] r obtain ys1 where
    1: "m_stored_structures (fst acc1) = m_stored_structures st @ ys1"
       "m_result (fst acc1) = m_result st @ ys1" "subseq ys1 [mol1]"
       "m_all_structures (fst acc1) = m_all_structures st"
       "m_previously_accepted (fst acc1) = m_previously_accepted st"
    by auto
  show ?case
  proof (cases c)
    case Continue
    then have loop: "Reorder_loop drv dLE dLI dLH reuse_only (mol1 # cached) (st, threads, rules)
                     = Reorder_loop drv dLE dLI dLH reuse_only cached acc1"
      using r by simp
    from Cons.IH [of acc1] obtain ys2 where
      2: "m_stored_structures (fst (snd (Reorder_loop drv dLE dLI dLH reuse_only cached acc1)))
            = m_stored_structures (fst acc1) @ ys2"
         "m_result (fst (snd (Reorder_loop drv dLE dLI dLH reuse_only cached acc1))) = m_result (fst acc1) @ ys2"
         "subseq ys2 cached"
         "m_all_structures (fst (snd (Reorder_loop drv dLE dLI dLH reuse_only cached acc1)))
            = m_all_structures (fst acc1)"
         "m_previously_accepted (fst (snd (Reorder_loop drv dLE dLI dLH reuse_only cached acc1)))
            = m_previously_accepted (fst acc1)"
      by blast
    from 1(3) 2(3) have sy: "subseq (ys1 @ ys2) ([mol1] @ cached)" by (rule list_emb_append_mono)
    show ?thesis
      apply (rule exI [of _ "ys1 @ ys2"])
      using 1 2 sy by (simp add: loop acc del: Reorder_loop.simps)
  next
    case Break
    then have loop: "Reorder_loop drv dLE dLI dLH reuse_only (mol1 # cached) (st, threads, rules) = (Break, acc1)"
      using r by simp
    from 1(3) have sy: "subseq (ys1 @ []) ([mol1] @ cached)" by (rule list_emb_append_mono) simp
    show ?thesis
      apply (rule exI [of _ ys1])
      using 1 sy by (simp add: loop acc del: Reorder_loop.simps)
  next
    case Return
    then have loop: "Reorder_loop drv dLE dLI dLH reuse_only (mol1 # cached) (st, threads, rules) = (Return, acc1)"
      using r by simp
    from 1(3) have sy: "subseq (ys1 @ []) ([mol1] @ cached)" by (rule list_emb_append_mono) simp
    show ?thesis
      apply (rule exI [of _ ys1])
      using 1 sy by (simp add: loop acc del: Reorder_loop.simps)
  qed
qed

lemma openFile_order_file:
  assumes "\<forall>mol\<in>set mols. 1 / 10 ^ 5 \<le> \<bar>mol_Energy mol\<bar>"
    and "\<forall>x\<in>set ord. snd x < n \<and> fst x = mol_Energy (all ! snd x)"
    and "\<forall>j<length mols. all ! (n + j) = mols ! j"
  shows "\<forall>x\<in>set (openFile_order u b [] n mols ord). fst x = mol_Energy (all ! snd x)"
  using assms
proof (induction mols arbitrary: n ord)
  case Nil
  then show ?case by simp
next
  case (Cons mol mols)
  from Cons.prems(1) have e: "\<not> \<bar>mol_Energy mol\<bar> < 1 / 10 ^ 5" and rest: "\<forall>mol\<in>set mols. 1 / 10 ^ 5 \<le> \<bar>mol_Energy mol\<bar>"
    by auto
  from Cons.prems(3) have here: "all ! n = mol" by force
  have shift: "\<forall>j<length mols. all ! (n + 1 + j) = mols ! j"
  proof (intro allI impI)
    fix j assume "j < length mols"
    then have "Suc j < length (mol # mols)" by simp
    with Cons.prems(3) have "all ! (n + Suc j) = (mol # mols) ! Suc j" by blast
    then show "all ! (n + 1 + j) = mols ! j" by simp
  qed
  have ins: "\<forall>x\<in>set (ordered_insert u (mol_Energy mol, n) ord). snd x < n + 1 \<and> fst x = mol_Energy (all ! snd x)"
  proof
    fix x assume "x \<in> set (ordered_insert u (mol_Energy mol, n) ord)"
    with ordered_insert_set [of u "(mol_Energy mol, n)" ord] have "x = (mol_Energy mol, n) \<or> x \<in> set ord" by auto
    with Cons.prems(2) here show "snd x < n + 1 \<and> fst x = mol_Energy (all ! snd x)" by auto
  qed
  from Cons.IH [OF rest ins shift] e show ?case by simp
qed

lemma subseq_take_map: "subseq ps (map snd (take k ord)) \<Longrightarrow> subseq ps (map snd ord)"
proof -
  have "prefix (take k (map snd ord)) (map snd ord)" by (rule take_is_prefix)
  then have "subseq (map snd (take k ord)) (map snd ord)" by (simp only: take_map prefix_imp_subseq)
  then show "subseq ps (map snd (take k ord)) \<Longrightarrow> subseq ps (map snd ord)"
    by (rule subseq_order.trans [rotated])
qed

lemma subseq_take: "subseq ps (take k qs) \<Longrightarrow> subseq ps qs"
proof -
  have "subseq (take k qs) qs" by (rule prefix_imp_subseq) (rule take_is_prefix)
  then show "subseq ps (take k qs) \<Longrightarrow> subseq ps qs" by (rule subseq_order.trans [rotated])
qed

lemma calibrate_loose_frame:
  "(calibrate_loose st)\<lparr>m_dLI := 0, m_dLH := 0, m_dLE := 0\<rparr> = st\<lparr>m_dLI := 0, m_dLH := 0, m_dLE := 0\<rparr>"
proof -
  have "(fold (\<lambda>i st. st\<lparr>m_dLI := max (m_dLI st) (snd i ! 2),
                        m_dLH := max (m_dLH st) (snd i ! 1),
                        m_dLE := max (m_dLE st) (snd i ! 0)\<rparr>) xs st)\<lparr>m_dLI := 0, m_dLH := 0, m_dLE := 0\<rparr>
          = st\<lparr>m_dLI := 0, m_dLH := 0, m_dLE := 0\<rparr>" for xs :: "(real \<times> real list) list"
    by (induction xs arbitrary: st) simp_all
  then show ?thesis by (simp only: calibrate_loose_def)
qed

lemma calibrate_loose_stored: "m_stored_structures (calibrate_loose st) = m_stored_structures st"
  using arg_cong [OF calibrate_loose_frame, of m_stored_structures st] by simp

lemma CheckOnly_stored:
  "m_stored_structures (CheckOnly drv st)
     = m_stored_structures (fst (CheckOnly_loop drv (m_ordered_list st) (st\<lparr>m_energies := []\<rparr>, [])))"
  by (simp add: CheckOnly_def Let_def calibrate_loose_stored)

lemma CheckOnly_loop_fresh:
  assumes "m_stored_structures st = []" and "m_all_structures st = []"
    and "m_result st = m_previously_accepted st"
  shows "subseq (m_stored_structures (fst (CheckOnly_loop drv entries (st\<lparr>m_energies := []\<rparr>, []))))
           (map snd entries)
       \<and> subseq (m_all_structures (fst (CheckOnly_loop drv entries (st\<lparr>m_energies := []\<rparr>, []))))
           (map snd entries)
       \<and> m_result (fst (CheckOnly_loop drv entries (st\<lparr>m_energies := []\<rparr>, [])))
           = m_previously_accepted st
             @ m_stored_structures (fst (CheckOnly_loop drv entries (st\<lparr>m_energies := []\<rparr>, [])))"
  using CheckOnly_loop_lists [of drv entries "(st\<lparr>m_energies := []\<rparr>, [])"] assms by auto

lemma Reorder_loop_begin:
  assumes "subseq (m_stored_structures s) ps" and "subseq (m_all_structures s) ps"
  shows "subseq (fst (Reorder_begin reset s)) ps
       \<and> subseq (m_stored_structures (fst (snd (Reorder_loop drv dLE dLI dLH reuse_only
                    (take k (fst (Reorder_begin reset s))) (snd (Reorder_begin reset s), [], []))))) ps
       \<and> subseq (m_all_structures (fst (snd (Reorder_loop drv dLE dLI dLH reuse_only
                    (take k (fst (Reorder_begin reset s))) (snd (Reorder_begin reset s), [], []))))) ps
       \<and> m_result (fst (snd (Reorder_loop drv dLE dLI dLH reuse_only
                    (take k (fst (Reorder_begin reset s))) (snd (Reorder_begin reset s), [], []))))
           = m_previously_accepted s
             @ m_stored_structures (fst (snd (Reorder_loop drv dLE dLI dLH reuse_only
                    (take k (fst (Reorder_begin reset s))) (snd (Reorder_begin reset s), [], []))))"
proof -
  define cached where "cached = fst (Reorder_begin reset s)"
  define s0 where "s0 = snd (Reorder_begin reset s)"
  have c: "subseq cached ps" using assms by (simp add: cached_def Reorder_begin_def Let_def)
  have 0: "m_stored_structures s0 = []" "m_result s0 = m_previously_accepted s"
    "m_all_structures s0 = m_all_structures s" "m_previously_accepted s0 = m_previously_accepted s"
    by (simp_all add: s0_def Reorder_begin_def Let_def)
  from Reorder_loop_lists [of drv dLE dLI dLH reuse_only "take k cached" "(s0, [], [])"] obtain ys where
    1: "m_stored_structures (fst (snd (Reorder_loop drv dLE dLI dLH reuse_only (take k cached) (s0, [], [])))) = ys"
       "m_result (fst (snd (Reorder_loop drv dLE dLI dLH reuse_only (take k cached) (s0, [], []))))
          = m_previously_accepted s @ ys"
       "subseq ys (take k cached)"
       "m_all_structures (fst (snd (Reorder_loop drv dLE dLI dLH reuse_only (take k cached) (s0, [], []))))
          = m_all_structures s"
    using 0 by auto
  from 1(3) have "subseq ys cached" by (rule subseq_take)
  then have "subseq ys ps" using c by (rule subseq_order.trans)
  with 1 c assms(2) show ?thesis unfolding cached_def s0_def by simp
qed

lemma subseq_subset: "subseq ps qs \<Longrightarrow> set ps \<subseteq> set qs"
  by (auto dest: list_emb_set)

text \<open>
  C6, as the code has it. Let \<open>st\<close> be the scanner as \<^verbatim>\<open>openFile\<close> leaves
  it: the ordered list filled from the molecules read, nothing stored yet,
  \<^verbatim>\<open>m_result\<close> holding the previously accepted structures. The energy of a
  candidate is the energy under which \<^verbatim>\<open>openFile\<close> entered it into
  \<^verbatim>\<open>m_ordered_list\<close> (\<open>ordering_energy\<close>): the energy of the file, or the
  computed one when the energy of the file is below \<open>1e-5\<close> in magnitude or
  a method is set. Two lists hold accepted structures: \<^verbatim>\<open>m_stored_structures\<close>
  those accepted in the running pass, and \<^verbatim>\<open>m_result\<close> the previously
  accepted structures followed by those.

  \<^item> The initial pass consumes \<^verbatim>\<open>m_ordered_list\<close>, which is sorted by energy.
    After any number \<open>k\<close> of its candidates, and at its end,
    \<^verbatim>\<open>m_stored_structures\<close> is non-decreasing in energy, and it and
    \<^verbatim>\<open>m_all_structures\<close> are subsequences of the ordered list; \<^verbatim>\<open>m_result\<close>
    is the previously accepted structures followed by \<^verbatim>\<open>m_stored_structures\<close>,
    and is non-decreasing in energy when there are no previously accepted
    structures.
  \<^item> A reorder or reuse pass that starts from a scanner \<open>s\<close> whose stored and
    all-structures lists are such subsequences consumes a list \<open>cached\<close> that
    is non-decreasing in energy; after any number \<open>k\<close> of its candidates, and
    at its end, the same holds of \<^verbatim>\<open>m_stored_structures\<close> and \<^verbatim>\<open>m_result\<close>,
    and both lists are such subsequences again, so that the next pass starts
    the same way.
  \<^item> When no method is set and every energy of the file is at least \<open>1e-5\<close>
    in magnitude, the energy is the energy of the molecule.
  \<^item> A candidate that is considered while \<^verbatim>\<open>m_result\<close> is empty is accepted
    whatever the driver, the workers and the thresholds are: in the initial
    pass a candidate is considered when it is not passed over for \<^verbatim>\<open>m_skip\<close>
    or \<^verbatim>\<open>m_maxrank\<close> and is not discarded by \<^verbatim>\<open>Check()\<close>, in a reorder pass
    every candidate is.
\<close>

theorem energy_ordering:
  assumes ord: "m_ordered_list st = openFile_order unique backend m_method 0 mols []"
    and fresh: "m_stored_structures st = []" "m_all_structures st = []"
      "m_result st = m_previously_accepted st"
    and inv: "subseq (m_stored_structures s) (map snd (m_ordered_list st))"
      "subseq (m_all_structures s) (map snd (m_ordered_list st))"
    and empty: "m_result f = []"
    and considered: "m_skip f = 0" "\<not> (m_maxrank f \<le> m_accepted f \<and> m_maxrank f > - 1)"
      "mol_Check (m_molecules f ! snd i) \<noteq> 1"
  shows "sorted (map fst (m_ordered_list st))
    \<and> (let s1 = fst (CheckOnly_loop drv (take k (m_ordered_list st)) (st\<lparr>m_energies := []\<rparr>, []))
       in sorted (map (ordering_energy (m_ordered_list st)) (m_stored_structures s1))
        \<and> subseq (m_stored_structures s1) (map snd (m_ordered_list st))
        \<and> subseq (m_all_structures s1) (map snd (m_ordered_list st))
        \<and> m_result s1 = m_previously_accepted st @ m_stored_structures s1
        \<and> (m_previously_accepted st = []
             \<longrightarrow> sorted (map (ordering_energy (m_ordered_list st)) (m_result s1)))
        \<and> (m_method = [] \<and> (\<forall>mol\<in>set mols. 1 / 10 ^ 5 \<le> \<bar>mol_Energy mol\<bar>)
             \<longrightarrow> sorted (map (\<lambda>p. mol_Energy (mols ! p)) (m_stored_structures s1))))
    \<and> sorted (map (ordering_energy (m_ordered_list st)) (m_stored_structures (CheckOnly drv st)))
    \<and> (let cached = fst (Reorder_begin reset s);
            s2 = fst (snd (Reorder_loop drv dLE dLI dLH reuse_only (take k cached)
                             (snd (Reorder_begin reset s), [], [])))
       in sorted (map (ordering_energy (m_ordered_list st)) cached)
        \<and> sorted (map (ordering_energy (m_ordered_list st)) (m_stored_structures s2))
        \<and> subseq (m_stored_structures s2) (map snd (m_ordered_list st))
        \<and> subseq (m_all_structures s2) (map snd (m_ordered_list st))
        \<and> m_result s2 = m_previously_accepted s @ m_stored_structures s2
        \<and> (m_previously_accepted s = []
             \<longrightarrow> sorted (map (ordering_energy (m_ordered_list st)) (m_result s2)))
        \<and> (m_method = [] \<and> (\<forall>mol\<in>set mols. 1 / 10 ^ 5 \<le> \<bar>mol_Energy mol\<bar>)
             \<longrightarrow> sorted (map (\<lambda>p. mol_Energy (mols ! p)) (m_stored_structures s2))))
    \<and> sorted (map (ordering_energy (m_ordered_list st))
                (m_stored_structures (Reorder drv dLE dLI dLH reuse_only reset s)))
    \<and> m_stored_structures (fst (CheckOnly_candidate drv i (f, threads))) = m_stored_structures f @ [snd i]
    \<and> m_result (fst (CheckOnly_candidate drv i (f, threads))) = [snd i]
    \<and> m_stored_structures (fst (snd (Reorder_candidate drv dLE dLI dLH reuse_only p (f, workers, rules))))
        = m_stored_structures f @ [p]
    \<and> m_result (fst (snd (Reorder_candidate drv dLE dLI dLH reuse_only p (f, workers, rules)))) = [p]"
proof -
  define ol where "ol = m_ordered_list st"
  have so: "sorted (map fst ol)"
    unfolding ol_def ord by (rule openFile_order_sorted) simp
  have di: "distinct (map snd ol)"
    unfolding ol_def ord by (rule openFile_order_distinct) simp_all
  note key = subseq_ordered [OF so di]
  have byfile: "sorted (map (\<lambda>p. mol_Energy (mols ! p)) ps)"
    if m: "m_method = []" and e: "\<forall>mol\<in>set mols. 1 / 10 ^ 5 \<le> \<bar>mol_Energy mol\<bar>" and ps: "subseq ps (map snd ol)" for ps
  proof -
    have "\<forall>x\<in>set (openFile_order unique backend [] 0 mols []). fst x = mol_Energy (mols ! snd x)"
      by (rule openFile_order_file [OF e]) simp_all
    then have en: "\<forall>x\<in>set ol. fst x = mol_Energy (mols ! snd x)" unfolding ol_def ord m .
    have "ordering_energy ol q = mol_Energy (mols ! q)" if "q \<in> set ps" for q
    proof -
      from subseq_subset [OF ps] that obtain x where x: "x \<in> set ol" "q = snd x" by auto
      from ordering_energy_entry [OF di x(1)] en x show ?thesis by simp
    qed
    then have "map (ordering_energy ol) ps = map (\<lambda>p. mol_Energy (mols ! p)) ps" by simp
    with key [OF ps] show ?thesis by simp
  qed
  define s1 where "s1 = fst (CheckOnly_loop drv (take k ol) (st\<lparr>m_energies := []\<rparr>, []))"
  from CheckOnly_loop_fresh [OF fresh, of drv "take k ol"]
  have c0: "subseq (m_stored_structures s1) (map snd (take k ol))"
    "subseq (m_all_structures s1) (map snd (take k ol))"
    "m_result s1 = m_previously_accepted st @ m_stored_structures s1"
    unfolding s1_def by simp_all
  from c0(1) have c1: "subseq (m_stored_structures s1) (map snd ol)" by (rule subseq_take_map)
  from c0(2) have c2: "subseq (m_all_structures s1) (map snd ol)" by (rule subseq_take_map)
  have c3: "m_previously_accepted st = [] \<longrightarrow> sorted (map (ordering_energy ol) (m_result s1))"
    using key [OF c1] c0(3) by simp
  have A: "sorted (map (ordering_energy ol) (m_stored_structures s1))
        \<and> subseq (m_stored_structures s1) (map snd ol)
        \<and> subseq (m_all_structures s1) (map snd ol)
        \<and> m_result s1 = m_previously_accepted st @ m_stored_structures s1
        \<and> (m_previously_accepted st = [] \<longrightarrow> sorted (map (ordering_energy ol) (m_result s1)))
        \<and> (m_method = [] \<and> (\<forall>mol\<in>set mols. 1 / 10 ^ 5 \<le> \<bar>mol_Energy mol\<bar>)
             \<longrightarrow> sorted (map (\<lambda>p. mol_Energy (mols ! p)) (m_stored_structures s1)))"
    using key [OF c1] c1 c2 c0(3) c3 byfile [OF _ _ c1] by blast
  from CheckOnly_loop_fresh [OF fresh, of drv ol]
  have "subseq (m_stored_structures (CheckOnly drv st)) (map snd ol)"
    by (simp add: CheckOnly_stored ol_def)
  then have B: "sorted (map (ordering_energy ol) (m_stored_structures (CheckOnly drv st)))" by (rule key)
  define cached where "cached = fst (Reorder_begin reset s)"
  define s2 where "s2 = fst (snd (Reorder_loop drv dLE dLI dLH reuse_only (take k cached)
                             (snd (Reorder_begin reset s), [], [])))"
  from Reorder_loop_begin [OF inv [folded ol_def], of reset drv dLE dLI dLH reuse_only k]
  have r: "subseq cached (map snd ol)" "subseq (m_stored_structures s2) (map snd ol)"
    "subseq (m_all_structures s2) (map snd ol)"
    "m_result s2 = m_previously_accepted s @ m_stored_structures s2"
    unfolding cached_def s2_def by simp_all
  have r5: "m_previously_accepted s = [] \<longrightarrow> sorted (map (ordering_energy ol) (m_result s2))"
    using key [OF r(2)] r(4) by simp
  have C: "sorted (map (ordering_energy ol) cached)
        \<and> sorted (map (ordering_energy ol) (m_stored_structures s2))
        \<and> subseq (m_stored_structures s2) (map snd ol)
        \<and> subseq (m_all_structures s2) (map snd ol)
        \<and> m_result s2 = m_previously_accepted s @ m_stored_structures s2
        \<and> (m_previously_accepted s = [] \<longrightarrow> sorted (map (ordering_energy ol) (m_result s2)))
        \<and> (m_method = [] \<and> (\<forall>mol\<in>set mols. 1 / 10 ^ 5 \<le> \<bar>mol_Energy mol\<bar>)
             \<longrightarrow> sorted (map (\<lambda>p. mol_Energy (mols ! p)) (m_stored_structures s2)))"
    using key [OF r(1)] key [OF r(2)] r(2,3,4) r5 byfile [OF _ _ r(2)] by blast
  from Reorder_loop_begin [OF inv [folded ol_def], of reset drv dLE dLI dLH reuse_only "length (fst (Reorder_begin reset s))"]
  have "subseq (m_stored_structures (Reorder drv dLE dLI dLH reuse_only reset s)) (map snd ol)"
    by (simp add: Reorder_def case_prod_beta)
  then have D: "sorted (map (ordering_energy ol) (m_stored_structures (Reorder drv dLE dLI dLH reuse_only reset s)))"
    by (rule key)
  have E: "m_stored_structures (fst (CheckOnly_candidate drv i (f, threads))) = m_stored_structures f @ [snd i]
    \<and> m_result (fst (CheckOnly_candidate drv i (f, threads))) = [snd i]"
    using empty considered
    by (simp add: CheckOnly_candidate_def Let_def AcceptMolecule_def addThreadNoreorder_def)
  have F: "m_stored_structures (fst (snd (Reorder_candidate drv dLE dLI dLH reuse_only p (f, workers, rules))))
        = m_stored_structures f @ [p]
    \<and> m_result (fst (snd (Reorder_candidate drv dLE dLI dLH reuse_only p (f, workers, rules)))) = [p]"
    using empty by (simp add: Reorder_candidate_def AcceptMolecule_def addThread_def)
  from so A B C D E F show ?thesis
    unfolding Let_def ol_def s1_def cached_def s2_def by blast
qed

theorem energy_ordering_witness:
  "m_ordered_list scan_BC = openFile_order False backend_zero [] 0 [mol_B, mol_C] []
   \<and> m_stored_structures scan_BC = [] \<and> m_all_structures scan_BC = []
   \<and> m_result scan_BC = m_previously_accepted scan_BC \<and> m_previously_accepted scan_BC = []
   \<and> subseq (m_stored_structures (scan_BC\<lparr>m_stored_structures := [1, 0], m_all_structures := [1, 0]\<rparr>))
        (map snd (m_ordered_list scan_BC))
   \<and> subseq (m_all_structures (scan_BC\<lparr>m_stored_structures := [1, 0], m_all_structures := [1, 0]\<rparr>))
        (map snd (m_ordered_list scan_BC))
   \<and> m_result scan_BC = [] \<and> m_skip scan_BC = 0 \<and> m_maxrank scan_BC = - 1
   \<and> mol_Check (m_molecules scan_BC ! 1) \<noteq> 1
   \<and> m_stored_structures (CheckOnly (driver_with 0) scan_BC) = [1, 0]
   \<and> map (ordering_energy (m_ordered_list scan_BC)) [1, 0] = [- 1 / 1000, 1 / 1000]
   \<and> sorted (map (ordering_energy (m_ordered_list scan_BC))
         (m_stored_structures (CheckOnly (driver_with 0) scan_BC)))
   \<and> m_stored_structures (Reorder (driver_with 0) 0 0 0 False False
         (scan_BC\<lparr>m_stored_structures := [1, 0], m_all_structures := [1, 0]\<rparr>)) = [1]
   \<and> sorted (map (ordering_energy (m_ordered_list scan_BC))
         (m_stored_structures (Reorder (driver_with 0) 0 0 0 False False
            (scan_BC\<lparr>m_stored_structures := [1, 0], m_all_structures := [1, 0]\<rparr>))))
   \<and> m_stored_structures (fst (CheckOnly_candidate (driver_with 0) (- 1 / 1000, 1) (scan_BC, []))) = [1]
   \<and> m_stored_structures (fst (snd (Reorder_candidate (driver_with 0) 0 0 0 False 1 (scan_BC, [], [])))) = [1]"
  using energy_ordering [where st = scan_BC and unique = False and backend = backend_zero and m_method = "[]"
      and mols = "[mol_B, mol_C]"
      and s = "scan_BC\<lparr>m_stored_structures := [1, 0], m_all_structures := [1, 0]\<rparr>"
      and f = scan_BC and i = "(- 1 / 1000, 1)" and drv = "driver_with 0" and k = 2 and reset = False
      and dLE = 0 and dLI = 0 and dLH = 0 and reuse_only = False and threads = "[]" and p = 1
      and workers = "[]" and rules = "[]"]
  by (simp add: scan_BC_def blank_scan_def mol_A_def mol_B_def mol_C_def driver_with_def backend_zero_def
      ordered_insert_def ordering_energy_def calibrate_loose_def
      CheckOnly_def CheckOnly_loop_def CheckOnly_candidate_def CheckOnly_collect_def
      ConfScanThreadNoReorder_execute_def addThreadNoreorder_def
      Reorder_def Reorder_begin_def Reorder_candidate_def Reorder_pair_def Reorder_align_def
      Reorder_collect_def AcceptMolecule_def RejectMolecule_def addThread_def new_thread_def loose_pass_def
      loose_mask_def tight_pass_def tight_mask_def rotational_difference_def image_difference_def
      energy_difference_def third_def ConfScanThread_execute_def topo_ok_def maxrank_reached_def
      AddRules_def push_if_absent_def Let_def)

text \<open>
  The claim as the specification words it fails for either reading of the
  accepted set, and for the energies of the molecules.

  \<^item> With a previously accepted structure \<open>P\<close> of energy 1, the initial pass
    accepts \<open>B\<close> of energy 0.001 behind it: \<^verbatim>\<open>m_result\<close> is \<open>P\<close>, \<open>B\<close>, which
    is decreasing in energy.
  \<^item> In the reorder pass that follows, \<open>B\<close> is the first candidate and
    \<^verbatim>\<open>m_stored_structures\<close> is empty, but \<^verbatim>\<open>m_result\<close> holds \<open>P\<close>: the
    candidate is tested against the energy cut-off and the pass ends with
    \<open>B\<close> neither accepted nor rejected.
  \<^item> \<open>X\<close> has no energy in its file, so the backend is asked for both \<open>X\<close>
    and \<open>C\<close>: the ordered list holds them under -2 and -1, the initial pass
    consumes and accepts \<open>X\<close> before \<open>C\<close>, and the energies of the two
    molecules are 0 and -0.001.
\<close>

theorem accepted_set_counterexample:
  "m_result scan_prev = [1] \<and> m_stored_structures scan_prev = []
   \<and> m_ordered_list scan_prev = [(1 / 1000, 0)]
   \<and> m_result (CheckOnly (driver_with 0) scan_prev) = [1, 0]
   \<and> m_stored_structures (CheckOnly (driver_with 0) scan_prev) = [0]
   \<and> mol_Energy (m_molecules (CheckOnly (driver_with 0) scan_prev) ! 1) = 1
   \<and> mol_Energy (m_molecules (CheckOnly (driver_with 0) scan_prev) ! 0) = 1 / 1000
   \<and> mol_Energy (m_molecules (CheckOnly (driver_with 0) scan_prev) ! 0)
       < mol_Energy (m_molecules (CheckOnly (driver_with 0) scan_prev) ! 1)
   \<and> fst (Reorder_begin False (CheckOnly (driver_with 0) scan_prev)) = [0]
   \<and> m_stored_structures (snd (Reorder_begin False (CheckOnly (driver_with 0) scan_prev))) = []
   \<and> m_result (snd (Reorder_begin False (CheckOnly (driver_with 0) scan_prev))) = [1]
   \<and> m_stored_structures (Reorder (driver_with 0) 0 0 0 False False (CheckOnly (driver_with 0) scan_prev)) = []
   \<and> m_rejected_structures (Reorder (driver_with 0) 0 0 0 False False (CheckOnly (driver_with 0) scan_prev)) = []
   \<and> m_ordered_list scan_XC = [(- 2, 0), (- 1, 1)]
   \<and> m_stored_structures (CheckOnly (driver_with 0) scan_XC) = [0, 1]
   \<and> mol_Energy (m_molecules (CheckOnly (driver_with 0) scan_XC) ! 0) = 0
   \<and> mol_Energy (m_molecules (CheckOnly (driver_with 0) scan_XC) ! 1) = - 1 / 1000
   \<and> mol_Energy (m_molecules (CheckOnly (driver_with 0) scan_XC) ! 1)
       < mol_Energy (m_molecules (CheckOnly (driver_with 0) scan_XC) ! 0)"
  by (simp add: scan_prev_def scan_XC_def openFile_def blank_scan_def mol_A_def mol_B_def mol_C_def mol_P_def
      mol_X_def driver_with_def backend_zero_def backend_X_def
      ordered_insert_def ordering_energy_def calibrate_loose_def
      CheckOnly_def CheckOnly_loop_def CheckOnly_candidate_def CheckOnly_collect_def
      ConfScanThreadNoReorder_execute_def addThreadNoreorder_def
      Reorder_def Reorder_begin_def Reorder_candidate_def Reorder_pair_def Reorder_align_def
      Reorder_collect_def AcceptMolecule_def RejectMolecule_def addThread_def new_thread_def loose_pass_def
      loose_mask_def tight_pass_def tight_mask_def rotational_difference_def image_difference_def
      energy_difference_def third_def ConfScanThread_execute_def topo_ok_def maxrank_reached_def
      AddRules_def push_if_absent_def Let_def)


end
